theory Spec2Isabelle
  imports Complex_Main
begin

section \<open>Python strings\<close>

text \<open>
  A Python \<open>str\<close> is modelled by a HOL \<open>string\<close> holding its UTF-8 bytes (text
  without lone surrogates). The source applies \<open>lower\<close>, \<open>upper\<close>, \<open>in\<close> and
  \<open>strip\<close> to such strings.

  \<open>lower\<close> is only ever followed by a test for one of the ASCII substrings "entry",
  "exit", "update" and "long"; it maps the ASCII letters. The two code points outside
  ASCII whose lower case holds an ASCII letter (U+0130 and U+212A) give an "i" before a
  combining dot and a "k", and neither can complete one of the four substrings.
\<close>

definition utf8 :: "nat list \<Rightarrow> string" where
  "utf8 bs = map char_of bs"

definition lower_char :: "char \<Rightarrow> char" where
  "lower_char c =
     (let n = (of_char c :: nat) in if 65 \<le> n \<and> n \<le> 90 then char_of (n + 32) else c)"

definition upper_char :: "char \<Rightarrow> char" where
  "upper_char c =
     (let n = (of_char c :: nat) in if 97 \<le> n \<and> n \<le> 122 then char_of (n - 32) else c)"

definition lower :: "string \<Rightarrow> string" where
  "lower s = map lower_char s"

fun startswith :: "string \<Rightarrow> string \<Rightarrow> bool" where
  "startswith s [] = True"
| "startswith [] (p # ps) = False"
| "startswith (c # cs) (p # ps) = (c = p \<and> startswith cs ps)"

text \<open>\<open>contains needle s\<close> is Python's \<open>needle in s\<close>.\<close>

fun contains :: "string \<Rightarrow> string \<Rightarrow> bool" where
  "contains needle [] = (needle = [])"
| "contains needle (c # cs) = (startswith (c # cs) needle \<or> contains needle cs)"

subsection \<open>\<open>str.upper\<close>\<close>

text \<open>
  \<open>str.upper()\<close> replaces each code point by its upper case, one code point at a
  time. The table lists, in UTF-8, every code point outside ASCII that Python 3.11
  (Unicode 14.0) changes, with what it becomes (up to three code points).
\<close>

definition upper_table :: "(string \<times> string) list" where
  "upper_table = map (\<lambda>(a, b). (utf8 a, utf8 b))
   [
    ([0xC2, 0xB5], [0xCE, 0x9C]), ([0xC3, 0x9F], [0x53, 0x53]), ([0xC3, 0xA0], [0xC3, 0x80]),
     ([0xC3, 0xA1], [0xC3, 0x81]), ([0xC3, 0xA2], [0xC3, 0x82]), ([0xC3, 0xA3], [0xC3, 0x83]),
     ([0xC3, 0xA4], [0xC3, 0x84]), ([0xC3, 0xA5], [0xC3, 0x85]), ([0xC3, 0xA6], [0xC3, 0x86]),
     ([0xC3, 0xA7], [0xC3, 0x87]), ([0xC3, 0xA8], [0xC3, 0x88]), ([0xC3, 0xA9], [0xC3, 0x89]),
     ([0xC3, 0xAA], [0xC3, 0x8A]), ([0xC3, 0xAB], [0xC3, 0x8B]), ([0xC3, 0xAC], [0xC3, 0x8C]),
     ([0xC3, 0xAD], [0xC3, 0x8D]), ([0xC3, 0xAE], [0xC3, 0x8E]), ([0xC3, 0xAF], [0xC3, 0x8F]),
     ([0xC3, 0xB0], [0xC3, 0x90]), ([0xC3, 0xB1], [0xC3, 0x91]), ([0xC3, 0xB2], [0xC3, 0x92]),
     ([0xC3, 0xB3], [0xC3, 0x93]), ([0xC3, 0xB4], [0xC3, 0x94]), ([0xC3, 0xB5], [0xC3, 0x95]),
     ([0xC3, 0xB6], [0xC3, 0x96]), ([0xC3, 0xB8], [0xC3, 0x98]), ([0xC3, 0xB9], [0xC3, 0x99]),
     ([0xC3, 0xBA], [0xC3, 0x9A]), ([0xC3, 0xBB], [0xC3, 0x9B]), ([0xC3, 0xBC], [0xC3, 0x9C]),
     ([0xC3, 0xBD], [0xC3, 0x9D]), ([0xC3, 0xBE], [0xC3, 0x9E]), ([0xC3, 0xBF], [0xC5, 0xB8]),
     ([0xC4, 0x81], [0xC4, 0x80]), ([0xC4, 0x83], [0xC4, 0x82]), ([0xC4, 0x85], [0xC4, 0x84]),
     ([0xC4, 0x87], [0xC4, 0x86]), ([0xC4, 0x89], [0xC4, 0x88]), ([0xC4, 0x8B], [0xC4, 0x8A]),
     ([0xC4, 0x8D], [0xC4, 0x8C]), ([0xC4, 0x8F], [0xC4, 0x8E]), ([0xC4, 0x91], [0xC4, 0x90]),
     ([0xC4, 0x93], [0xC4, 0x92]), ([0xC4, 0x95], [0xC4, 0x94]), ([0xC4, 0x97], [0xC4, 0x96]),
     ([0xC4, 0x99], [0xC4, 0x98]), ([0xC4, 0x9B], [0xC4, 0x9A]), ([0xC4, 0x9D], [0xC4, 0x9C]),
     ([0xC4, 0x9F], [0xC4, 0x9E]), ([0xC4, 0xA1], [0xC4, 0xA0]), ([0xC4, 0xA3], [0xC4, 0xA2]),
     ([0xC4, 0xA5], [0xC4, 0xA4]), ([0xC4, 0xA7], [0xC4, 0xA6]), ([0xC4, 0xA9], [0xC4, 0xA8]),
     ([0xC4, 0xAB], [0xC4, 0xAA]), ([0xC4, 0xAD], [0xC4, 0xAC]), ([0xC4, 0xAF], [0xC4, 0xAE]),
     ([0xC4, 0xB1], [0x49]), ([0xC4, 0xB3], [0xC4, 0xB2]), ([0xC4, 0xB5], [0xC4, 0xB4]),
     ([0xC4, 0xB7], [0xC4, 0xB6]), ([0xC4, 0xBA], [0xC4, 0xB9]), ([0xC4, 0xBC], [0xC4, 0xBB]),
     ([0xC4, 0xBE], [0xC4, 0xBD]), ([0xC5, 0x80], [0xC4, 0xBF]), ([0xC5, 0x82], [0xC5, 0x81]),
     ([0xC5, 0x84], [0xC5, 0x83]), ([0xC5, 0x86], [0xC5, 0x85]), ([0xC5, 0x88], [0xC5, 0x87]),
     ([0xC5, 0x89], [0xCA, 0xBC, 0x4E]), ([0xC5, 0x8B], [0xC5, 0x8A]),
     ([0xC5, 0x8D], [0xC5, 0x8C]), ([0xC5, 0x8F], [0xC5, 0x8E]), ([0xC5, 0x91], [0xC5, 0x90]),
     ([0xC5, 0x93], [0xC5, 0x92]), ([0xC5, 0x95], [0xC5, 0x94]), ([0xC5, 0x97], [0xC5, 0x96]),
     ([0xC5, 0x99], [0xC5, 0x98]), ([0xC5, 0x9B], [0xC5, 0x9A]), ([0xC5, 0x9D], [0xC5, 0x9C]),
     ([0xC5, 0x9F], [0xC5, 0x9E]), ([0xC5, 0xA1], [0xC5, 0xA0]), ([0xC5, 0xA3], [0xC5, 0xA2]),
     ([0xC5, 0xA5], [0xC5, 0xA4]), ([0xC5, 0xA7], [0xC5, 0xA6]), ([0xC5, 0xA9], [0xC5, 0xA8]),
     ([0xC5, 0xAB], [0xC5, 0xAA]), ([0xC5, 0xAD], [0xC5, 0xAC]), ([0xC5, 0xAF], [0xC5, 0xAE]),
     ([0xC5, 0xB1], [0xC5, 0xB0]), ([0xC5, 0xB3], [0xC5, 0xB2]), ([0xC5, 0xB5], [0xC5, 0xB4]),
     ([0xC5, 0xB7], [0xC5, 0xB6]), ([0xC5, 0xBA], [0xC5, 0xB9]), ([0xC5, 0xBC], [0xC5, 0xBB]),
     ([0xC5, 0xBE], [0xC5, 0xBD]), ([0xC5, 0xBF], [0x53]), ([0xC6, 0x80], [0xC9, 0x83]),
     ([0xC6, 0x83], [0xC6, 0x82]), ([0xC6, 0x85], [0xC6, 0x84]), ([0xC6, 0x88], [0xC6, 0x87]),
     ([0xC6, 0x8C], [0xC6, 0x8B]), ([0xC6, 0x92], [0xC6, 0x91]), ([0xC6, 0x95], [0xC7, 0xB6]),
     ([0xC6, 0x99], [0xC6, 0x98]), ([0xC6, 0x9A], [0xC8, 0xBD]), ([0xC6, 0x9E], [0xC8, 0xA0]),
     ([0xC6, 0xA1], [0xC6, 0xA0]), ([0xC6, 0xA3], [0xC6, 0xA2]), ([0xC6, 0xA5], [0xC6, 0xA4]),
     ([0xC6, 0xA8], [0xC6, 0xA7]), ([0xC6, 0xAD], [0xC6, 0xAC]), ([0xC6, 0xB0], [0xC6, 0xAF]),
     ([0xC6, 0xB4], [0xC6, 0xB3]), ([0xC6, 0xB6], [0xC6, 0xB5]), ([0xC6, 0xB9], [0xC6, 0xB8]),
     ([0xC6, 0xBD], [0xC6, 0xBC]), ([0xC6, 0xBF], [0xC7, 0xB7]), ([0xC7, 0x85], [0xC7, 0x84]),
     ([0xC7, 0x86], [0xC7, 0x84]), ([0xC7, 0x88], [0xC7, 0x87]), ([0xC7, 0x89], [0xC7, 0x87]),
     ([0xC7, 0x8B], [0xC7, 0x8A]), ([0xC7, 0x8C], [0xC7, 0x8A]), ([0xC7, 0x8E], [0xC7, 0x8D]),
     ([0xC7, 0x90], [0xC7, 0x8F]), ([0xC7, 0x92], [0xC7, 0x91]), ([0xC7, 0x94], [0xC7, 0x93]),
     ([0xC7, 0x96], [0xC7, 0x95]), ([0xC7, 0x98], [0xC7, 0x97]), ([0xC7, 0x9A], [0xC7, 0x99]),
     ([0xC7, 0x9C], [0xC7, 0x9B]), ([0xC7, 0x9D], [0xC6, 0x8E]), ([0xC7, 0x9F], [0xC7, 0x9E]),
     ([0xC7, 0xA1], [0xC7, 0xA0]), ([0xC7, 0xA3], [0xC7, 0xA2]), ([0xC7, 0xA5], [0xC7, 0xA4]),
     ([0xC7, 0xA7], [0xC7, 0xA6]), ([0xC7, 0xA9], [0xC7, 0xA8]), ([0xC7, 0xAB], [0xC7, 0xAA]),
     ([0xC7, 0xAD], [0xC7, 0xAC]), ([0xC7, 0xAF], [0xC7, 0xAE]),
     ([0xC7, 0xB0], [0x4A, 0xCC, 0x8C]), ([0xC7, 0xB2], [0xC7, 0xB1]),
     ([0xC7, 0xB3], [0xC7, 0xB1]), ([0xC7, 0xB5], [0xC7, 0xB4]), ([0xC7, 0xB9], [0xC7, 0xB8]),
     ([0xC7, 0xBB], [0xC7, 0xBA]), ([0xC7, 0xBD], [0xC7, 0xBC]), ([0xC7, 0xBF], [0xC7, 0xBE]),
     ([0xC8, 0x81], [0xC8, 0x80]), ([0xC8, 0x83], [0xC8, 0x82]), ([0xC8, 0x85], [0xC8, 0x84]),
     ([0xC8, 0x87], [0xC8, 0x86]), ([0xC8, 0x89], [0xC8, 0x88]), ([0xC8, 0x8B], [0xC8, 0x8A]),
     ([0xC8, 0x8D], [0xC8, 0x8C]), ([0xC8, 0x8F], [0xC8, 0x8E]), ([0xC8, 0x91], [0xC8, 0x90]),
     ([0xC8, 0x93], [0xC8, 0x92]), ([0xC8, 0x95], [0xC8, 0x94]), ([0xC8, 0x97], [0xC8, 0x96]),
     ([0xC8, 0x99], [0xC8, 0x98]), ([0xC8, 0x9B], [0xC8, 0x9A]), ([0xC8, 0x9D], [0xC8, 0x9C]),
     ([0xC8, 0x9F], [0xC8, 0x9E]), ([0xC8, 0xA3], [0xC8, 0xA2]), ([0xC8, 0xA5], [0xC8, 0xA4]),
     ([0xC8, 0xA7], [0xC8, 0xA6]), ([0xC8, 0xA9], [0xC8, 0xA8]), ([0xC8, 0xAB], [0xC8, 0xAA]),
     ([0xC8, 0xAD], [0xC8, 0xAC]), ([0xC8, 0xAF], [0xC8, 0xAE]), ([0xC8, 0xB1], [0xC8, 0xB0]),
     ([0xC8, 0xB3], [0xC8, 0xB2]), ([0xC8, 0xBC], [0xC8, 0xBB]),
     ([0xC8, 0xBF], [0xE2, 0xB1, 0xBE]), ([0xC9, 0x80], [0xE2, 0xB1, 0xBF]),
     ([0xC9, 0x82], [0xC9, 0x81]), ([0xC9, 0x87], [0xC9, 0x86]), ([0xC9, 0x89], [0xC9, 0x88]),
     ([0xC9, 0x8B], [0xC9, 0x8A]), ([0xC9, 0x8D], [0xC9, 0x8C]), ([0xC9, 0x8F], [0xC9, 0x8E]),
     ([0xC9, 0x90], [0xE2, 0xB1, 0xAF]), ([0xC9, 0x91], [0xE2, 0xB1, 0xAD]),
     ([0xC9, 0x92], [0xE2, 0xB1, 0xB0]), ([0xC9, 0x93], [0xC6, 0x81]),
     ([0xC9, 0x94], [0xC6, 0x86]), ([0xC9, 0x96], [0xC6, 0x89]), ([0xC9, 0x97], [0xC6, 0x8A]),
     ([0xC9, 0x99], [0xC6, 0x8F]), ([0xC9, 0x9B], [0xC6, 0x90]),
     ([0xC9, 0x9C], [0xEA, 0x9E, 0xAB]), ([0xC9, 0xA0], [0xC6, 0x93]),
     ([0xC9, 0xA1], [0xEA, 0x9E, 0xAC]), ([0xC9, 0xA3], [0xC6, 0x94]),
     ([0xC9, 0xA5], [0xEA, 0x9E, 0x8D]), ([0xC9, 0xA6], [0xEA, 0x9E, 0xAA]),
     ([0xC9, 0xA8], [0xC6, 0x97]), ([0xC9, 0xA9], [0xC6, 0x96]),
     ([0xC9, 0xAA], [0xEA, 0x9E, 0xAE]), ([0xC9, 0xAB], [0xE2, 0xB1, 0xA2]),
     ([0xC9, 0xAC], [0xEA, 0x9E, 0xAD]), ([0xC9, 0xAF], [0xC6, 0x9C]),
     ([0xC9, 0xB1], [0xE2, 0xB1, 0xAE]), ([0xC9, 0xB2], [0xC6, 0x9D]),
     ([0xC9, 0xB5], [0xC6, 0x9F]), ([0xC9, 0xBD], [0xE2, 0xB1, 0xA4]),
     ([0xCA, 0x80], [0xC6, 0xA6]), ([0xCA, 0x82], [0xEA, 0x9F, 0x85]),
     ([0xCA, 0x83], [0xC6, 0xA9]), ([0xCA, 0x87], [0xEA, 0x9E, 0xB1]),
     ([0xCA, 0x88], [0xC6, 0xAE]), ([0xCA, 0x89], [0xC9, 0x84]), ([0xCA, 0x8A], [0xC6, 0xB1]),
     ([0xCA, 0x8B], [0xC6, 0xB2]), ([0xCA, 0x8C], [0xC9, 0x85]), ([0xCA, 0x92], [0xC6, 0xB7]),
     ([0xCA, 0x9D], [0xEA, 0x9E, 0xB2]), ([0xCA, 0x9E], [0xEA, 0x9E, 0xB0]),
     ([0xCD, 0x85], [0xCE, 0x99]), ([0xCD, 0xB1], [0xCD, 0xB0]), ([0xCD, 0xB3], [0xCD, 0xB2]),
     ([0xCD, 0xB7], [0xCD, 0xB6]), ([0xCD, 0xBB], [0xCF, 0xBD]), ([0xCD, 0xBC], [0xCF, 0xBE]),
     ([0xCD, 0xBD], [0xCF, 0xBF]), ([0xCE, 0x90], [0xCE, 0x99, 0xCC, 0x88, 0xCC, 0x81]),
     ([0xCE, 0xAC], [0xCE, 0x86]), ([0xCE, 0xAD], [0xCE, 0x88]), ([0xCE, 0xAE], [0xCE, 0x89]),
     ([0xCE, 0xAF], [0xCE, 0x8A]), ([0xCE, 0xB0], [0xCE, 0xA5, 0xCC, 0x88, 0xCC, 0x81]),
     ([0xCE, 0xB1], [0xCE, 0x91]), ([0xCE, 0xB2], [0xCE, 0x92]), ([0xCE, 0xB3], [0xCE, 0x93]),
     ([0xCE, 0xB4], [0xCE, 0x94]), ([0xCE, 0xB5], [0xCE, 0x95]), ([0xCE, 0xB6], [0xCE, 0x96]),
     ([0xCE, 0xB7], [0xCE, 0x97]), ([0xCE, 0xB8], [0xCE, 0x98]), ([0xCE, 0xB9], [0xCE, 0x99]),
     ([0xCE, 0xBA], [0xCE, 0x9A]), ([0xCE, 0xBB], [0xCE, 0x9B]), ([0xCE, 0xBC], [0xCE, 0x9C]),
     ([0xCE, 0xBD], [0xCE, 0x9D]), ([0xCE, 0xBE], [0xCE, 0x9E]), ([0xCE, 0xBF], [0xCE, 0x9F]),
     ([0xCF, 0x80], [0xCE, 0xA0]), ([0xCF, 0x81], [0xCE, 0xA1]), ([0xCF, 0x82], [0xCE, 0xA3]),
     ([0xCF, 0x83], [0xCE, 0xA3]), ([0xCF, 0x84], [0xCE, 0xA4]), ([0xCF, 0x85], [0xCE, 0xA5]),
     ([0xCF, 0x86], [0xCE, 0xA6]), ([0xCF, 0x87], [0xCE, 0xA7]), ([0xCF, 0x88], [0xCE, 0xA8]),
     ([0xCF, 0x89], [0xCE, 0xA9]), ([0xCF, 0x8A], [0xCE, 0xAA]), ([0xCF, 0x8B], [0xCE, 0xAB]),
     ([0xCF, 0x8C], [0xCE, 0x8C]), ([0xCF, 0x8D], [0xCE, 0x8E]), ([0xCF, 0x8E], [0xCE, 0x8F]),
     ([0xCF, 0x90], [0xCE, 0x92]), ([0xCF, 0x91], [0xCE, 0x98]), ([0xCF, 0x95], [0xCE, 0xA6]),
     ([0xCF, 0x96], [0xCE, 0xA0]), ([0xCF, 0x97], [0xCF, 0x8F]), ([0xCF, 0x99], [0xCF, 0x98]),
     ([0xCF, 0x9B], [0xCF, 0x9A]), ([0xCF, 0x9D], [0xCF, 0x9C]), ([0xCF, 0x9F], [0xCF, 0x9E]),
     ([0xCF, 0xA1], [0xCF, 0xA0]), ([0xCF, 0xA3], [0xCF, 0xA2]), ([0xCF, 0xA5], [0xCF, 0xA4]),
     ([0xCF, 0xA7], [0xCF, 0xA6]), ([0xCF, 0xA9], [0xCF, 0xA8]), ([0xCF, 0xAB], [0xCF, 0xAA]),
     ([0xCF, 0xAD], [0xCF, 0xAC]), ([0xCF, 0xAF], [0xCF, 0xAE]), ([0xCF, 0xB0], [0xCE, 0x9A]),
     ([0xCF, 0xB1], [0xCE, 0xA1]), ([0xCF, 0xB2], [0xCF, 0xB9]), ([0xCF, 0xB3], [0xCD, 0xBF]),
     ([0xCF, 0xB5], [0xCE, 0x95]), ([0xCF, 0xB8], [0xCF, 0xB7]), ([0xCF, 0xBB], [0xCF, 0xBA]),
     ([0xD0, 0xB0], [0xD0, 0x90]), ([0xD0, 0xB1], [0xD0, 0x91]), ([0xD0, 0xB2], [0xD0, 0x92]),
     ([0xD0, 0xB3], [0xD0, 0x93]), ([0xD0, 0xB4], [0xD0, 0x94]), ([0xD0, 0xB5], [0xD0, 0x95]),
     ([0xD0, 0xB6], [0xD0, 0x96]), ([0xD0, 0xB7], [0xD0, 0x97]), ([0xD0, 0xB8], [0xD0, 0x98]),
     ([0xD0, 0xB9], [0xD0, 0x99]), ([0xD0, 0xBA], [0xD0, 0x9A]), ([0xD0, 0xBB], [0xD0, 0x9B]),
     ([0xD0, 0xBC], [0xD0, 0x9C]), ([0xD0, 0xBD], [0xD0, 0x9D]), ([0xD0, 0xBE], [0xD0, 0x9E]),
     ([0xD0, 0xBF], [0xD0, 0x9F]), ([0xD1, 0x80], [0xD0, 0xA0]), ([0xD1, 0x81], [0xD0, 0xA1]),
     ([0xD1, 0x82], [0xD0, 0xA2]), ([0xD1, 0x83], [0xD0, 0xA3]), ([0xD1, 0x84], [0xD0, 0xA4]),
     ([0xD1, 0x85], [0xD0, 0xA5]), ([0xD1, 0x86], [0xD0, 0xA6]), ([0xD1, 0x87], [0xD0, 0xA7]),
     ([0xD1, 0x88], [0xD0, 0xA8]), ([0xD1, 0x89], [0xD0, 0xA9]), ([0xD1, 0x8A], [0xD0, 0xAA]),
     ([0xD1, 0x8B], [0xD0, 0xAB]), ([0xD1, 0x8C], [0xD0, 0xAC]), ([0xD1, 0x8D], [0xD0, 0xAD]),
     ([0xD1, 0x8E], [0xD0, 0xAE]), ([0xD1, 0x8F], [0xD0, 0xAF]), ([0xD1, 0x90], [0xD0, 0x80]),
     ([0xD1, 0x91], [0xD0, 0x81]), ([0xD1, 0x92], [0xD0, 0x82]), ([0xD1, 0x93], [0xD0, 0x83]),
     ([0xD1, 0x94], [0xD0, 0x84]), ([0xD1, 0x95], [0xD0, 0x85]), ([0xD1, 0x96], [0xD0, 0x86]),
     ([0xD1, 0x97], [0xD0, 0x87]), ([0xD1, 0x98], [0xD0, 0x88]), ([0xD1, 0x99], [0xD0, 0x89]),
     ([0xD1, 0x9A], [0xD0, 0x8A]), ([0xD1, 0x9B], [0xD0, 0x8B]), ([0xD1, 0x9C], [0xD0, 0x8C]),
     ([0xD1, 0x9D], [0xD0, 0x8D]), ([0xD1, 0x9E], [0xD0, 0x8E]), ([0xD1, 0x9F], [0xD0, 0x8F]),
     ([0xD1, 0xA1], [0xD1, 0xA0]), ([0xD1, 0xA3], [0xD1, 0xA2]), ([0xD1, 0xA5], [0xD1, 0xA4]),
     ([0xD1, 0xA7], [0xD1, 0xA6]), ([0xD1, 0xA9], [0xD1, 0xA8]), ([0xD1, 0xAB], [0xD1, 0xAA]),
     ([0xD1, 0xAD], [0xD1, 0xAC]), ([0xD1, 0xAF], [0xD1, 0xAE]), ([0xD1, 0xB1], [0xD1, 0xB0]),
     ([0xD1, 0xB3], [0xD1, 0xB2]), ([0xD1, 0xB5], [0xD1, 0xB4]), ([0xD1, 0xB7], [0xD1, 0xB6]),
     ([0xD1, 0xB9], [0xD1, 0xB8]), ([0xD1, 0xBB], [0xD1, 0xBA]), ([0xD1, 0xBD], [0xD1, 0xBC]),
     ([0xD1, 0xBF], [0xD1, 0xBE]), ([0xD2, 0x81], [0xD2, 0x80]), ([0xD2, 0x8B], [0xD2, 0x8A]),
     ([0xD2, 0x8D], [0xD2, 0x8C]), ([0xD2, 0x8F], [0xD2, 0x8E]), ([0xD2, 0x91], [0xD2, 0x90]),
     ([0xD2, 0x93], [0xD2, 0x92]), ([0xD2, 0x95], [0xD2, 0x94]), ([0xD2, 0x97], [0xD2, 0x96]),
     ([0xD2, 0x99], [0xD2, 0x98]), ([0xD2, 0x9B], [0xD2, 0x9A]), ([0xD2, 0x9D], [0xD2, 0x9C]),
     ([0xD2, 0x9F], [0xD2, 0x9E]), ([0xD2, 0xA1], [0xD2, 0xA0]), ([0xD2, 0xA3], [0xD2, 0xA2]),
     ([0xD2, 0xA5], [0xD2, 0xA4]), ([0xD2, 0xA7], [0xD2, 0xA6]), ([0xD2, 0xA9], [0xD2, 0xA8]),
     ([0xD2, 0xAB], [0xD2, 0xAA]), ([0xD2, 0xAD], [0xD2, 0xAC]), ([0xD2, 0xAF], [0xD2, 0xAE]),
     ([0xD2, 0xB1], [0xD2, 0xB0]), ([0xD2, 0xB3], [0xD2, 0xB2]), ([0xD2, 0xB5], [0xD2, 0xB4]),
     ([0xD2, 0xB7], [0xD2, 0xB6]), ([0xD2, 0xB9], [0xD2, 0xB8]), ([0xD2, 0xBB], [0xD2, 0xBA]),
     ([0xD2, 0xBD], [0xD2, 0xBC]), ([0xD2, 0xBF], [0xD2, 0xBE]), ([0xD3, 0x82], [0xD3, 0x81]),
     ([0xD3, 0x84], [0xD3, 0x83]), ([0xD3, 0x86], [0xD3, 0x85]), ([0xD3, 0x88], [0xD3, 0x87]),
     ([0xD3, 0x8A], [0xD3, 0x89]), ([0xD3, 0x8C], [0xD3, 0x8B]), ([0xD3, 0x8E], [0xD3, 0x8D]),
     ([0xD3, 0x8F], [0xD3, 0x80]), ([0xD3, 0x91], [0xD3, 0x90]), ([0xD3, 0x93], [0xD3, 0x92]),
     ([0xD3, 0x95], [0xD3, 0x94]), ([0xD3, 0x97], [0xD3, 0x96]), ([0xD3, 0x99], [0xD3, 0x98]),
     ([0xD3, 0x9B], [0xD3, 0x9A]), ([0xD3, 0x9D], [0xD3, 0x9C]), ([0xD3, 0x9F], [0xD3, 0x9E]),
     ([0xD3, 0xA1], [0xD3, 0xA0]), ([0xD3, 0xA3], [0xD3, 0xA2]), ([0xD3, 0xA5], [0xD3, 0xA4]),
     ([0xD3, 0xA7], [0xD3, 0xA6]), ([0xD3, 0xA9], [0xD3, 0xA8]), ([0xD3, 0xAB], [0xD3, 0xAA]),
     ([0xD3, 0xAD], [0xD3, 0xAC]), ([0xD3, 0xAF], [0xD3, 0xAE]), ([0xD3, 0xB1], [0xD3, 0xB0]),
     ([0xD3, 0xB3], [0xD3, 0xB2]), ([0xD3, 0xB5], [0xD3, 0xB4]), ([0xD3, 0xB7], [0xD3, 0xB6]),
     ([0xD3, 0xB9], [0xD3, 0xB8]), ([0xD3, 0xBB], [0xD3, 0xBA]), ([0xD3, 0xBD], [0xD3, 0xBC]),
     ([0xD3, 0xBF], [0xD3, 0xBE]), ([0xD4, 0x81], [0xD4, 0x80]), ([0xD4, 0x83], [0xD4, 0x82]),
     ([0xD4, 0x85], [0xD4, 0x84]), ([0xD4, 0x87], [0xD4, 0x86]), ([0xD4, 0x89], [0xD4, 0x88]),
     ([0xD4, 0x8B], [0xD4, 0x8A]), ([0xD4, 0x8D], [0xD4, 0x8C]), ([0xD4, 0x8F], [0xD4, 0x8E]),
     ([0xD4, 0x91], [0xD4, 0x90]), ([0xD4, 0x93], [0xD4, 0x92]), ([0xD4, 0x95], [0xD4, 0x94]),
     ([0xD4, 0x97], [0xD4, 0x96]), ([0xD4, 0x99], [0xD4, 0x98]), ([0xD4, 0x9B], [0xD4, 0x9A]),
     ([0xD4, 0x9D], [0xD4, 0x9C]), ([0xD4, 0x9F], [0xD4, 0x9E]), ([0xD4, 0xA1], [0xD4, 0xA0]),
     ([0xD4, 0xA3], [0xD4, 0xA2]), ([0xD4, 0xA5], [0xD4, 0xA4]), ([0xD4, 0xA7], [0xD4, 0xA6]),
     ([0xD4, 0xA9], [0xD4, 0xA8]), ([0xD4, 0xAB], [0xD4, 0xAA]), ([0xD4, 0xAD], [0xD4, 0xAC]),
     ([0xD4, 0xAF], [0xD4, 0xAE]), ([0xD5, 0xA1], [0xD4, 0xB1]), ([0xD5, 0xA2], [0xD4, 0xB2]),
     ([0xD5, 0xA3], [0xD4, 0xB3]), ([0xD5, 0xA4], [0xD4, 0xB4]), ([0xD5, 0xA5], [0xD4, 0xB5]),
     ([0xD5, 0xA6], [0xD4, 0xB6]), ([0xD5, 0xA7], [0xD4, 0xB7]), ([0xD5, 0xA8], [0xD4, 0xB8]),
     ([0xD5, 0xA9], [0xD4, 0xB9]), ([0xD5, 0xAA], [0xD4, 0xBA]), ([0xD5, 0xAB], [0xD4, 0xBB]),
     ([0xD5, 0xAC], [0xD4, 0xBC]), ([0xD5, 0xAD], [0xD4, 0xBD]), ([0xD5, 0xAE], [0xD4, 0xBE]),
     ([0xD5, 0xAF], [0xD4, 0xBF]), ([0xD5, 0xB0], [0xD5, 0x80]), ([0xD5, 0xB1], [0xD5, 0x81]),
     ([0xD5, 0xB2], [0xD5, 0x82]), ([0xD5, 0xB3], [0xD5, 0x83]), ([0xD5, 0xB4], [0xD5, 0x84]),
     ([0xD5, 0xB5], [0xD5, 0x85]), ([0xD5, 0xB6], [0xD5, 0x86]), ([0xD5, 0xB7], [0xD5, 0x87]),
     ([0xD5, 0xB8], [0xD5, 0x88]), ([0xD5, 0xB9], [0xD5, 0x89]), ([0xD5, 0xBA], [0xD5, 0x8A]),
     ([0xD5, 0xBB], [0xD5, 0x8B]), ([0xD5, 0xBC], [0xD5, 0x8C]), ([0xD5, 0xBD], [0xD5, 0x8D]),
     ([0xD5, 0xBE], [0xD5, 0x8E]), ([0xD5, 0xBF], [0xD5, 0x8F]), ([0xD6, 0x80], [0xD5, 0x90]),
     ([0xD6, 0x81], [0xD5, 0x91]), ([0xD6, 0x82], [0xD5, 0x92]), ([0xD6, 0x83], [0xD5, 0x93]),
     ([0xD6, 0x84], [0xD5, 0x94]), ([0xD6, 0x85], [0xD5, 0x95]), ([0xD6, 0x86], [0xD5, 0x96]),
     ([0xD6, 0x87], [0xD4, 0xB5, 0xD5, 0x92]), ([0xE1, 0x83, 0x90], [0xE1, 0xB2, 0x90]),
     ([0xE1, 0x83, 0x91], [0xE1, 0xB2, 0x91]), ([0xE1, 0x83, 0x92], [0xE1, 0xB2, 0x92]),
     ([0xE1, 0x83, 0x93], [0xE1, 0xB2, 0x93]), ([0xE1, 0x83, 0x94], [0xE1, 0xB2, 0x94]),
     ([0xE1, 0x83, 0x95], [0xE1, 0xB2, 0x95]), ([0xE1, 0x83, 0x96], [0xE1, 0xB2, 0x96]),
     ([0xE1, 0x83, 0x97], [0xE1, 0xB2, 0x97]), ([0xE1, 0x83, 0x98], [0xE1, 0xB2, 0x98]),
     ([0xE1, 0x83, 0x99], [0xE1, 0xB2, 0x99]), ([0xE1, 0x83, 0x9A], [0xE1, 0xB2, 0x9A]),
     ([0xE1, 0x83, 0x9B], [0xE1, 0xB2, 0x9B]), ([0xE1, 0x83, 0x9C], [0xE1, 0xB2, 0x9C]),
     ([0xE1, 0x83, 0x9D], [0xE1, 0xB2, 0x9D]), ([0xE1, 0x83, 0x9E], [0xE1, 0xB2, 0x9E]),
     ([0xE1, 0x83, 0x9F], [0xE1, 0xB2, 0x9F]), ([0xE1, 0x83, 0xA0], [0xE1, 0xB2, 0xA0]),
     ([0xE1, 0x83, 0xA1], [0xE1, 0xB2, 0xA1]), ([0xE1, 0x83, 0xA2], [0xE1, 0xB2, 0xA2]),
     ([0xE1, 0x83, 0xA3], [0xE1, 0xB2, 0xA3]), ([0xE1, 0x83, 0xA4], [0xE1, 0xB2, 0xA4]),
     ([0xE1, 0x83, 0xA5], [0xE1, 0xB2, 0xA5]), ([0xE1, 0x83, 0xA6], [0xE1, 0xB2, 0xA6]),
     ([0xE1, 0x83, 0xA7], [0xE1, 0xB2, 0xA7]), ([0xE1, 0x83, 0xA8], [0xE1, 0xB2, 0xA8]),
     ([0xE1, 0x83, 0xA9], [0xE1, 0xB2, 0xA9]), ([0xE1, 0x83, 0xAA], [0xE1, 0xB2, 0xAA]),
     ([0xE1, 0x83, 0xAB], [0xE1, 0xB2, 0xAB]), ([0xE1, 0x83, 0xAC], [0xE1, 0xB2, 0xAC]),
     ([0xE1, 0x83, 0xAD], [0xE1, 0xB2, 0xAD]), ([0xE1, 0x83, 0xAE], [0xE1, 0xB2, 0xAE]),
     ([0xE1, 0x83, 0xAF], [0xE1, 0xB2, 0xAF]), ([0xE1, 0x83, 0xB0], [0xE1, 0xB2, 0xB0]),
     ([0xE1, 0x83, 0xB1], [0xE1, 0xB2, 0xB1]), ([0xE1, 0x83, 0xB2], [0xE1, 0xB2, 0xB2]),
     ([0xE1, 0x83, 0xB3], [0xE1, 0xB2, 0xB3]), ([0xE1, 0x83, 0xB4], [0xE1, 0xB2, 0xB4]),
     ([0xE1, 0x83, 0xB5], [0xE1, 0xB2, 0xB5]), ([0xE1, 0x83, 0xB6], [0xE1, 0xB2, 0xB6]),
     ([0xE1, 0x83, 0xB7], [0xE1, 0xB2, 0xB7]), ([0xE1, 0x83, 0xB8], [0xE1, 0xB2, 0xB8]),
     ([0xE1, 0x83, 0xB9], [0xE1, 0xB2, 0xB9]), ([0xE1, 0x83, 0xBA], [0xE1, 0xB2, 0xBA]),
     ([0xE1, 0x83, 0xBD], [0xE1, 0xB2, 0xBD]), ([0xE1, 0x83, 0xBE], [0xE1, 0xB2, 0xBE]),
     ([0xE1, 0x83, 0xBF], [0xE1, 0xB2, 0xBF]), ([0xE1, 0x8F, 0xB8], [0xE1, 0x8F, 0xB0]),
     ([0xE1, 0x8F, 0xB9], [0xE1, 0x8F, 0xB1]), ([0xE1, 0x8F, 0xBA], [0xE1, 0x8F, 0xB2]),
     ([0xE1, 0x8F, 0xBB], [0xE1, 0x8F, 0xB3]), ([0xE1, 0x8F, 0xBC], [0xE1, 0x8F, 0xB4]),
     ([0xE1, 0x8F, 0xBD], [0xE1, 0x8F, 0xB5]), ([0xE1, 0xB2, 0x80], [0xD0, 0x92]),
     ([0xE1, 0xB2, 0x81], [0xD0, 0x94]), ([0xE1, 0xB2, 0x82], [0xD0, 0x9E]),
     ([0xE1, 0xB2, 0x83], [0xD0, 0xA1]), ([0xE1, 0xB2, 0x84], [0xD0, 0xA2]),
     ([0xE1, 0xB2, 0x85], [0xD0, 0xA2]), ([0xE1, 0xB2, 0x86], [0xD0, 0xAA]),
     ([0xE1, 0xB2, 0x87], [0xD1, 0xA2]), ([0xE1, 0xB2, 0x88], [0xEA, 0x99, 0x8A]),
     ([0xE1, 0xB5, 0xB9], [0xEA, 0x9D, 0xBD]), ([0xE1, 0xB5, 0xBD], [0xE2, 0xB1, 0xA3]),
     ([0xE1, 0xB6, 0x8E], [0xEA, 0x9F, 0x86]), ([0xE1, 0xB8, 0x81], [0xE1, 0xB8, 0x80]),
     ([0xE1, 0xB8, 0x83], [0xE1, 0xB8, 0x82]), ([0xE1, 0xB8, 0x85], [0xE1, 0xB8, 0x84]),
     ([0xE1, 0xB8, 0x87], [0xE1, 0xB8, 0x86]), ([0xE1, 0xB8, 0x89], [0xE1, 0xB8, 0x88]),
     ([0xE1, 0xB8, 0x8B], [0xE1, 0xB8, 0x8A]), ([0xE1, 0xB8, 0x8D], [0xE1, 0xB8, 0x8C]),
     ([0xE1, 0xB8, 0x8F], [0xE1, 0xB8, 0x8E]), ([0xE1, 0xB8, 0x91], [0xE1, 0xB8, 0x90]),
     ([0xE1, 0xB8, 0x93], [0xE1, 0xB8, 0x92]), ([0xE1, 0xB8, 0x95], [0xE1, 0xB8, 0x94]),
     ([0xE1, 0xB8, 0x97], [0xE1, 0xB8, 0x96]), ([0xE1, 0xB8, 0x99], [0xE1, 0xB8, 0x98]),
     ([0xE1, 0xB8, 0x9B], [0xE1, 0xB8, 0x9A]), ([0xE1, 0xB8, 0x9D], [0xE1, 0xB8, 0x9C]),
     ([0xE1, 0xB8, 0x9F], [0xE1, 0xB8, 0x9E]), ([0xE1, 0xB8, 0xA1], [0xE1, 0xB8, 0xA0]),
     ([0xE1, 0xB8, 0xA3], [0xE1, 0xB8, 0xA2]), ([0xE1, 0xB8, 0xA5], [0xE1, 0xB8, 0xA4]),
     ([0xE1, 0xB8, 0xA7], [0xE1, 0xB8, 0xA6]), ([0xE1, 0xB8, 0xA9], [0xE1, 0xB8, 0xA8]),
     ([0xE1, 0xB8, 0xAB], [0xE1, 0xB8, 0xAA]), ([0xE1, 0xB8, 0xAD], [0xE1, 0xB8, 0xAC]),
     ([0xE1, 0xB8, 0xAF], [0xE1, 0xB8, 0xAE]), ([0xE1, 0xB8, 0xB1], [0xE1, 0xB8, 0xB0]),
     ([0xE1, 0xB8, 0xB3], [0xE1, 0xB8, 0xB2]), ([0xE1, 0xB8, 0xB5], [0xE1, 0xB8, 0xB4]),
     ([0xE1, 0xB8, 0xB7], [0xE1, 0xB8, 0xB6]), ([0xE1, 0xB8, 0xB9], [0xE1, 0xB8, 0xB8]),
     ([0xE1, 0xB8, 0xBB], [0xE1, 0xB8, 0xBA]), ([0xE1, 0xB8, 0xBD], [0xE1, 0xB8, 0xBC]),
     ([0xE1, 0xB8, 0xBF], [0xE1, 0xB8, 0xBE]), ([0xE1, 0xB9, 0x81], [0xE1, 0xB9, 0x80]),
     ([0xE1, 0xB9, 0x83], [0xE1, 0xB9, 0x82]), ([0xE1, 0xB9, 0x85], [0xE1, 0xB9, 0x84]),
     ([0xE1, 0xB9, 0x87], [0xE1, 0xB9, 0x86]), ([0xE1, 0xB9, 0x89], [0xE1, 0xB9, 0x88]),
     ([0xE1, 0xB9, 0x8B], [0xE1, 0xB9, 0x8A]), ([0xE1, 0xB9, 0x8D], [0xE1, 0xB9, 0x8C]),
     ([0xE1, 0xB9, 0x8F], [0xE1, 0xB9, 0x8E]), ([0xE1, 0xB9, 0x91], [0xE1, 0xB9, 0x90]),
     ([0xE1, 0xB9, 0x93], [0xE1, 0xB9, 0x92]), ([0xE1, 0xB9, 0x95], [0xE1, 0xB9, 0x94]),
     ([0xE1, 0xB9, 0x97], [0xE1, 0xB9, 0x96]), ([0xE1, 0xB9, 0x99], [0xE1, 0xB9, 0x98]),
     ([0xE1, 0xB9, 0x9B], [0xE1, 0xB9, 0x9A]), ([0xE1, 0xB9, 0x9D], [0xE1, 0xB9, 0x9C]),
     ([0xE1, 0xB9, 0x9F], [0xE1, 0xB9, 0x9E]), ([0xE1, 0xB9, 0xA1], [0xE1, 0xB9, 0xA0]),
     ([0xE1, 0xB9, 0xA3], [0xE1, 0xB9, 0xA2]), ([0xE1, 0xB9, 0xA5], [0xE1, 0xB9, 0xA4]),
     ([0xE1, 0xB9, 0xA7], [0xE1, 0xB9, 0xA6]), ([0xE1, 0xB9, 0xA9], [0xE1, 0xB9, 0xA8]),
     ([0xE1, 0xB9, 0xAB], [0xE1, 0xB9, 0xAA]), ([0xE1, 0xB9, 0xAD], [0xE1, 0xB9, 0xAC]),
     ([0xE1, 0xB9, 0xAF], [0xE1, 0xB9, 0xAE]), ([0xE1, 0xB9, 0xB1], [0xE1, 0xB9, 0xB0]),
     ([0xE1, 0xB9, 0xB3], [0xE1, 0xB9, 0xB2]), ([0xE1, 0xB9, 0xB5], [0xE1, 0xB9, 0xB4]),
     ([0xE1, 0xB9, 0xB7], [0xE1, 0xB9, 0xB6]), ([0xE1, 0xB9, 0xB9], [0xE1, 0xB9, 0xB8]),
     ([0xE1, 0xB9, 0xBB], [0xE1, 0xB9, 0xBA]), ([0xE1, 0xB9, 0xBD], [0xE1, 0xB9, 0xBC]),
     ([0xE1, 0xB9, 0xBF], [0xE1, 0xB9, 0xBE]), ([0xE1, 0xBA, 0x81], [0xE1, 0xBA, 0x80]),
     ([0xE1, 0xBA, 0x83], [0xE1, 0xBA, 0x82]), ([0xE1, 0xBA, 0x85], [0xE1, 0xBA, 0x84]),
     ([0xE1, 0xBA, 0x87], [0xE1, 0xBA, 0x86]), ([0xE1, 0xBA, 0x89], [0xE1, 0xBA, 0x88]),
     ([0xE1, 0xBA, 0x8B], [0xE1, 0xBA, 0x8A]), ([0xE1, 0xBA, 0x8D], [0xE1, 0xBA, 0x8C]),
     ([0xE1, 0xBA, 0x8F], [0xE1, 0xBA, 0x8E]), ([0xE1, 0xBA, 0x91], [0xE1, 0xBA, 0x90]),
     ([0xE1, 0xBA, 0x93], [0xE1, 0xBA, 0x92]), ([0xE1, 0xBA, 0x95], [0xE1, 0xBA, 0x94]),
     ([0xE1, 0xBA, 0x96], [0x48, 0xCC, 0xB1]), ([0xE1, 0xBA, 0x97], [0x54, 0xCC, 0x88]),
     ([0xE1, 0xBA, 0x98], [0x57, 0xCC, 0x8A]), ([0xE1, 0xBA, 0x99], [0x59, 0xCC, 0x8A]),
     ([0xE1, 0xBA, 0x9A], [0x41, 0xCA, 0xBE]), ([0xE1, 0xBA, 0x9B], [0xE1, 0xB9, 0xA0]),
     ([0xE1, 0xBA, 0xA1], [0xE1, 0xBA, 0xA0]), ([0xE1, 0xBA, 0xA3], [0xE1, 0xBA, 0xA2]),
     ([0xE1, 0xBA, 0xA5], [0xE1, 0xBA, 0xA4]), ([0xE1, 0xBA, 0xA7], [0xE1, 0xBA, 0xA6]),
     ([0xE1, 0xBA, 0xA9], [0xE1, 0xBA, 0xA8]), ([0xE1, 0xBA, 0xAB], [0xE1, 0xBA, 0xAA]),
     ([0xE1, 0xBA, 0xAD], [0xE1, 0xBA, 0xAC]), ([0xE1, 0xBA, 0xAF], [0xE1, 0xBA, 0xAE]),
     ([0xE1, 0xBA, 0xB1], [0xE1, 0xBA, 0xB0]), ([0xE1, 0xBA, 0xB3], [0xE1, 0xBA, 0xB2]),
     ([0xE1, 0xBA, 0xB5], [0xE1, 0xBA, 0xB4]), ([0xE1, 0xBA, 0xB7], [0xE1, 0xBA, 0xB6]),
     ([0xE1, 0xBA, 0xB9], [0xE1, 0xBA, 0xB8]), ([0xE1, 0xBA, 0xBB], [0xE1, 0xBA, 0xBA]),
     ([0xE1, 0xBA, 0xBD], [0xE1, 0xBA, 0xBC]), ([0xE1, 0xBA, 0xBF], [0xE1, 0xBA, 0xBE]),
     ([0xE1, 0xBB, 0x81], [0xE1, 0xBB, 0x80]), ([0xE1, 0xBB, 0x83], [0xE1, 0xBB, 0x82]),
     ([0xE1, 0xBB, 0x85], [0xE1, 0xBB, 0x84]), ([0xE1, 0xBB, 0x87], [0xE1, 0xBB, 0x86]),
     ([0xE1, 0xBB, 0x89], [0xE1, 0xBB, 0x88]), ([0xE1, 0xBB, 0x8B], [0xE1, 0xBB, 0x8A]),
     ([0xE1, 0xBB, 0x8D], [0xE1, 0xBB, 0x8C]), ([0xE1, 0xBB, 0x8F], [0xE1, 0xBB, 0x8E]),
     ([0xE1, 0xBB, 0x91], [0xE1, 0xBB, 0x90]), ([0xE1, 0xBB, 0x93], [0xE1, 0xBB, 0x92]),
     ([0xE1, 0xBB, 0x95], [0xE1, 0xBB, 0x94]), ([0xE1, 0xBB, 0x97], [0xE1, 0xBB, 0x96]),
     ([0xE1, 0xBB, 0x99], [0xE1, 0xBB, 0x98]), ([0xE1, 0xBB, 0x9B], [0xE1, 0xBB, 0x9A]),
     ([0xE1, 0xBB, 0x9D], [0xE1, 0xBB, 0x9C]), ([0xE1, 0xBB, 0x9F], [0xE1, 0xBB, 0x9E]),
     ([0xE1, 0xBB, 0xA1], [0xE1, 0xBB, 0xA0]), ([0xE1, 0xBB, 0xA3], [0xE1, 0xBB, 0xA2]),
     ([0xE1, 0xBB, 0xA5], [0xE1, 0xBB, 0xA4]), ([0xE1, 0xBB, 0xA7], [0xE1, 0xBB, 0xA6]),
     ([0xE1, 0xBB, 0xA9], [0xE1, 0xBB, 0xA8]), ([0xE1, 0xBB, 0xAB], [0xE1, 0xBB, 0xAA]),
     ([0xE1, 0xBB, 0xAD], [0xE1, 0xBB, 0xAC]), ([0xE1, 0xBB, 0xAF], [0xE1, 0xBB, 0xAE]),
     ([0xE1, 0xBB, 0xB1], [0xE1, 0xBB, 0xB0]), ([0xE1, 0xBB, 0xB3], [0xE1, 0xBB, 0xB2]),
     ([0xE1, 0xBB, 0xB5], [0xE1, 0xBB, 0xB4]), ([0xE1, 0xBB, 0xB7], [0xE1, 0xBB, 0xB6]),
     ([0xE1, 0xBB, 0xB9], [0xE1, 0xBB, 0xB8]), ([0xE1, 0xBB, 0xBB], [0xE1, 0xBB, 0xBA]),
     ([0xE1, 0xBB, 0xBD], [0xE1, 0xBB, 0xBC]), ([0xE1, 0xBB, 0xBF], [0xE1, 0xBB, 0xBE]),
     ([0xE1, 0xBC, 0x80], [0xE1, 0xBC, 0x88]), ([0xE1, 0xBC, 0x81], [0xE1, 0xBC, 0x89]),
     ([0xE1, 0xBC, 0x82], [0xE1, 0xBC, 0x8A]), ([0xE1, 0xBC, 0x83], [0xE1, 0xBC, 0x8B]),
     ([0xE1, 0xBC, 0x84], [0xE1, 0xBC, 0x8C]), ([0xE1, 0xBC, 0x85], [0xE1, 0xBC, 0x8D]),
     ([0xE1, 0xBC, 0x86], [0xE1, 0xBC, 0x8E]), ([0xE1, 0xBC, 0x87], [0xE1, 0xBC, 0x8F]),
     ([0xE1, 0xBC, 0x90], [0xE1, 0xBC, 0x98]), ([0xE1, 0xBC, 0x91], [0xE1, 0xBC, 0x99]),
     ([0xE1, 0xBC, 0x92], [0xE1, 0xBC, 0x9A]), ([0xE1, 0xBC, 0x93], [0xE1, 0xBC, 0x9B]),
     ([0xE1, 0xBC, 0x94], [0xE1, 0xBC, 0x9C]), ([0xE1, 0xBC, 0x95], [0xE1, 0xBC, 0x9D]),
     ([0xE1, 0xBC, 0xA0], [0xE1, 0xBC, 0xA8]), ([0xE1, 0xBC, 0xA1], [0xE1, 0xBC, 0xA9]),
     ([0xE1, 0xBC, 0xA2], [0xE1, 0xBC, 0xAA]), ([0xE1, 0xBC, 0xA3], [0xE1, 0xBC, 0xAB]),
     ([0xE1, 0xBC, 0xA4], [0xE1, 0xBC, 0xAC]), ([0xE1, 0xBC, 0xA5], [0xE1, 0xBC, 0xAD]),
     ([0xE1, 0xBC, 0xA6], [0xE1, 0xBC, 0xAE]), ([0xE1, 0xBC, 0xA7], [0xE1, 0xBC, 0xAF]),
     ([0xE1, 0xBC, 0xB0], [0xE1, 0xBC, 0xB8]), ([0xE1, 0xBC, 0xB1], [0xE1, 0xBC, 0xB9]),
     ([0xE1, 0xBC, 0xB2], [0xE1, 0xBC, 0xBA]), ([0xE1, 0xBC, 0xB3], [0xE1, 0xBC, 0xBB]),
     ([0xE1, 0xBC, 0xB4], [0xE1, 0xBC, 0xBC]), ([0xE1, 0xBC, 0xB5], [0xE1, 0xBC, 0xBD]),
     ([0xE1, 0xBC, 0xB6], [0xE1, 0xBC, 0xBE]), ([0xE1, 0xBC, 0xB7], [0xE1, 0xBC, 0xBF]),
     ([0xE1, 0xBD, 0x80], [0xE1, 0xBD, 0x88]), ([0xE1, 0xBD, 0x81], [0xE1, 0xBD, 0x89]),
     ([0xE1, 0xBD, 0x82], [0xE1, 0xBD, 0x8A]), ([0xE1, 0xBD, 0x83], [0xE1, 0xBD, 0x8B]),
     ([0xE1, 0xBD, 0x84], [0xE1, 0xBD, 0x8C]), ([0xE1, 0xBD, 0x85], [0xE1, 0xBD, 0x8D]),
     ([0xE1, 0xBD, 0x90], [0xCE, 0xA5, 0xCC, 0x93]), ([0xE1, 0xBD, 0x91], [0xE1, 0xBD, 0x99]),
     ([0xE1, 0xBD, 0x92], [0xCE, 0xA5, 0xCC, 0x93, 0xCC, 0x80]),
     ([0xE1, 0xBD, 0x93], [0xE1, 0xBD, 0x9B]),
     ([0xE1, 0xBD, 0x94], [0xCE, 0xA5, 0xCC, 0x93, 0xCC, 0x81]),
     ([0xE1, 0xBD, 0x95], [0xE1, 0xBD, 0x9D]),
     ([0xE1, 0xBD, 0x96], [0xCE, 0xA5, 0xCC, 0x93, 0xCD, 0x82]),
     ([0xE1, 0xBD, 0x97], [0xE1, 0xBD, 0x9F]), ([0xE1, 0xBD, 0xA0], [0xE1, 0xBD, 0xA8]),
     ([0xE1, 0xBD, 0xA1], [0xE1, 0xBD, 0xA9]), ([0xE1, 0xBD, 0xA2], [0xE1, 0xBD, 0xAA]),
     ([0xE1, 0xBD, 0xA3], [0xE1, 0xBD, 0xAB]), ([0xE1, 0xBD, 0xA4], [0xE1, 0xBD, 0xAC]),
     ([0xE1, 0xBD, 0xA5], [0xE1, 0xBD, 0xAD]), ([0xE1, 0xBD, 0xA6], [0xE1, 0xBD, 0xAE]),
     ([0xE1, 0xBD, 0xA7], [0xE1, 0xBD, 0xAF]), ([0xE1, 0xBD, 0xB0], [0xE1, 0xBE, 0xBA]),
     ([0xE1, 0xBD, 0xB1], [0xE1, 0xBE, 0xBB]), ([0xE1, 0xBD, 0xB2], [0xE1, 0xBF, 0x88]),
     ([0xE1, 0xBD, 0xB3], [0xE1, 0xBF, 0x89]), ([0xE1, 0xBD, 0xB4], [0xE1, 0xBF, 0x8A]),
     ([0xE1, 0xBD, 0xB5], [0xE1, 0xBF, 0x8B]), ([0xE1, 0xBD, 0xB6], [0xE1, 0xBF, 0x9A]),
     ([0xE1, 0xBD, 0xB7], [0xE1, 0xBF, 0x9B]), ([0xE1, 0xBD, 0xB8], [0xE1, 0xBF, 0xB8]),
     ([0xE1, 0xBD, 0xB9], [0xE1, 0xBF, 0xB9]), ([0xE1, 0xBD, 0xBA], [0xE1, 0xBF, 0xAA]),
     ([0xE1, 0xBD, 0xBB], [0xE1, 0xBF, 0xAB]), ([0xE1, 0xBD, 0xBC], [0xE1, 0xBF, 0xBA]),
     ([0xE1, 0xBD, 0xBD], [0xE1, 0xBF, 0xBB]),
     ([0xE1, 0xBE, 0x80], [0xE1, 0xBC, 0x88, 0xCE, 0x99]),
     ([0xE1, 0xBE, 0x81], [0xE1, 0xBC, 0x89, 0xCE, 0x99]),
     ([0xE1, 0xBE, 0x82], [0xE1, 0xBC, 0x8A, 0xCE, 0x99]),
     ([0xE1, 0xBE, 0x83], [0xE1, 0xBC, 0x8B, 0xCE, 0x99]),
     ([0xE1, 0xBE, 0x84], [0xE1, 0xBC, 0x8C, 0xCE, 0x99]),
     ([0xE1, 0xBE, 0x85], [0xE1, 0xBC, 0x8D, 0xCE, 0x99]),
     ([0xE1, 0xBE, 0x86], [0xE1, 0xBC, 0x8E, 0xCE, 0x99]),
     ([0xE1, 0xBE, 0x87], [0xE1, 0xBC, 0x8F, 0xCE, 0x99]),
     ([0xE1, 0xBE, 0x88], [0xE1, 0xBC, 0x88, 0xCE, 0x99]),
     ([0xE1, 0xBE, 0x89], [0xE1, 0xBC, 0x89, 0xCE, 0x99]),
     ([0xE1, 0xBE, 0x8A], [0xE1, 0xBC, 0x8A, 0xCE, 0x99]),
     ([0xE1, 0xBE, 0x8B], [0xE1, 0xBC, 0x8B, 0xCE, 0x99]),
     ([0xE1, 0xBE, 0x8C], [0xE1, 0xBC, 0x8C, 0xCE, 0x99]),
     ([0xE1, 0xBE, 0x8D], [0xE1, 0xBC, 0x8D, 0xCE, 0x99]),
     ([0xE1, 0xBE, 0x8E], [0xE1, 0xBC, 0x8E, 0xCE, 0x99]),
     ([0xE1, 0xBE, 0x8F], [0xE1, 0xBC, 0x8F, 0xCE, 0x99]),
     ([0xE1, 0xBE, 0x90], [0xE1, 0xBC, 0xA8, 0xCE, 0x99]),
     ([0xE1, 0xBE, 0x91], [0xE1, 0xBC, 0xA9, 0xCE, 0x99]),
     ([0xE1, 0xBE, 0x92], [0xE1, 0xBC, 0xAA, 0xCE, 0x99]),
     ([0xE1, 0xBE, 0x93], [0xE1, 0xBC, 0xAB, 0xCE, 0x99]),
     ([0xE1, 0xBE, 0x94], [0xE1, 0xBC, 0xAC, 0xCE, 0x99]),
     ([0xE1, 0xBE, 0x95], [0xE1, 0xBC, 0xAD, 0xCE, 0x99]),
     ([0xE1, 0xBE, 0x96], [0xE1, 0xBC, 0xAE, 0xCE, 0x99]),
     ([0xE1, 0xBE, 0x97], [0xE1, 0xBC, 0xAF, 0xCE, 0x99]),
     ([0xE1, 0xBE, 0x98], [0xE1, 0xBC, 0xA8, 0xCE, 0x99]),
     ([0xE1, 0xBE, 0x99], [0xE1, 0xBC, 0xA9, 0xCE, 0x99]),
     ([0xE1, 0xBE, 0x9A], [0xE1, 0xBC, 0xAA, 0xCE, 0x99]),
     ([0xE1, 0xBE, 0x9B], [0xE1, 0xBC, 0xAB, 0xCE, 0x99]),
     ([0xE1, 0xBE, 0x9C], [0xE1, 0xBC, 0xAC, 0xCE, 0x99]),
     ([0xE1, 0xBE, 0x9D], [0xE1, 0xBC, 0xAD, 0xCE, 0x99]),
     ([0xE1, 0xBE, 0x9E], [0xE1, 0xBC, 0xAE, 0xCE, 0x99]),
     ([0xE1, 0xBE, 0x9F], [0xE1, 0xBC, 0xAF, 0xCE, 0x99]),
     ([0xE1, 0xBE, 0xA0], [0xE1, 0xBD, 0xA8, 0xCE, 0x99]),
     ([0xE1, 0xBE, 0xA1], [0xE1, 0xBD, 0xA9, 0xCE, 0x99]),
     ([0xE1, 0xBE, 0xA2], [0xE1, 0xBD, 0xAA, 0xCE, 0x99]),
     ([0xE1, 0xBE, 0xA3], [0xE1, 0xBD, 0xAB, 0xCE, 0x99]),
     ([0xE1, 0xBE, 0xA4], [0xE1, 0xBD, 0xAC, 0xCE, 0x99]),
     ([0xE1, 0xBE, 0xA5], [0xE1, 0xBD, 0xAD, 0xCE, 0x99]),
     ([0xE1, 0xBE, 0xA6], [0xE1, 0xBD, 0xAE, 0xCE, 0x99]),
     ([0xE1, 0xBE, 0xA7], [0xE1, 0xBD, 0xAF, 0xCE, 0x99]),
     ([0xE1, 0xBE, 0xA8], [0xE1, 0xBD, 0xA8, 0xCE, 0x99]),
     ([0xE1, 0xBE, 0xA9], [0xE1, 0xBD, 0xA9, 0xCE, 0x99]),
     ([0xE1, 0xBE, 0xAA], [0xE1, 0xBD, 0xAA, 0xCE, 0x99]),
     ([0xE1, 0xBE, 0xAB], [0xE1, 0xBD, 0xAB, 0xCE, 0x99]),
     ([0xE1, 0xBE, 0xAC], [0xE1, 0xBD, 0xAC, 0xCE, 0x99]),
     ([0xE1, 0xBE, 0xAD], [0xE1, 0xBD, 0xAD, 0xCE, 0x99]),
     ([0xE1, 0xBE, 0xAE], [0xE1, 0xBD, 0xAE, 0xCE, 0x99]),
     ([0xE1, 0xBE, 0xAF], [0xE1, 0xBD, 0xAF, 0xCE, 0x99]),
     ([0xE1, 0xBE, 0xB0], [0xE1, 0xBE, 0xB8]), ([0xE1, 0xBE, 0xB1], [0xE1, 0xBE, 0xB9]),
     ([0xE1, 0xBE, 0xB2], [0xE1, 0xBE, 0xBA, 0xCE, 0x99]),
     ([0xE1, 0xBE, 0xB3], [0xCE, 0x91, 0xCE, 0x99]),
     ([0xE1, 0xBE, 0xB4], [0xCE, 0x86, 0xCE, 0x99]),
     ([0xE1, 0xBE, 0xB6], [0xCE, 0x91, 0xCD, 0x82]),
     ([0xE1, 0xBE, 0xB7], [0xCE, 0x91, 0xCD, 0x82, 0xCE, 0x99]),
     ([0xE1, 0xBE, 0xBC], [0xCE, 0x91, 0xCE, 0x99]), ([0xE1, 0xBE, 0xBE], [0xCE, 0x99]),
     ([0xE1, 0xBF, 0x82], [0xE1, 0xBF, 0x8A, 0xCE, 0x99]),
     ([0xE1, 0xBF, 0x83], [0xCE, 0x97, 0xCE, 0x99]),
     ([0xE1, 0xBF, 0x84], [0xCE, 0x89, 0xCE, 0x99]),
     ([0xE1, 0xBF, 0x86], [0xCE, 0x97, 0xCD, 0x82]),
     ([0xE1, 0xBF, 0x87], [0xCE, 0x97, 0xCD, 0x82, 0xCE, 0x99]),
     ([0xE1, 0xBF, 0x8C], [0xCE, 0x97, 0xCE, 0x99]), ([0xE1, 0xBF, 0x90], [0xE1, 0xBF, 0x98]),
     ([0xE1, 0xBF, 0x91], [0xE1, 0xBF, 0x99]),
     ([0xE1, 0xBF, 0x92], [0xCE, 0x99, 0xCC, 0x88, 0xCC, 0x80]),
     ([0xE1, 0xBF, 0x93], [0xCE, 0x99, 0xCC, 0x88, 0xCC, 0x81]),
     ([0xE1, 0xBF, 0x96], [0xCE, 0x99, 0xCD, 0x82]),
     ([0xE1, 0xBF, 0x97], [0xCE, 0x99, 0xCC, 0x88, 0xCD, 0x82]),
     ([0xE1, 0xBF, 0xA0], [0xE1, 0xBF, 0xA8]), ([0xE1, 0xBF, 0xA1], [0xE1, 0xBF, 0xA9]),
     ([0xE1, 0xBF, 0xA2], [0xCE, 0xA5, 0xCC, 0x88, 0xCC, 0x80]),
     ([0xE1, 0xBF, 0xA3], [0xCE, 0xA5, 0xCC, 0x88, 0xCC, 0x81]),
     ([0xE1, 0xBF, 0xA4], [0xCE, 0xA1, 0xCC, 0x93]), ([0xE1, 0xBF, 0xA5], [0xE1, 0xBF, 0xAC]),
     ([0xE1, 0xBF, 0xA6], [0xCE, 0xA5, 0xCD, 0x82]),
     ([0xE1, 0xBF, 0xA7], [0xCE, 0xA5, 0xCC, 0x88, 0xCD, 0x82]),
     ([0xE1, 0xBF, 0xB2], [0xE1, 0xBF, 0xBA, 0xCE, 0x99]),
     ([0xE1, 0xBF, 0xB3], [0xCE, 0xA9, 0xCE, 0x99]),
     ([0xE1, 0xBF, 0xB4], [0xCE, 0x8F, 0xCE, 0x99]),
     ([0xE1, 0xBF, 0xB6], [0xCE, 0xA9, 0xCD, 0x82]),
     ([0xE1, 0xBF, 0xB7], [0xCE, 0xA9, 0xCD, 0x82, 0xCE, 0x99]),
     ([0xE1, 0xBF, 0xBC], [0xCE, 0xA9, 0xCE, 0x99]), ([0xE2, 0x85, 0x8E], [0xE2, 0x84, 0xB2]),
     ([0xE2, 0x85, 0xB0], [0xE2, 0x85, 0xA0]), ([0xE2, 0x85, 0xB1], [0xE2, 0x85, 0xA1]),
     ([0xE2, 0x85, 0xB2], [0xE2, 0x85, 0xA2]), ([0xE2, 0x85, 0xB3], [0xE2, 0x85, 0xA3]),
     ([0xE2, 0x85, 0xB4], [0xE2, 0x85, 0xA4]), ([0xE2, 0x85, 0xB5], [0xE2, 0x85, 0xA5]),
     ([0xE2, 0x85, 0xB6], [0xE2, 0x85, 0xA6]), ([0xE2, 0x85, 0xB7], [0xE2, 0x85, 0xA7]),
     ([0xE2, 0x85, 0xB8], [0xE2, 0x85, 0xA8]), ([0xE2, 0x85, 0xB9], [0xE2, 0x85, 0xA9]),
     ([0xE2, 0x85, 0xBA], [0xE2, 0x85, 0xAA]), ([0xE2, 0x85, 0xBB], [0xE2, 0x85, 0xAB]),
     ([0xE2, 0x85, 0xBC], [0xE2, 0x85, 0xAC]), ([0xE2, 0x85, 0xBD], [0xE2, 0x85, 0xAD]),
     ([0xE2, 0x85, 0xBE], [0xE2, 0x85, 0xAE]), ([0xE2, 0x85, 0xBF], [0xE2, 0x85, 0xAF]),
     ([0xE2, 0x86, 0x84], [0xE2, 0x86, 0x83]), ([0xE2, 0x93, 0x90], [0xE2, 0x92, 0xB6]),
     ([0xE2, 0x93, 0x91], [0xE2, 0x92, 0xB7]), ([0xE2, 0x93, 0x92], [0xE2, 0x92, 0xB8]),
     ([0xE2, 0x93, 0x93], [0xE2, 0x92, 0xB9]), ([0xE2, 0x93, 0x94], [0xE2, 0x92, 0xBA]),
     ([0xE2, 0x93, 0x95], [0xE2, 0x92, 0xBB]), ([0xE2, 0x93, 0x96], [0xE2, 0x92, 0xBC]),
     ([0xE2, 0x93, 0x97], [0xE2, 0x92, 0xBD]), ([0xE2, 0x93, 0x98], [0xE2, 0x92, 0xBE]),
     ([0xE2, 0x93, 0x99], [0xE2, 0x92, 0xBF]), ([0xE2, 0x93, 0x9A], [0xE2, 0x93, 0x80]),
     ([0xE2, 0x93, 0x9B], [0xE2, 0x93, 0x81]), ([0xE2, 0x93, 0x9C], [0xE2, 0x93, 0x82]),
     ([0xE2, 0x93, 0x9D], [0xE2, 0x93, 0x83]), ([0xE2, 0x93, 0x9E], [0xE2, 0x93, 0x84]),
     ([0xE2, 0x93, 0x9F], [0xE2, 0x93, 0x85]), ([0xE2, 0x93, 0xA0], [0xE2, 0x93, 0x86]),
     ([0xE2, 0x93, 0xA1], [0xE2, 0x93, 0x87]), ([0xE2, 0x93, 0xA2], [0xE2, 0x93, 0x88]),
     ([0xE2, 0x93, 0xA3], [0xE2, 0x93, 0x89]), ([0xE2, 0x93, 0xA4], [0xE2, 0x93, 0x8A]),
     ([0xE2, 0x93, 0xA5], [0xE2, 0x93, 0x8B]), ([0xE2, 0x93, 0xA6], [0xE2, 0x93, 0x8C]),
     ([0xE2, 0x93, 0xA7], [0xE2, 0x93, 0x8D]), ([0xE2, 0x93, 0xA8], [0xE2, 0x93, 0x8E]),
     ([0xE2, 0x93, 0xA9], [0xE2, 0x93, 0x8F]), ([0xE2, 0xB0, 0xB0], [0xE2, 0xB0, 0x80]),
     ([0xE2, 0xB0, 0xB1], [0xE2, 0xB0, 0x81]), ([0xE2, 0xB0, 0xB2], [0xE2, 0xB0, 0x82]),
     ([0xE2, 0xB0, 0xB3], [0xE2, 0xB0, 0x83]), ([0xE2, 0xB0, 0xB4], [0xE2, 0xB0, 0x84]),
     ([0xE2, 0xB0, 0xB5], [0xE2, 0xB0, 0x85]), ([0xE2, 0xB0, 0xB6], [0xE2, 0xB0, 0x86]),
     ([0xE2, 0xB0, 0xB7], [0xE2, 0xB0, 0x87]), ([0xE2, 0xB0, 0xB8], [0xE2, 0xB0, 0x88]),
     ([0xE2, 0xB0, 0xB9], [0xE2, 0xB0, 0x89]), ([0xE2, 0xB0, 0xBA], [0xE2, 0xB0, 0x8A]),
     ([0xE2, 0xB0, 0xBB], [0xE2, 0xB0, 0x8B]), ([0xE2, 0xB0, 0xBC], [0xE2, 0xB0, 0x8C]),
     ([0xE2, 0xB0, 0xBD], [0xE2, 0xB0, 0x8D]), ([0xE2, 0xB0, 0xBE], [0xE2, 0xB0, 0x8E]),
     ([0xE2, 0xB0, 0xBF], [0xE2, 0xB0, 0x8F]), ([0xE2, 0xB1, 0x80], [0xE2, 0xB0, 0x90]),
     ([0xE2, 0xB1, 0x81], [0xE2, 0xB0, 0x91]), ([0xE2, 0xB1, 0x82], [0xE2, 0xB0, 0x92]),
     ([0xE2, 0xB1, 0x83], [0xE2, 0xB0, 0x93]), ([0xE2, 0xB1, 0x84], [0xE2, 0xB0, 0x94]),
     ([0xE2, 0xB1, 0x85], [0xE2, 0xB0, 0x95]), ([0xE2, 0xB1, 0x86], [0xE2, 0xB0, 0x96]),
     ([0xE2, 0xB1, 0x87], [0xE2, 0xB0, 0x97]), ([0xE2, 0xB1, 0x88], [0xE2, 0xB0, 0x98]),
     ([0xE2, 0xB1, 0x89], [0xE2, 0xB0, 0x99]), ([0xE2, 0xB1, 0x8A], [0xE2, 0xB0, 0x9A]),
     ([0xE2, 0xB1, 0x8B], [0xE2, 0xB0, 0x9B]), ([0xE2, 0xB1, 0x8C], [0xE2, 0xB0, 0x9C]),
     ([0xE2, 0xB1, 0x8D], [0xE2, 0xB0, 0x9D]), ([0xE2, 0xB1, 0x8E], [0xE2, 0xB0, 0x9E]),
     ([0xE2, 0xB1, 0x8F], [0xE2, 0xB0, 0x9F]), ([0xE2, 0xB1, 0x90], [0xE2, 0xB0, 0xA0]),
     ([0xE2, 0xB1, 0x91], [0xE2, 0xB0, 0xA1]), ([0xE2, 0xB1, 0x92], [0xE2, 0xB0, 0xA2]),
     ([0xE2, 0xB1, 0x93], [0xE2, 0xB0, 0xA3]), ([0xE2, 0xB1, 0x94], [0xE2, 0xB0, 0xA4]),
     ([0xE2, 0xB1, 0x95], [0xE2, 0xB0, 0xA5]), ([0xE2, 0xB1, 0x96], [0xE2, 0xB0, 0xA6]),
     ([0xE2, 0xB1, 0x97], [0xE2, 0xB0, 0xA7]), ([0xE2, 0xB1, 0x98], [0xE2, 0xB0, 0xA8]),
     ([0xE2, 0xB1, 0x99], [0xE2, 0xB0, 0xA9]), ([0xE2, 0xB1, 0x9A], [0xE2, 0xB0, 0xAA]),
     ([0xE2, 0xB1, 0x9B], [0xE2, 0xB0, 0xAB]), ([0xE2, 0xB1, 0x9C], [0xE2, 0xB0, 0xAC]),
     ([0xE2, 0xB1, 0x9D], [0xE2, 0xB0, 0xAD]), ([0xE2, 0xB1, 0x9E], [0xE2, 0xB0, 0xAE]),
     ([0xE2, 0xB1, 0x9F], [0xE2, 0xB0, 0xAF]), ([0xE2, 0xB1, 0xA1], [0xE2, 0xB1, 0xA0]),
     ([0xE2, 0xB1, 0xA5], [0xC8, 0xBA]), ([0xE2, 0xB1, 0xA6], [0xC8, 0xBE]),
     ([0xE2, 0xB1, 0xA8], [0xE2, 0xB1, 0xA7]), ([0xE2, 0xB1, 0xAA], [0xE2, 0xB1, 0xA9]),
     ([0xE2, 0xB1, 0xAC], [0xE2, 0xB1, 0xAB]), ([0xE2, 0xB1, 0xB3], [0xE2, 0xB1, 0xB2]),
     ([0xE2, 0xB1, 0xB6], [0xE2, 0xB1, 0xB5]), ([0xE2, 0xB2, 0x81], [0xE2, 0xB2, 0x80]),
     ([0xE2, 0xB2, 0x83], [0xE2, 0xB2, 0x82]), ([0xE2, 0xB2, 0x85], [0xE2, 0xB2, 0x84]),
     ([0xE2, 0xB2, 0x87], [0xE2, 0xB2, 0x86]), ([0xE2, 0xB2, 0x89], [0xE2, 0xB2, 0x88]),
     ([0xE2, 0xB2, 0x8B], [0xE2, 0xB2, 0x8A]), ([0xE2, 0xB2, 0x8D], [0xE2, 0xB2, 0x8C]),
     ([0xE2, 0xB2, 0x8F], [0xE2, 0xB2, 0x8E]), ([0xE2, 0xB2, 0x91], [0xE2, 0xB2, 0x90]),
     ([0xE2, 0xB2, 0x93], [0xE2, 0xB2, 0x92]), ([0xE2, 0xB2, 0x95], [0xE2, 0xB2, 0x94]),
     ([0xE2, 0xB2, 0x97], [0xE2, 0xB2, 0x96]), ([0xE2, 0xB2, 0x99], [0xE2, 0xB2, 0x98]),
     ([0xE2, 0xB2, 0x9B], [0xE2, 0xB2, 0x9A]), ([0xE2, 0xB2, 0x9D], [0xE2, 0xB2, 0x9C]),
     ([0xE2, 0xB2, 0x9F], [0xE2, 0xB2, 0x9E]), ([0xE2, 0xB2, 0xA1], [0xE2, 0xB2, 0xA0]),
     ([0xE2, 0xB2, 0xA3], [0xE2, 0xB2, 0xA2]), ([0xE2, 0xB2, 0xA5], [0xE2, 0xB2, 0xA4]),
     ([0xE2, 0xB2, 0xA7], [0xE2, 0xB2, 0xA6]), ([0xE2, 0xB2, 0xA9], [0xE2, 0xB2, 0xA8]),
     ([0xE2, 0xB2, 0xAB], [0xE2, 0xB2, 0xAA]), ([0xE2, 0xB2, 0xAD], [0xE2, 0xB2, 0xAC]),
     ([0xE2, 0xB2, 0xAF], [0xE2, 0xB2, 0xAE]), ([0xE2, 0xB2, 0xB1], [0xE2, 0xB2, 0xB0]),
     ([0xE2, 0xB2, 0xB3], [0xE2, 0xB2, 0xB2]), ([0xE2, 0xB2, 0xB5], [0xE2, 0xB2, 0xB4]),
     ([0xE2, 0xB2, 0xB7], [0xE2, 0xB2, 0xB6]), ([0xE2, 0xB2, 0xB9], [0xE2, 0xB2, 0xB8]),
     ([0xE2, 0xB2, 0xBB], [0xE2, 0xB2, 0xBA]), ([0xE2, 0xB2, 0xBD], [0xE2, 0xB2, 0xBC]),
     ([0xE2, 0xB2, 0xBF], [0xE2, 0xB2, 0xBE]), ([0xE2, 0xB3, 0x81], [0xE2, 0xB3, 0x80]),
     ([0xE2, 0xB3, 0x83], [0xE2, 0xB3, 0x82]), ([0xE2, 0xB3, 0x85], [0xE2, 0xB3, 0x84]),
     ([0xE2, 0xB3, 0x87], [0xE2, 0xB3, 0x86]), ([0xE2, 0xB3, 0x89], [0xE2, 0xB3, 0x88]),
     ([0xE2, 0xB3, 0x8B], [0xE2, 0xB3, 0x8A]), ([0xE2, 0xB3, 0x8D], [0xE2, 0xB3, 0x8C]),
     ([0xE2, 0xB3, 0x8F], [0xE2, 0xB3, 0x8E]), ([0xE2, 0xB3, 0x91], [0xE2, 0xB3, 0x90]),
     ([0xE2, 0xB3, 0x93], [0xE2, 0xB3, 0x92]), ([0xE2, 0xB3, 0x95], [0xE2, 0xB3, 0x94]),
     ([0xE2, 0xB3, 0x97], [0xE2, 0xB3, 0x96]), ([0xE2, 0xB3, 0x99], [0xE2, 0xB3, 0x98]),
     ([0xE2, 0xB3, 0x9B], [0xE2, 0xB3, 0x9A]), ([0xE2, 0xB3, 0x9D], [0xE2, 0xB3, 0x9C]),
     ([0xE2, 0xB3, 0x9F], [0xE2, 0xB3, 0x9E]), ([0xE2, 0xB3, 0xA1], [0xE2, 0xB3, 0xA0]),
     ([0xE2, 0xB3, 0xA3], [0xE2, 0xB3, 0xA2]), ([0xE2, 0xB3, 0xAC], [0xE2, 0xB3, 0xAB]),
     ([0xE2, 0xB3, 0xAE], [0xE2, 0xB3, 0xAD]), ([0xE2, 0xB3, 0xB3], [0xE2, 0xB3, 0xB2]),
     ([0xE2, 0xB4, 0x80], [0xE1, 0x82, 0xA0]), ([0xE2, 0xB4, 0x81], [0xE1, 0x82, 0xA1]),
     ([0xE2, 0xB4, 0x82], [0xE1, 0x82, 0xA2]), ([0xE2, 0xB4, 0x83], [0xE1, 0x82, 0xA3]),
     ([0xE2, 0xB4, 0x84], [0xE1, 0x82, 0xA4]), ([0xE2, 0xB4, 0x85], [0xE1, 0x82, 0xA5]),
     ([0xE2, 0xB4, 0x86], [0xE1, 0x82, 0xA6]), ([0xE2, 0xB4, 0x87], [0xE1, 0x82, 0xA7]),
     ([0xE2, 0xB4, 0x88], [0xE1, 0x82, 0xA8]), ([0xE2, 0xB4, 0x89], [0xE1, 0x82, 0xA9]),
     ([0xE2, 0xB4, 0x8A], [0xE1, 0x82, 0xAA]), ([0xE2, 0xB4, 0x8B], [0xE1, 0x82, 0xAB]),
     ([0xE2, 0xB4, 0x8C], [0xE1, 0x82, 0xAC]), ([0xE2, 0xB4, 0x8D], [0xE1, 0x82, 0xAD]),
     ([0xE2, 0xB4, 0x8E], [0xE1, 0x82, 0xAE]), ([0xE2, 0xB4, 0x8F], [0xE1, 0x82, 0xAF]),
     ([0xE2, 0xB4, 0x90], [0xE1, 0x82, 0xB0]), ([0xE2, 0xB4, 0x91], [0xE1, 0x82, 0xB1]),
     ([0xE2, 0xB4, 0x92], [0xE1, 0x82, 0xB2]), ([0xE2, 0xB4, 0x93], [0xE1, 0x82, 0xB3]),
     ([0xE2, 0xB4, 0x94], [0xE1, 0x82, 0xB4]), ([0xE2, 0xB4, 0x95], [0xE1, 0x82, 0xB5]),
     ([0xE2, 0xB4, 0x96], [0xE1, 0x82, 0xB6]), ([0xE2, 0xB4, 0x97], [0xE1, 0x82, 0xB7]),
     ([0xE2, 0xB4, 0x98], [0xE1, 0x82, 0xB8]), ([0xE2, 0xB4, 0x99], [0xE1, 0x82, 0xB9]),
     ([0xE2, 0xB4, 0x9A], [0xE1, 0x82, 0xBA]), ([0xE2, 0xB4, 0x9B], [0xE1, 0x82, 0xBB]),
     ([0xE2, 0xB4, 0x9C], [0xE1, 0x82, 0xBC]), ([0xE2, 0xB4, 0x9D], [0xE1, 0x82, 0xBD]),
     ([0xE2, 0xB4, 0x9E], [0xE1, 0x82, 0xBE]), ([0xE2, 0xB4, 0x9F], [0xE1, 0x82, 0xBF]),
     ([0xE2, 0xB4, 0xA0], [0xE1, 0x83, 0x80]), ([0xE2, 0xB4, 0xA1], [0xE1, 0x83, 0x81]),
     ([0xE2, 0xB4, 0xA2], [0xE1, 0x83, 0x82]), ([0xE2, 0xB4, 0xA3], [0xE1, 0x83, 0x83]),
     ([0xE2, 0xB4, 0xA4], [0xE1, 0x83, 0x84]), ([0xE2, 0xB4, 0xA5], [0xE1, 0x83, 0x85]),
     ([0xE2, 0xB4, 0xA7], [0xE1, 0x83, 0x87]), ([0xE2, 0xB4, 0xAD], [0xE1, 0x83, 0x8D]),
     ([0xEA, 0x99, 0x81], [0xEA, 0x99, 0x80]), ([0xEA, 0x99, 0x83], [0xEA, 0x99, 0x82]),
     ([0xEA, 0x99, 0x85], [0xEA, 0x99, 0x84]), ([0xEA, 0x99, 0x87], [0xEA, 0x99, 0x86]),
     ([0xEA, 0x99, 0x89], [0xEA, 0x99, 0x88]), ([0xEA, 0x99, 0x8B], [0xEA, 0x99, 0x8A]),
     ([0xEA, 0x99, 0x8D], [0xEA, 0x99, 0x8C]), ([0xEA, 0x99, 0x8F], [0xEA, 0x99, 0x8E]),
     ([0xEA, 0x99, 0x91], [0xEA, 0x99, 0x90]), ([0xEA, 0x99, 0x93], [0xEA, 0x99, 0x92]),
     ([0xEA, 0x99, 0x95], [0xEA, 0x99, 0x94]), ([0xEA, 0x99, 0x97], [0xEA, 0x99, 0x96]),
     ([0xEA, 0x99, 0x99], [0xEA, 0x99, 0x98]), ([0xEA, 0x99, 0x9B], [0xEA, 0x99, 0x9A]),
     ([0xEA, 0x99, 0x9D], [0xEA, 0x99, 0x9C]), ([0xEA, 0x99, 0x9F], [0xEA, 0x99, 0x9E]),
     ([0xEA, 0x99, 0xA1], [0xEA, 0x99, 0xA0]), ([0xEA, 0x99, 0xA3], [0xEA, 0x99, 0xA2]),
     ([0xEA, 0x99, 0xA5], [0xEA, 0x99, 0xA4]), ([0xEA, 0x99, 0xA7], [0xEA, 0x99, 0xA6]),
     ([0xEA, 0x99, 0xA9], [0xEA, 0x99, 0xA8]), ([0xEA, 0x99, 0xAB], [0xEA, 0x99, 0xAA]),
     ([0xEA, 0x99, 0xAD], [0xEA, 0x99, 0xAC]), ([0xEA, 0x9A, 0x81], [0xEA, 0x9A, 0x80]),
     ([0xEA, 0x9A, 0x83], [0xEA, 0x9A, 0x82]), ([0xEA, 0x9A, 0x85], [0xEA, 0x9A, 0x84]),
     ([0xEA, 0x9A, 0x87], [0xEA, 0x9A, 0x86]), ([0xEA, 0x9A, 0x89], [0xEA, 0x9A, 0x88]),
     ([0xEA, 0x9A, 0x8B], [0xEA, 0x9A, 0x8A]), ([0xEA, 0x9A, 0x8D], [0xEA, 0x9A, 0x8C]),
     ([0xEA, 0x9A, 0x8F], [0xEA, 0x9A, 0x8E]), ([0xEA, 0x9A, 0x91], [0xEA, 0x9A, 0x90]),
     ([0xEA, 0x9A, 0x93], [0xEA, 0x9A, 0x92]), ([0xEA, 0x9A, 0x95], [0xEA, 0x9A, 0x94]),
     ([0xEA, 0x9A, 0x97], [0xEA, 0x9A, 0x96]), ([0xEA, 0x9A, 0x99], [0xEA, 0x9A, 0x98]),
     ([0xEA, 0x9A, 0x9B], [0xEA, 0x9A, 0x9A]), ([0xEA, 0x9C, 0xA3], [0xEA, 0x9C, 0xA2]),
     ([0xEA, 0x9C, 0xA5], [0xEA, 0x9C, 0xA4]), ([0xEA, 0x9C, 0xA7], [0xEA, 0x9C, 0xA6]),
     ([0xEA, 0x9C, 0xA9], [0xEA, 0x9C, 0xA8]), ([0xEA, 0x9C, 0xAB], [0xEA, 0x9C, 0xAA]),
     ([0xEA, 0x9C, 0xAD], [0xEA, 0x9C, 0xAC]), ([0xEA, 0x9C, 0xAF], [0xEA, 0x9C, 0xAE]),
     ([0xEA, 0x9C, 0xB3], [0xEA, 0x9C, 0xB2]), ([0xEA, 0x9C, 0xB5], [0xEA, 0x9C, 0xB4]),
     ([0xEA, 0x9C, 0xB7], [0xEA, 0x9C, 0xB6]), ([0xEA, 0x9C, 0xB9], [0xEA, 0x9C, 0xB8]),
     ([0xEA, 0x9C, 0xBB], [0xEA, 0x9C, 0xBA]), ([0xEA, 0x9C, 0xBD], [0xEA, 0x9C, 0xBC]),
     ([0xEA, 0x9C, 0xBF], [0xEA, 0x9C, 0xBE]), ([0xEA, 0x9D, 0x81], [0xEA, 0x9D, 0x80]),
     ([0xEA, 0x9D, 0x83], [0xEA, 0x9D, 0x82]), ([0xEA, 0x9D, 0x85], [0xEA, 0x9D, 0x84]),
     ([0xEA, 0x9D, 0x87], [0xEA, 0x9D, 0x86]), ([0xEA, 0x9D, 0x89], [0xEA, 0x9D, 0x88]),
     ([0xEA, 0x9D, 0x8B], [0xEA, 0x9D, 0x8A]), ([0xEA, 0x9D, 0x8D], [0xEA, 0x9D, 0x8C]),
     ([0xEA, 0x9D, 0x8F], [0xEA, 0x9D, 0x8E]), ([0xEA, 0x9D, 0x91], [0xEA, 0x9D, 0x90]),
     ([0xEA, 0x9D, 0x93], [0xEA, 0x9D, 0x92]), ([0xEA, 0x9D, 0x95], [0xEA, 0x9D, 0x94]),
     ([0xEA, 0x9D, 0x97], [0xEA, 0x9D, 0x96]), ([0xEA, 0x9D, 0x99], [0xEA, 0x9D, 0x98]),
     ([0xEA, 0x9D, 0x9B], [0xEA, 0x9D, 0x9A]), ([0xEA, 0x9D, 0x9D], [0xEA, 0x9D, 0x9C]),
     ([0xEA, 0x9D, 0x9F], [0xEA, 0x9D, 0x9E]), ([0xEA, 0x9D, 0xA1], [0xEA, 0x9D, 0xA0]),
     ([0xEA, 0x9D, 0xA3], [0xEA, 0x9D, 0xA2]), ([0xEA, 0x9D, 0xA5], [0xEA, 0x9D, 0xA4]),
     ([0xEA, 0x9D, 0xA7], [0xEA, 0x9D, 0xA6]), ([0xEA, 0x9D, 0xA9], [0xEA, 0x9D, 0xA8]),
     ([0xEA, 0x9D, 0xAB], [0xEA, 0x9D, 0xAA]), ([0xEA, 0x9D, 0xAD], [0xEA, 0x9D, 0xAC]),
     ([0xEA, 0x9D, 0xAF], [0xEA, 0x9D, 0xAE]), ([0xEA, 0x9D, 0xBA], [0xEA, 0x9D, 0xB9]),
     ([0xEA, 0x9D, 0xBC], [0xEA, 0x9D, 0xBB]), ([0xEA, 0x9D, 0xBF], [0xEA, 0x9D, 0xBE]),
     ([0xEA, 0x9E, 0x81], [0xEA, 0x9E, 0x80]), ([0xEA, 0x9E, 0x83], [0xEA, 0x9E, 0x82]),
     ([0xEA, 0x9E, 0x85], [0xEA, 0x9E, 0x84]), ([0xEA, 0x9E, 0x87], [0xEA, 0x9E, 0x86]),
     ([0xEA, 0x9E, 0x8C], [0xEA, 0x9E, 0x8B]), ([0xEA, 0x9E, 0x91], [0xEA, 0x9E, 0x90]),
     ([0xEA, 0x9E, 0x93], [0xEA, 0x9E, 0x92]), ([0xEA, 0x9E, 0x94], [0xEA, 0x9F, 0x84]),
     ([0xEA, 0x9E, 0x97], [0xEA, 0x9E, 0x96]), ([0xEA, 0x9E, 0x99], [0xEA, 0x9E, 0x98]),
     ([0xEA, 0x9E, 0x9B], [0xEA, 0x9E, 0x9A]), ([0xEA, 0x9E, 0x9D], [0xEA, 0x9E, 0x9C]),
     ([0xEA, 0x9E, 0x9F], [0xEA, 0x9E, 0x9E]), ([0xEA, 0x9E, 0xA1], [0xEA, 0x9E, 0xA0]),
     ([0xEA, 0x9E, 0xA3], [0xEA, 0x9E, 0xA2]), ([0xEA, 0x9E, 0xA5], [0xEA, 0x9E, 0xA4]),
     ([0xEA, 0x9E, 0xA7], [0xEA, 0x9E, 0xA6]), ([0xEA, 0x9E, 0xA9], [0xEA, 0x9E, 0xA8]),
     ([0xEA, 0x9E, 0xB5], [0xEA, 0x9E, 0xB4]), ([0xEA, 0x9E, 0xB7], [0xEA, 0x9E, 0xB6]),
     ([0xEA, 0x9E, 0xB9], [0xEA, 0x9E, 0xB8]), ([0xEA, 0x9E, 0xBB], [0xEA, 0x9E, 0xBA]),
     ([0xEA, 0x9E, 0xBD], [0xEA, 0x9E, 0xBC]), ([0xEA, 0x9E, 0xBF], [0xEA, 0x9E, 0xBE]),
     ([0xEA, 0x9F, 0x81], [0xEA, 0x9F, 0x80]), ([0xEA, 0x9F, 0x83], [0xEA, 0x9F, 0x82]),
     ([0xEA, 0x9F, 0x88], [0xEA, 0x9F, 0x87]), ([0xEA, 0x9F, 0x8A], [0xEA, 0x9F, 0x89]),
     ([0xEA, 0x9F, 0x91], [0xEA, 0x9F, 0x90]), ([0xEA, 0x9F, 0x97], [0xEA, 0x9F, 0x96]),
     ([0xEA, 0x9F, 0x99], [0xEA, 0x9F, 0x98]), ([0xEA, 0x9F, 0xB6], [0xEA, 0x9F, 0xB5]),
     ([0xEA, 0xAD, 0x93], [0xEA, 0x9E, 0xB3]), ([0xEA, 0xAD, 0xB0], [0xE1, 0x8E, 0xA0]),
     ([0xEA, 0xAD, 0xB1], [0xE1, 0x8E, 0xA1]), ([0xEA, 0xAD, 0xB2], [0xE1, 0x8E, 0xA2]),
     ([0xEA, 0xAD, 0xB3], [0xE1, 0x8E, 0xA3]), ([0xEA, 0xAD, 0xB4], [0xE1, 0x8E, 0xA4]),
     ([0xEA, 0xAD, 0xB5], [0xE1, 0x8E, 0xA5]), ([0xEA, 0xAD, 0xB6], [0xE1, 0x8E, 0xA6]),
     ([0xEA, 0xAD, 0xB7], [0xE1, 0x8E, 0xA7]), ([0xEA, 0xAD, 0xB8], [0xE1, 0x8E, 0xA8]),
     ([0xEA, 0xAD, 0xB9], [0xE1, 0x8E, 0xA9]), ([0xEA, 0xAD, 0xBA], [0xE1, 0x8E, 0xAA]),
     ([0xEA, 0xAD, 0xBB], [0xE1, 0x8E, 0xAB]), ([0xEA, 0xAD, 0xBC], [0xE1, 0x8E, 0xAC]),
     ([0xEA, 0xAD, 0xBD], [0xE1, 0x8E, 0xAD]), ([0xEA, 0xAD, 0xBE], [0xE1, 0x8E, 0xAE]),
     ([0xEA, 0xAD, 0xBF], [0xE1, 0x8E, 0xAF]), ([0xEA, 0xAE, 0x80], [0xE1, 0x8E, 0xB0]),
     ([0xEA, 0xAE, 0x81], [0xE1, 0x8E, 0xB1]), ([0xEA, 0xAE, 0x82], [0xE1, 0x8E, 0xB2]),
     ([0xEA, 0xAE, 0x83], [0xE1, 0x8E, 0xB3]), ([0xEA, 0xAE, 0x84], [0xE1, 0x8E, 0xB4]),
     ([0xEA, 0xAE, 0x85], [0xE1, 0x8E, 0xB5]), ([0xEA, 0xAE, 0x86], [0xE1, 0x8E, 0xB6]),
     ([0xEA, 0xAE, 0x87], [0xE1, 0x8E, 0xB7]), ([0xEA, 0xAE, 0x88], [0xE1, 0x8E, 0xB8]),
     ([0xEA, 0xAE, 0x89], [0xE1, 0x8E, 0xB9]), ([0xEA, 0xAE, 0x8A], [0xE1, 0x8E, 0xBA]),
     ([0xEA, 0xAE, 0x8B], [0xE1, 0x8E, 0xBB]), ([0xEA, 0xAE, 0x8C], [0xE1, 0x8E, 0xBC]),
     ([0xEA, 0xAE, 0x8D], [0xE1, 0x8E, 0xBD]), ([0xEA, 0xAE, 0x8E], [0xE1, 0x8E, 0xBE]),
     ([0xEA, 0xAE, 0x8F], [0xE1, 0x8E, 0xBF]), ([0xEA, 0xAE, 0x90], [0xE1, 0x8F, 0x80]),
     ([0xEA, 0xAE, 0x91], [0xE1, 0x8F, 0x81]), ([0xEA, 0xAE, 0x92], [0xE1, 0x8F, 0x82]),
     ([0xEA, 0xAE, 0x93], [0xE1, 0x8F, 0x83]), ([0xEA, 0xAE, 0x94], [0xE1, 0x8F, 0x84]),
     ([0xEA, 0xAE, 0x95], [0xE1, 0x8F, 0x85]), ([0xEA, 0xAE, 0x96], [0xE1, 0x8F, 0x86]),
     ([0xEA, 0xAE, 0x97], [0xE1, 0x8F, 0x87]), ([0xEA, 0xAE, 0x98], [0xE1, 0x8F, 0x88]),
     ([0xEA, 0xAE, 0x99], [0xE1, 0x8F, 0x89]), ([0xEA, 0xAE, 0x9A], [0xE1, 0x8F, 0x8A]),
     ([0xEA, 0xAE, 0x9B], [0xE1, 0x8F, 0x8B]), ([0xEA, 0xAE, 0x9C], [0xE1, 0x8F, 0x8C]),
     ([0xEA, 0xAE, 0x9D], [0xE1, 0x8F, 0x8D]), ([0xEA, 0xAE, 0x9E], [0xE1, 0x8F, 0x8E]),
     ([0xEA, 0xAE, 0x9F], [0xE1, 0x8F, 0x8F]), ([0xEA, 0xAE, 0xA0], [0xE1, 0x8F, 0x90]),
     ([0xEA, 0xAE, 0xA1], [0xE1, 0x8F, 0x91]), ([0xEA, 0xAE, 0xA2], [0xE1, 0x8F, 0x92]),
     ([0xEA, 0xAE, 0xA3], [0xE1, 0x8F, 0x93]), ([0xEA, 0xAE, 0xA4], [0xE1, 0x8F, 0x94]),
     ([0xEA, 0xAE, 0xA5], [0xE1, 0x8F, 0x95]), ([0xEA, 0xAE, 0xA6], [0xE1, 0x8F, 0x96]),
     ([0xEA, 0xAE, 0xA7], [0xE1, 0x8F, 0x97]), ([0xEA, 0xAE, 0xA8], [0xE1, 0x8F, 0x98]),
     ([0xEA, 0xAE, 0xA9], [0xE1, 0x8F, 0x99]), ([0xEA, 0xAE, 0xAA], [0xE1, 0x8F, 0x9A]),
     ([0xEA, 0xAE, 0xAB], [0xE1, 0x8F, 0x9B]), ([0xEA, 0xAE, 0xAC], [0xE1, 0x8F, 0x9C]),
     ([0xEA, 0xAE, 0xAD], [0xE1, 0x8F, 0x9D]), ([0xEA, 0xAE, 0xAE], [0xE1, 0x8F, 0x9E]),
     ([0xEA, 0xAE, 0xAF], [0xE1, 0x8F, 0x9F]), ([0xEA, 0xAE, 0xB0], [0xE1, 0x8F, 0xA0]),
     ([0xEA, 0xAE, 0xB1], [0xE1, 0x8F, 0xA1]), ([0xEA, 0xAE, 0xB2], [0xE1, 0x8F, 0xA2]),
     ([0xEA, 0xAE, 0xB3], [0xE1, 0x8F, 0xA3]), ([0xEA, 0xAE, 0xB4], [0xE1, 0x8F, 0xA4]),
     ([0xEA, 0xAE, 0xB5], [0xE1, 0x8F, 0xA5]), ([0xEA, 0xAE, 0xB6], [0xE1, 0x8F, 0xA6]),
     ([0xEA, 0xAE, 0xB7], [0xE1, 0x8F, 0xA7]), ([0xEA, 0xAE, 0xB8], [0xE1, 0x8F, 0xA8]),
     ([0xEA, 0xAE, 0xB9], [0xE1, 0x8F, 0xA9]), ([0xEA, 0xAE, 0xBA], [0xE1, 0x8F, 0xAA]),
     ([0xEA, 0xAE, 0xBB], [0xE1, 0x8F, 0xAB]), ([0xEA, 0xAE, 0xBC], [0xE1, 0x8F, 0xAC]),
     ([0xEA, 0xAE, 0xBD], [0xE1, 0x8F, 0xAD]), ([0xEA, 0xAE, 0xBE], [0xE1, 0x8F, 0xAE]),
     ([0xEA, 0xAE, 0xBF], [0xE1, 0x8F, 0xAF]), ([0xEF, 0xAC, 0x80], [0x46, 0x46]),
     ([0xEF, 0xAC, 0x81], [0x46, 0x49]), ([0xEF, 0xAC, 0x82], [0x46, 0x4C]),
     ([0xEF, 0xAC, 0x83], [0x46, 0x46, 0x49]), ([0xEF, 0xAC, 0x84], [0x46, 0x46, 0x4C]),
     ([0xEF, 0xAC, 0x85], [0x53, 0x54]), ([0xEF, 0xAC, 0x86], [0x53, 0x54]),
     ([0xEF, 0xAC, 0x93], [0xD5, 0x84, 0xD5, 0x86]),
     ([0xEF, 0xAC, 0x94], [0xD5, 0x84, 0xD4, 0xB5]),
     ([0xEF, 0xAC, 0x95], [0xD5, 0x84, 0xD4, 0xBB]),
     ([0xEF, 0xAC, 0x96], [0xD5, 0x8E, 0xD5, 0x86]),
     ([0xEF, 0xAC, 0x97], [0xD5, 0x84, 0xD4, 0xBD]), ([0xEF, 0xBD, 0x81], [0xEF, 0xBC, 0xA1]),
     ([0xEF, 0xBD, 0x82], [0xEF, 0xBC, 0xA2]), ([0xEF, 0xBD, 0x83], [0xEF, 0xBC, 0xA3]),
     ([0xEF, 0xBD, 0x84], [0xEF, 0xBC, 0xA4]), ([0xEF, 0xBD, 0x85], [0xEF, 0xBC, 0xA5]),
     ([0xEF, 0xBD, 0x86], [0xEF, 0xBC, 0xA6]), ([0xEF, 0xBD, 0x87], [0xEF, 0xBC, 0xA7]),
     ([0xEF, 0xBD, 0x88], [0xEF, 0xBC, 0xA8]), ([0xEF, 0xBD, 0x89], [0xEF, 0xBC, 0xA9]),
     ([0xEF, 0xBD, 0x8A], [0xEF, 0xBC, 0xAA]), ([0xEF, 0xBD, 0x8B], [0xEF, 0xBC, 0xAB]),
     ([0xEF, 0xBD, 0x8C], [0xEF, 0xBC, 0xAC]), ([0xEF, 0xBD, 0x8D], [0xEF, 0xBC, 0xAD]),
     ([0xEF, 0xBD, 0x8E], [0xEF, 0xBC, 0xAE]), ([0xEF, 0xBD, 0x8F], [0xEF, 0xBC, 0xAF]),
     ([0xEF, 0xBD, 0x90], [0xEF, 0xBC, 0xB0]), ([0xEF, 0xBD, 0x91], [0xEF, 0xBC, 0xB1]),
     ([0xEF, 0xBD, 0x92], [0xEF, 0xBC, 0xB2]), ([0xEF, 0xBD, 0x93], [0xEF, 0xBC, 0xB3]),
     ([0xEF, 0xBD, 0x94], [0xEF, 0xBC, 0xB4]), ([0xEF, 0xBD, 0x95], [0xEF, 0xBC, 0xB5]),
     ([0xEF, 0xBD, 0x96], [0xEF, 0xBC, 0xB6]), ([0xEF, 0xBD, 0x97], [0xEF, 0xBC, 0xB7]),
     ([0xEF, 0xBD, 0x98], [0xEF, 0xBC, 0xB8]), ([0xEF, 0xBD, 0x99], [0xEF, 0xBC, 0xB9]),
     ([0xEF, 0xBD, 0x9A], [0xEF, 0xBC, 0xBA]),
     ([0xF0, 0x90, 0x90, 0xA8], [0xF0, 0x90, 0x90, 0x80]),
     ([0xF0, 0x90, 0x90, 0xA9], [0xF0, 0x90, 0x90, 0x81]),
     ([0xF0, 0x90, 0x90, 0xAA], [0xF0, 0x90, 0x90, 0x82]),
     ([0xF0, 0x90, 0x90, 0xAB], [0xF0, 0x90, 0x90, 0x83]),
     ([0xF0, 0x90, 0x90, 0xAC], [0xF0, 0x90, 0x90, 0x84]),
     ([0xF0, 0x90, 0x90, 0xAD], [0xF0, 0x90, 0x90, 0x85]),
     ([0xF0, 0x90, 0x90, 0xAE], [0xF0, 0x90, 0x90, 0x86]),
     ([0xF0, 0x90, 0x90, 0xAF], [0xF0, 0x90, 0x90, 0x87]),
     ([0xF0, 0x90, 0x90, 0xB0], [0xF0, 0x90, 0x90, 0x88]),
     ([0xF0, 0x90, 0x90, 0xB1], [0xF0, 0x90, 0x90, 0x89]),
     ([0xF0, 0x90, 0x90, 0xB2], [0xF0, 0x90, 0x90, 0x8A]),
     ([0xF0, 0x90, 0x90, 0xB3], [0xF0, 0x90, 0x90, 0x8B]),
     ([0xF0, 0x90, 0x90, 0xB4], [0xF0, 0x90, 0x90, 0x8C]),
     ([0xF0, 0x90, 0x90, 0xB5], [0xF0, 0x90, 0x90, 0x8D]),
     ([0xF0, 0x90, 0x90, 0xB6], [0xF0, 0x90, 0x90, 0x8E]),
     ([0xF0, 0x90, 0x90, 0xB7], [0xF0, 0x90, 0x90, 0x8F]),
     ([0xF0, 0x90, 0x90, 0xB8], [0xF0, 0x90, 0x90, 0x90]),
     ([0xF0, 0x90, 0x90, 0xB9], [0xF0, 0x90, 0x90, 0x91]),
     ([0xF0, 0x90, 0x90, 0xBA], [0xF0, 0x90, 0x90, 0x92]),
     ([0xF0, 0x90, 0x90, 0xBB], [0xF0, 0x90, 0x90, 0x93]),
     ([0xF0, 0x90, 0x90, 0xBC], [0xF0, 0x90, 0x90, 0x94]),
     ([0xF0, 0x90, 0x90, 0xBD], [0xF0, 0x90, 0x90, 0x95]),
     ([0xF0, 0x90, 0x90, 0xBE], [0xF0, 0x90, 0x90, 0x96]),
     ([0xF0, 0x90, 0x90, 0xBF], [0xF0, 0x90, 0x90, 0x97]),
     ([0xF0, 0x90, 0x91, 0x80], [0xF0, 0x90, 0x90, 0x98]),
     ([0xF0, 0x90, 0x91, 0x81], [0xF0, 0x90, 0x90, 0x99]),
     ([0xF0, 0x90, 0x91, 0x82], [0xF0, 0x90, 0x90, 0x9A]),
     ([0xF0, 0x90, 0x91, 0x83], [0xF0, 0x90, 0x90, 0x9B]),
     ([0xF0, 0x90, 0x91, 0x84], [0xF0, 0x90, 0x90, 0x9C]),
     ([0xF0, 0x90, 0x91, 0x85], [0xF0, 0x90, 0x90, 0x9D]),
     ([0xF0, 0x90, 0x91, 0x86], [0xF0, 0x90, 0x90, 0x9E]),
     ([0xF0, 0x90, 0x91, 0x87], [0xF0, 0x90, 0x90, 0x9F]),
     ([0xF0, 0x90, 0x91, 0x88], [0xF0, 0x90, 0x90, 0xA0]),
     ([0xF0, 0x90, 0x91, 0x89], [0xF0, 0x90, 0x90, 0xA1]),
     ([0xF0, 0x90, 0x91, 0x8A], [0xF0, 0x90, 0x90, 0xA2]),
     ([0xF0, 0x90, 0x91, 0x8B], [0xF0, 0x90, 0x90, 0xA3]),
     ([0xF0, 0x90, 0x91, 0x8C], [0xF0, 0x90, 0x90, 0xA4]),
     ([0xF0, 0x90, 0x91, 0x8D], [0xF0, 0x90, 0x90, 0xA5]),
     ([0xF0, 0x90, 0x91, 0x8E], [0xF0, 0x90, 0x90, 0xA6]),
     ([0xF0, 0x90, 0x91, 0x8F], [0xF0, 0x90, 0x90, 0xA7]),
     ([0xF0, 0x90, 0x93, 0x98], [0xF0, 0x90, 0x92, 0xB0]),
     ([0xF0, 0x90, 0x93, 0x99], [0xF0, 0x90, 0x92, 0xB1]),
     ([0xF0, 0x90, 0x93, 0x9A], [0xF0, 0x90, 0x92, 0xB2]),
     ([0xF0, 0x90, 0x93, 0x9B], [0xF0, 0x90, 0x92, 0xB3]),
     ([0xF0, 0x90, 0x93, 0x9C], [0xF0, 0x90, 0x92, 0xB4]),
     ([0xF0, 0x90, 0x93, 0x9D], [0xF0, 0x90, 0x92, 0xB5]),
     ([0xF0, 0x90, 0x93, 0x9E], [0xF0, 0x90, 0x92, 0xB6]),
     ([0xF0, 0x90, 0x93, 0x9F], [0xF0, 0x90, 0x92, 0xB7]),
     ([0xF0, 0x90, 0x93, 0xA0], [0xF0, 0x90, 0x92, 0xB8]),
     ([0xF0, 0x90, 0x93, 0xA1], [0xF0, 0x90, 0x92, 0xB9]),
     ([0xF0, 0x90, 0x93, 0xA2], [0xF0, 0x90, 0x92, 0xBA]),
     ([0xF0, 0x90, 0x93, 0xA3], [0xF0, 0x90, 0x92, 0xBB]),
     ([0xF0, 0x90, 0x93, 0xA4], [0xF0, 0x90, 0x92, 0xBC]),
     ([0xF0, 0x90, 0x93, 0xA5], [0xF0, 0x90, 0x92, 0xBD]),
     ([0xF0, 0x90, 0x93, 0xA6], [0xF0, 0x90, 0x92, 0xBE]),
     ([0xF0, 0x90, 0x93, 0xA7], [0xF0, 0x90, 0x92, 0xBF]),
     ([0xF0, 0x90, 0x93, 0xA8], [0xF0, 0x90, 0x93, 0x80]),
     ([0xF0, 0x90, 0x93, 0xA9], [0xF0, 0x90, 0x93, 0x81]),
     ([0xF0, 0x90, 0x93, 0xAA], [0xF0, 0x90, 0x93, 0x82]),
     ([0xF0, 0x90, 0x93, 0xAB], [0xF0, 0x90, 0x93, 0x83]),
     ([0xF0, 0x90, 0x93, 0xAC], [0xF0, 0x90, 0x93, 0x84]),
     ([0xF0, 0x90, 0x93, 0xAD], [0xF0, 0x90, 0x93, 0x85]),
     ([0xF0, 0x90, 0x93, 0xAE], [0xF0, 0x90, 0x93, 0x86]),
     ([0xF0, 0x90, 0x93, 0xAF], [0xF0, 0x90, 0x93, 0x87]),
     ([0xF0, 0x90, 0x93, 0xB0], [0xF0, 0x90, 0x93, 0x88]),
     ([0xF0, 0x90, 0x93, 0xB1], [0xF0, 0x90, 0x93, 0x89]),
     ([0xF0, 0x90, 0x93, 0xB2], [0xF0, 0x90, 0x93, 0x8A]),
     ([0xF0, 0x90, 0x93, 0xB3], [0xF0, 0x90, 0x93, 0x8B]),
     ([0xF0, 0x90, 0x93, 0xB4], [0xF0, 0x90, 0x93, 0x8C]),
     ([0xF0, 0x90, 0x93, 0xB5], [0xF0, 0x90, 0x93, 0x8D]),
     ([0xF0, 0x90, 0x93, 0xB6], [0xF0, 0x90, 0x93, 0x8E]),
     ([0xF0, 0x90, 0x93, 0xB7], [0xF0, 0x90, 0x93, 0x8F]),
     ([0xF0, 0x90, 0x93, 0xB8], [0xF0, 0x90, 0x93, 0x90]),
     ([0xF0, 0x90, 0x93, 0xB9], [0xF0, 0x90, 0x93, 0x91]),
     ([0xF0, 0x90, 0x93, 0xBA], [0xF0, 0x90, 0x93, 0x92]),
     ([0xF0, 0x90, 0x93, 0xBB], [0xF0, 0x90, 0x93, 0x93]),
     ([0xF0, 0x90, 0x96, 0x97], [0xF0, 0x90, 0x95, 0xB0]),
     ([0xF0, 0x90, 0x96, 0x98], [0xF0, 0x90, 0x95, 0xB1]),
     ([0xF0, 0x90, 0x96, 0x99], [0xF0, 0x90, 0x95, 0xB2]),
     ([0xF0, 0x90, 0x96, 0x9A], [0xF0, 0x90, 0x95, 0xB3]),
     ([0xF0, 0x90, 0x96, 0x9B], [0xF0, 0x90, 0x95, 0xB4]),
     ([0xF0, 0x90, 0x96, 0x9C], [0xF0, 0x90, 0x95, 0xB5]),
     ([0xF0, 0x90, 0x96, 0x9D], [0xF0, 0x90, 0x95, 0xB6]),
     ([0xF0, 0x90, 0x96, 0x9E], [0xF0, 0x90, 0x95, 0xB7]),
     ([0xF0, 0x90, 0x96, 0x9F], [0xF0, 0x90, 0x95, 0xB8]),
     ([0xF0, 0x90, 0x96, 0xA0], [0xF0, 0x90, 0x95, 0xB9]),
     ([0xF0, 0x90, 0x96, 0xA1], [0xF0, 0x90, 0x95, 0xBA]),
     ([0xF0, 0x90, 0x96, 0xA3], [0xF0, 0x90, 0x95, 0xBC]),
     ([0xF0, 0x90, 0x96, 0xA4], [0xF0, 0x90, 0x95, 0xBD]),
     ([0xF0, 0x90, 0x96, 0xA5], [0xF0, 0x90, 0x95, 0xBE]),
     ([0xF0, 0x90, 0x96, 0xA6], [0xF0, 0x90, 0x95, 0xBF]),
     ([0xF0, 0x90, 0x96, 0xA7], [0xF0, 0x90, 0x96, 0x80]),
     ([0xF0, 0x90, 0x96, 0xA8], [0xF0, 0x90, 0x96, 0x81]),
     ([0xF0, 0x90, 0x96, 0xA9], [0xF0, 0x90, 0x96, 0x82]),
     ([0xF0, 0x90, 0x96, 0xAA], [0xF0, 0x90, 0x96, 0x83]),
     ([0xF0, 0x90, 0x96, 0xAB], [0xF0, 0x90, 0x96, 0x84]),
     ([0xF0, 0x90, 0x96, 0xAC], [0xF0, 0x90, 0x96, 0x85]),
     ([0xF0, 0x90, 0x96, 0xAD], [0xF0, 0x90, 0x96, 0x86]),
     ([0xF0, 0x90, 0x96, 0xAE], [0xF0, 0x90, 0x96, 0x87]),
     ([0xF0, 0x90, 0x96, 0xAF], [0xF0, 0x90, 0x96, 0x88]),
     ([0xF0, 0x90, 0x96, 0xB0], [0xF0, 0x90, 0x96, 0x89]),
     ([0xF0, 0x90, 0x96, 0xB1], [0xF0, 0x90, 0x96, 0x8A]),
     ([0xF0, 0x90, 0x96, 0xB3], [0xF0, 0x90, 0x96, 0x8C]),
     ([0xF0, 0x90, 0x96, 0xB4], [0xF0, 0x90, 0x96, 0x8D]),
     ([0xF0, 0x90, 0x96, 0xB5], [0xF0, 0x90, 0x96, 0x8E]),
     ([0xF0, 0x90, 0x96, 0xB6], [0xF0, 0x90, 0x96, 0x8F]),
     ([0xF0, 0x90, 0x96, 0xB7], [0xF0, 0x90, 0x96, 0x90]),
     ([0xF0, 0x90, 0x96, 0xB8], [0xF0, 0x90, 0x96, 0x91]),
     ([0xF0, 0x90, 0x96, 0xB9], [0xF0, 0x90, 0x96, 0x92]),
     ([0xF0, 0x90, 0x96, 0xBB], [0xF0, 0x90, 0x96, 0x94]),
     ([0xF0, 0x90, 0x96, 0xBC], [0xF0, 0x90, 0x96, 0x95]),
     ([0xF0, 0x90, 0xB3, 0x80], [0xF0, 0x90, 0xB2, 0x80]),
     ([0xF0, 0x90, 0xB3, 0x81], [0xF0, 0x90, 0xB2, 0x81]),
     ([0xF0, 0x90, 0xB3, 0x82], [0xF0, 0x90, 0xB2, 0x82]),
     ([0xF0, 0x90, 0xB3, 0x83], [0xF0, 0x90, 0xB2, 0x83]),
     ([0xF0, 0x90, 0xB3, 0x84], [0xF0, 0x90, 0xB2, 0x84]),
     ([0xF0, 0x90, 0xB3, 0x85], [0xF0, 0x90, 0xB2, 0x85]),
     ([0xF0, 0x90, 0xB3, 0x86], [0xF0, 0x90, 0xB2, 0x86]),
     ([0xF0, 0x90, 0xB3, 0x87], [0xF0, 0x90, 0xB2, 0x87]),
     ([0xF0, 0x90, 0xB3, 0x88], [0xF0, 0x90, 0xB2, 0x88]),
     ([0xF0, 0x90, 0xB3, 0x89], [0xF0, 0x90, 0xB2, 0x89]),
     ([0xF0, 0x90, 0xB3, 0x8A], [0xF0, 0x90, 0xB2, 0x8A]),
     ([0xF0, 0x90, 0xB3, 0x8B], [0xF0, 0x90, 0xB2, 0x8B]),
     ([0xF0, 0x90, 0xB3, 0x8C], [0xF0, 0x90, 0xB2, 0x8C]),
     ([0xF0, 0x90, 0xB3, 0x8D], [0xF0, 0x90, 0xB2, 0x8D]),
     ([0xF0, 0x90, 0xB3, 0x8E], [0xF0, 0x90, 0xB2, 0x8E]),
     ([0xF0, 0x90, 0xB3, 0x8F], [0xF0, 0x90, 0xB2, 0x8F]),
     ([0xF0, 0x90, 0xB3, 0x90], [0xF0, 0x90, 0xB2, 0x90]),
     ([0xF0, 0x90, 0xB3, 0x91], [0xF0, 0x90, 0xB2, 0x91]),
     ([0xF0, 0x90, 0xB3, 0x92], [0xF0, 0x90, 0xB2, 0x92]),
     ([0xF0, 0x90, 0xB3, 0x93], [0xF0, 0x90, 0xB2, 0x93]),
     ([0xF0, 0x90, 0xB3, 0x94], [0xF0, 0x90, 0xB2, 0x94]),
     ([0xF0, 0x90, 0xB3, 0x95], [0xF0, 0x90, 0xB2, 0x95]),
     ([0xF0, 0x90, 0xB3, 0x96], [0xF0, 0x90, 0xB2, 0x96]),
     ([0xF0, 0x90, 0xB3, 0x97], [0xF0, 0x90, 0xB2, 0x97]),
     ([0xF0, 0x90, 0xB3, 0x98], [0xF0, 0x90, 0xB2, 0x98]),
     ([0xF0, 0x90, 0xB3, 0x99], [0xF0, 0x90, 0xB2, 0x99]),
     ([0xF0, 0x90, 0xB3, 0x9A], [0xF0, 0x90, 0xB2, 0x9A]),
     ([0xF0, 0x90, 0xB3, 0x9B], [0xF0, 0x90, 0xB2, 0x9B]),
     ([0xF0, 0x90, 0xB3, 0x9C], [0xF0, 0x90, 0xB2, 0x9C]),
     ([0xF0, 0x90, 0xB3, 0x9D], [0xF0, 0x90, 0xB2, 0x9D]),
     ([0xF0, 0x90, 0xB3, 0x9E], [0xF0, 0x90, 0xB2, 0x9E]),
     ([0xF0, 0x90, 0xB3, 0x9F], [0xF0, 0x90, 0xB2, 0x9F]),
     ([0xF0, 0x90, 0xB3, 0xA0], [0xF0, 0x90, 0xB2, 0xA0]),
     ([0xF0, 0x90, 0xB3, 0xA1], [0xF0, 0x90, 0xB2, 0xA1]),
     ([0xF0, 0x90, 0xB3, 0xA2], [0xF0, 0x90, 0xB2, 0xA2]),
     ([0xF0, 0x90, 0xB3, 0xA3], [0xF0, 0x90, 0xB2, 0xA3]),
     ([0xF0, 0x90, 0xB3, 0xA4], [0xF0, 0x90, 0xB2, 0xA4]),
     ([0xF0, 0x90, 0xB3, 0xA5], [0xF0, 0x90, 0xB2, 0xA5]),
     ([0xF0, 0x90, 0xB3, 0xA6], [0xF0, 0x90, 0xB2, 0xA6]),
     ([0xF0, 0x90, 0xB3, 0xA7], [0xF0, 0x90, 0xB2, 0xA7]),
     ([0xF0, 0x90, 0xB3, 0xA8], [0xF0, 0x90, 0xB2, 0xA8]),
     ([0xF0, 0x90, 0xB3, 0xA9], [0xF0, 0x90, 0xB2, 0xA9]),
     ([0xF0, 0x90, 0xB3, 0xAA], [0xF0, 0x90, 0xB2, 0xAA]),
     ([0xF0, 0x90, 0xB3, 0xAB], [0xF0, 0x90, 0xB2, 0xAB]),
     ([0xF0, 0x90, 0xB3, 0xAC], [0xF0, 0x90, 0xB2, 0xAC]),
     ([0xF0, 0x90, 0xB3, 0xAD], [0xF0, 0x90, 0xB2, 0xAD]),
     ([0xF0, 0x90, 0xB3, 0xAE], [0xF0, 0x90, 0xB2, 0xAE]),
     ([0xF0, 0x90, 0xB3, 0xAF], [0xF0, 0x90, 0xB2, 0xAF]),
     ([0xF0, 0x90, 0xB3, 0xB0], [0xF0, 0x90, 0xB2, 0xB0]),
     ([0xF0, 0x90, 0xB3, 0xB1], [0xF0, 0x90, 0xB2, 0xB1]),
     ([0xF0, 0x90, 0xB3, 0xB2], [0xF0, 0x90, 0xB2, 0xB2]),
     ([0xF0, 0x91, 0xA3, 0x80], [0xF0, 0x91, 0xA2, 0xA0]),
     ([0xF0, 0x91, 0xA3, 0x81], [0xF0, 0x91, 0xA2, 0xA1]),
     ([0xF0, 0x91, 0xA3, 0x82], [0xF0, 0x91, 0xA2, 0xA2]),
     ([0xF0, 0x91, 0xA3, 0x83], [0xF0, 0x91, 0xA2, 0xA3]),
     ([0xF0, 0x91, 0xA3, 0x84], [0xF0, 0x91, 0xA2, 0xA4]),
     ([0xF0, 0x91, 0xA3, 0x85], [0xF0, 0x91, 0xA2, 0xA5]),
     ([0xF0, 0x91, 0xA3, 0x86], [0xF0, 0x91, 0xA2, 0xA6]),
     ([0xF0, 0x91, 0xA3, 0x87], [0xF0, 0x91, 0xA2, 0xA7]),
     ([0xF0, 0x91, 0xA3, 0x88], [0xF0, 0x91, 0xA2, 0xA8]),
     ([0xF0, 0x91, 0xA3, 0x89], [0xF0, 0x91, 0xA2, 0xA9]),
     ([0xF0, 0x91, 0xA3, 0x8A], [0xF0, 0x91, 0xA2, 0xAA]),
     ([0xF0, 0x91, 0xA3, 0x8B], [0xF0, 0x91, 0xA2, 0xAB]),
     ([0xF0, 0x91, 0xA3, 0x8C], [0xF0, 0x91, 0xA2, 0xAC]),
     ([0xF0, 0x91, 0xA3, 0x8D], [0xF0, 0x91, 0xA2, 0xAD]),
     ([0xF0, 0x91, 0xA3, 0x8E], [0xF0, 0x91, 0xA2, 0xAE]),
     ([0xF0, 0x91, 0xA3, 0x8F], [0xF0, 0x91, 0xA2, 0xAF]),
     ([0xF0, 0x91, 0xA3, 0x90], [0xF0, 0x91, 0xA2, 0xB0]),
     ([0xF0, 0x91, 0xA3, 0x91], [0xF0, 0x91, 0xA2, 0xB1]),
     ([0xF0, 0x91, 0xA3, 0x92], [0xF0, 0x91, 0xA2, 0xB2]),
     ([0xF0, 0x91, 0xA3, 0x93], [0xF0, 0x91, 0xA2, 0xB3]),
     ([0xF0, 0x91, 0xA3, 0x94], [0xF0, 0x91, 0xA2, 0xB4]),
     ([0xF0, 0x91, 0xA3, 0x95], [0xF0, 0x91, 0xA2, 0xB5]),
     ([0xF0, 0x91, 0xA3, 0x96], [0xF0, 0x91, 0xA2, 0xB6]),
     ([0xF0, 0x91, 0xA3, 0x97], [0xF0, 0x91, 0xA2, 0xB7]),
     ([0xF0, 0x91, 0xA3, 0x98], [0xF0, 0x91, 0xA2, 0xB8]),
     ([0xF0, 0x91, 0xA3, 0x99], [0xF0, 0x91, 0xA2, 0xB9]),
     ([0xF0, 0x91, 0xA3, 0x9A], [0xF0, 0x91, 0xA2, 0xBA]),
     ([0xF0, 0x91, 0xA3, 0x9B], [0xF0, 0x91, 0xA2, 0xBB]),
     ([0xF0, 0x91, 0xA3, 0x9C], [0xF0, 0x91, 0xA2, 0xBC]),
     ([0xF0, 0x91, 0xA3, 0x9D], [0xF0, 0x91, 0xA2, 0xBD]),
     ([0xF0, 0x91, 0xA3, 0x9E], [0xF0, 0x91, 0xA2, 0xBE]),
     ([0xF0, 0x91, 0xA3, 0x9F], [0xF0, 0x91, 0xA2, 0xBF]),
     ([0xF0, 0x96, 0xB9, 0xA0], [0xF0, 0x96, 0xB9, 0x80]),
     ([0xF0, 0x96, 0xB9, 0xA1], [0xF0, 0x96, 0xB9, 0x81]),
     ([0xF0, 0x96, 0xB9, 0xA2], [0xF0, 0x96, 0xB9, 0x82]),
     ([0xF0, 0x96, 0xB9, 0xA3], [0xF0, 0x96, 0xB9, 0x83]),
     ([0xF0, 0x96, 0xB9, 0xA4], [0xF0, 0x96, 0xB9, 0x84]),
     ([0xF0, 0x96, 0xB9, 0xA5], [0xF0, 0x96, 0xB9, 0x85]),
     ([0xF0, 0x96, 0xB9, 0xA6], [0xF0, 0x96, 0xB9, 0x86]),
     ([0xF0, 0x96, 0xB9, 0xA7], [0xF0, 0x96, 0xB9, 0x87]),
     ([0xF0, 0x96, 0xB9, 0xA8], [0xF0, 0x96, 0xB9, 0x88]),
     ([0xF0, 0x96, 0xB9, 0xA9], [0xF0, 0x96, 0xB9, 0x89]),
     ([0xF0, 0x96, 0xB9, 0xAA], [0xF0, 0x96, 0xB9, 0x8A]),
     ([0xF0, 0x96, 0xB9, 0xAB], [0xF0, 0x96, 0xB9, 0x8B]),
     ([0xF0, 0x96, 0xB9, 0xAC], [0xF0, 0x96, 0xB9, 0x8C]),
     ([0xF0, 0x96, 0xB9, 0xAD], [0xF0, 0x96, 0xB9, 0x8D]),
     ([0xF0, 0x96, 0xB9, 0xAE], [0xF0, 0x96, 0xB9, 0x8E]),
     ([0xF0, 0x96, 0xB9, 0xAF], [0xF0, 0x96, 0xB9, 0x8F]),
     ([0xF0, 0x96, 0xB9, 0xB0], [0xF0, 0x96, 0xB9, 0x90]),
     ([0xF0, 0x96, 0xB9, 0xB1], [0xF0, 0x96, 0xB9, 0x91]),
     ([0xF0, 0x96, 0xB9, 0xB2], [0xF0, 0x96, 0xB9, 0x92]),
     ([0xF0, 0x96, 0xB9, 0xB3], [0xF0, 0x96, 0xB9, 0x93]),
     ([0xF0, 0x96, 0xB9, 0xB4], [0xF0, 0x96, 0xB9, 0x94]),
     ([0xF0, 0x96, 0xB9, 0xB5], [0xF0, 0x96, 0xB9, 0x95]),
     ([0xF0, 0x96, 0xB9, 0xB6], [0xF0, 0x96, 0xB9, 0x96]),
     ([0xF0, 0x96, 0xB9, 0xB7], [0xF0, 0x96, 0xB9, 0x97]),
     ([0xF0, 0x96, 0xB9, 0xB8], [0xF0, 0x96, 0xB9, 0x98]),
     ([0xF0, 0x96, 0xB9, 0xB9], [0xF0, 0x96, 0xB9, 0x99]),
     ([0xF0, 0x96, 0xB9, 0xBA], [0xF0, 0x96, 0xB9, 0x9A]),
     ([0xF0, 0x96, 0xB9, 0xBB], [0xF0, 0x96, 0xB9, 0x9B]),
     ([0xF0, 0x96, 0xB9, 0xBC], [0xF0, 0x96, 0xB9, 0x9C]),
     ([0xF0, 0x96, 0xB9, 0xBD], [0xF0, 0x96, 0xB9, 0x9D]),
     ([0xF0, 0x96, 0xB9, 0xBE], [0xF0, 0x96, 0xB9, 0x9E]),
     ([0xF0, 0x96, 0xB9, 0xBF], [0xF0, 0x96, 0xB9, 0x9F]),
     ([0xF0, 0x9E, 0xA4, 0xA2], [0xF0, 0x9E, 0xA4, 0x80]),
     ([0xF0, 0x9E, 0xA4, 0xA3], [0xF0, 0x9E, 0xA4, 0x81]),
     ([0xF0, 0x9E, 0xA4, 0xA4], [0xF0, 0x9E, 0xA4, 0x82]),
     ([0xF0, 0x9E, 0xA4, 0xA5], [0xF0, 0x9E, 0xA4, 0x83]),
     ([0xF0, 0x9E, 0xA4, 0xA6], [0xF0, 0x9E, 0xA4, 0x84]),
     ([0xF0, 0x9E, 0xA4, 0xA7], [0xF0, 0x9E, 0xA4, 0x85]),
     ([0xF0, 0x9E, 0xA4, 0xA8], [0xF0, 0x9E, 0xA4, 0x86]),
     ([0xF0, 0x9E, 0xA4, 0xA9], [0xF0, 0x9E, 0xA4, 0x87]),
     ([0xF0, 0x9E, 0xA4, 0xAA], [0xF0, 0x9E, 0xA4, 0x88]),
     ([0xF0, 0x9E, 0xA4, 0xAB], [0xF0, 0x9E, 0xA4, 0x89]),
     ([0xF0, 0x9E, 0xA4, 0xAC], [0xF0, 0x9E, 0xA4, 0x8A]),
     ([0xF0, 0x9E, 0xA4, 0xAD], [0xF0, 0x9E, 0xA4, 0x8B]),
     ([0xF0, 0x9E, 0xA4, 0xAE], [0xF0, 0x9E, 0xA4, 0x8C]),
     ([0xF0, 0x9E, 0xA4, 0xAF], [0xF0, 0x9E, 0xA4, 0x8D]),
     ([0xF0, 0x9E, 0xA4, 0xB0], [0xF0, 0x9E, 0xA4, 0x8E]),
     ([0xF0, 0x9E, 0xA4, 0xB1], [0xF0, 0x9E, 0xA4, 0x8F]),
     ([0xF0, 0x9E, 0xA4, 0xB2], [0xF0, 0x9E, 0xA4, 0x90]),
     ([0xF0, 0x9E, 0xA4, 0xB3], [0xF0, 0x9E, 0xA4, 0x91]),
     ([0xF0, 0x9E, 0xA4, 0xB4], [0xF0, 0x9E, 0xA4, 0x92]),
     ([0xF0, 0x9E, 0xA4, 0xB5], [0xF0, 0x9E, 0xA4, 0x93]),
     ([0xF0, 0x9E, 0xA4, 0xB6], [0xF0, 0x9E, 0xA4, 0x94]),
     ([0xF0, 0x9E, 0xA4, 0xB7], [0xF0, 0x9E, 0xA4, 0x95]),
     ([0xF0, 0x9E, 0xA4, 0xB8], [0xF0, 0x9E, 0xA4, 0x96]),
     ([0xF0, 0x9E, 0xA4, 0xB9], [0xF0, 0x9E, 0xA4, 0x97]),
     ([0xF0, 0x9E, 0xA4, 0xBA], [0xF0, 0x9E, 0xA4, 0x98]),
     ([0xF0, 0x9E, 0xA4, 0xBB], [0xF0, 0x9E, 0xA4, 0x99]),
     ([0xF0, 0x9E, 0xA4, 0xBC], [0xF0, 0x9E, 0xA4, 0x9A]),
     ([0xF0, 0x9E, 0xA4, 0xBD], [0xF0, 0x9E, 0xA4, 0x9B]),
     ([0xF0, 0x9E, 0xA4, 0xBE], [0xF0, 0x9E, 0xA4, 0x9C]),
     ([0xF0, 0x9E, 0xA4, 0xBF], [0xF0, 0x9E, 0xA4, 0x9D]),
     ([0xF0, 0x9E, 0xA5, 0x80], [0xF0, 0x9E, 0xA4, 0x9E]),
     ([0xF0, 0x9E, 0xA5, 0x81], [0xF0, 0x9E, 0xA4, 0x9F]),
     ([0xF0, 0x9E, 0xA5, 0x82], [0xF0, 0x9E, 0xA4, 0xA0]),
     ([0xF0, 0x9E, 0xA5, 0x83], [0xF0, 0x9E, 0xA4, 0xA1])
   ]"

text \<open>The number of bytes of the code point that a byte starts.\<close>

definition cp_len :: "char \<Rightarrow> nat" where
  "cp_len c =
     (let n = (of_char c :: nat)
      in if n < 192 then 1 else if n < 224 then 2 else if n < 240 then 3 else 4)"

definition upper_cp :: "string \<Rightarrow> string" where
  "upper_cp w = (case map_of upper_table w of None \<Rightarrow> w | Some u \<Rightarrow> u)"

function upper :: "string \<Rightarrow> string" where
  "upper [] = []"
| "upper (c # cs) =
     (if (of_char c :: nat) < 128 then upper_char c # upper cs
      else upper_cp (c # take (cp_len c - 1) cs) @ upper (drop (cp_len c - 1) cs))"
  by pat_completeness auto
termination
  by (relation "measure length") auto

declare upper.simps [simp del]

subsection \<open>\<open>str.strip\<close>\<close>

text \<open>The code points that \<open>str.strip()\<close> takes away, in UTF-8: the ASCII white space
  with the four separators 0x1C to 0x1F, and U+0085, U+00A0, U+1680, U+2000 to U+200A,
  U+2028, U+2029, U+202F, U+205F and U+3000.\<close>

definition whitespace :: "string list" where
  "whitespace =
   [
    [CHR 0x09], [CHR 0x0A], [CHR 0x0B], [CHR 0x0C], [CHR 0x0D], [CHR 0x1C], [CHR 0x1D],
     [CHR 0x1E], [CHR 0x1F], [CHR 0x20], [CHR 0xC2, CHR 0x85], [CHR 0xC2, CHR 0xA0],
     [CHR 0xE1, CHR 0x9A, CHR 0x80], [CHR 0xE2, CHR 0x80, CHR 0x80],
     [CHR 0xE2, CHR 0x80, CHR 0x81], [CHR 0xE2, CHR 0x80, CHR 0x82],
     [CHR 0xE2, CHR 0x80, CHR 0x83], [CHR 0xE2, CHR 0x80, CHR 0x84],
     [CHR 0xE2, CHR 0x80, CHR 0x85], [CHR 0xE2, CHR 0x80, CHR 0x86],
     [CHR 0xE2, CHR 0x80, CHR 0x87], [CHR 0xE2, CHR 0x80, CHR 0x88],
     [CHR 0xE2, CHR 0x80, CHR 0x89], [CHR 0xE2, CHR 0x80, CHR 0x8A],
     [CHR 0xE2, CHR 0x80, CHR 0xA8], [CHR 0xE2, CHR 0x80, CHR 0xA9],
     [CHR 0xE2, CHR 0x80, CHR 0xAF], [CHR 0xE2, CHR 0x81, CHR 0x9F],
     [CHR 0xE3, CHR 0x80, CHR 0x80]
   ]"

text \<open>\<open>drop_ws ws s\<close> takes from the front of \<open>s\<close> whatever is one of \<open>ws\<close>, as long
  as there is one.\<close>

function drop_ws :: "string list \<Rightarrow> string \<Rightarrow> string" where
  "drop_ws ws s =
     (case find (\<lambda>w. w \<noteq> [] \<and> startswith s w) ws of
        None \<Rightarrow> s
      | Some w \<Rightarrow> drop_ws ws (drop (length w) s))"
  by pat_completeness auto
termination
proof (relation "measure (\<lambda>(ws, s). length s)")
  show "wf (measure (\<lambda>(ws :: string list, s :: string). length s))"
    by simp
next
  fix ws :: "string list" and s w :: string
  assume "find (\<lambda>w. w \<noteq> [] \<and> startswith s w) ws = Some w"
  then have w: "w \<noteq> []" and s: "startswith s w"
    by (auto simp add: find_Some_iff)
  from w s have "s \<noteq> []"
    by (cases w; cases s) simp_all
  with w show "((ws, drop (length w) s), ws, s) \<in> measure (\<lambda>(ws, s). length s)"
    by simp
qed

declare drop_ws.simps [simp del]

definition lstrip :: "string \<Rightarrow> string" where
  "lstrip s = drop_ws whitespace s"

definition rstrip :: "string \<Rightarrow> string" where
  "rstrip s = rev (drop_ws (map rev whitespace) (rev s))"

definition strip :: "string \<Rightarrow> string" where
  "strip s = rstrip (lstrip s)"

section \<open>Python numbers\<close>

text \<open>
  A JSON number arrives as a Python \<open>int\<close> (unbounded) or a \<open>float\<close> (an IEEE 754
  binary64 value). A finite float is carried by the rational it denotes; the negative
  zero, the infinities and the NaN are separate values.
\<close>

datatype pyfloat = Finite rat | NegZero | PosInf | NegInf | NaN

datatype pynum = PyInt int | PyFloat pyfloat

datatype pyerror = OverflowError string | ZeroDivisionError string

definition pow2 :: "int \<Rightarrow> rat" where
  "pow2 e = (if 0 \<le> e then 2 ^ nat e else 1 / 2 ^ nat (- e))"

text \<open>\<open>int.bit_length\<close> on the non-negative integers.\<close>

function bit_length :: "int \<Rightarrow> int" where
  "bit_length n = (if n \<le> 0 then 0 else 1 + bit_length (n div 2))"
  by pat_completeness auto
termination
  by (relation "measure nat") auto

declare bit_length.simps [simp del]

text \<open>\<open>floor_log2 q\<close> is the integer \<open>e\<close> with \<open>2^e \<le> q < 2^(e+1)\<close>, for \<open>q > 0\<close>.\<close>

definition floor_log2 :: "rat \<Rightarrow> int" where
  "floor_log2 q =
     (if 1 \<le> q then bit_length \<lfloor>q\<rfloor> - 1 else - bit_length (\<lceil>1 / q\<rceil> - 1))"

definition round_half_even :: "rat \<Rightarrow> int" where
  "round_half_even q =
     (let n = \<lfloor>q\<rfloor>; r = q - of_int n
      in if r < 1 / 2 then n else if 1 / 2 < r then n + 1
         else if even n then n else n + 1)"

text \<open>
  Rounding of an exact value to binary64, to nearest with ties to even: 53 significant
  bits, least exponent -1022 (below it the spacing of the subnormals), overflow to an
  infinity, underflow to a zero of the value's sign.
\<close>

definition round_double :: "rat \<Rightarrow> pyfloat" where
  "round_double q =
     (if q = 0 then Finite 0
      else
        let u = pow2 (max (floor_log2 \<bar>q\<bar>) (- 1022) - 52);
            r = of_int (round_half_even (\<bar>q\<bar> / u)) * u
        in if 2 ^ 1024 \<le> r then (if 0 < q then PosInf else NegInf)
           else if r = 0 then (if 0 < q then Finite 0 else NegZero)
           else Finite (if 0 < q then r else - r))"

fun float_val :: "pyfloat \<Rightarrow> rat" where
  "float_val (Finite q) = q"
| "float_val f = 0"

fun float_negative :: "pyfloat \<Rightarrow> bool" where
  "float_negative (Finite q) = (q < 0)"
| "float_negative NegZero = True"
| "float_negative NegInf = True"
| "float_negative f = False"

fun float_is_zero :: "pyfloat \<Rightarrow> bool" where
  "float_is_zero (Finite q) = (q = 0)"
| "float_is_zero NegZero = True"
| "float_is_zero f = False"

fun float_neg :: "pyfloat \<Rightarrow> pyfloat" where
  "float_neg (Finite q) = (if q = 0 then NegZero else Finite (- q))"
| "float_neg NegZero = Finite 0"
| "float_neg PosInf = NegInf"
| "float_neg NegInf = PosInf"
| "float_neg NaN = NaN"

fun float_abs :: "pyfloat \<Rightarrow> pyfloat" where
  "float_abs (Finite q) = Finite \<bar>q\<bar>"
| "float_abs NegZero = Finite 0"
| "float_abs PosInf = PosInf"
| "float_abs NegInf = PosInf"
| "float_abs NaN = NaN"

fun float_add :: "pyfloat \<Rightarrow> pyfloat \<Rightarrow> pyfloat" where
  "float_add NaN y = NaN"
| "float_add x NaN = NaN"
| "float_add PosInf NegInf = NaN"
| "float_add NegInf PosInf = NaN"
| "float_add PosInf y = PosInf"
| "float_add NegInf y = NegInf"
| "float_add x PosInf = PosInf"
| "float_add x NegInf = NegInf"
| "float_add NegZero NegZero = NegZero"
| "float_add x y =
     (let s = float_val x + float_val y in if s = 0 then Finite 0 else round_double s)"

definition float_sub :: "pyfloat \<Rightarrow> pyfloat \<Rightarrow> pyfloat" where
  "float_sub x y = float_add x (float_neg y)"

text \<open>\<open>float.__truediv__\<close>: a zero divisor raises, everything else is the IEEE quotient.\<close>

definition signed_zero :: "bool \<Rightarrow> pyfloat" where
  "signed_zero neg = (if neg then NegZero else Finite 0)"

definition signed_inf :: "bool \<Rightarrow> pyfloat" where
  "signed_inf neg = (if neg then NegInf else PosInf)"

definition is_inf :: "pyfloat \<Rightarrow> bool" where
  "is_inf x = (x = PosInf \<or> x = NegInf)"

definition float_div :: "pyfloat \<Rightarrow> pyfloat \<Rightarrow> pyerror + pyfloat" where
  "float_div x y =
     (if float_is_zero y then Inl (ZeroDivisionError ''float division by zero'')
      else if x = NaN \<or> y = NaN then Inr NaN
      else if is_inf x then
        (if is_inf y then Inr NaN
         else Inr (signed_inf (float_negative x \<noteq> float_negative y)))
      else if is_inf y \<or> float_is_zero x then
        Inr (signed_zero (float_negative x \<noteq> float_negative y))
      else Inr (round_double (float_val x / float_val y)))"

text \<open>\<open>float(i)\<close> for an int, as the arithmetic and the formatting convert it.\<close>

definition float_of_int :: "int \<Rightarrow> pyerror + pyfloat" where
  "float_of_int i =
     (let f = round_double (of_int i)
      in if is_inf f then Inl (OverflowError ''int too large to convert to float'')
         else Inr f)"

text \<open>\<open>int / int\<close>: the correctly rounded quotient.\<close>

definition int_true_div :: "int \<Rightarrow> int \<Rightarrow> pyerror + pyfloat" where
  "int_true_div a b =
     (if b = 0 then Inl (ZeroDivisionError ''division by zero'')
      else if a = 0 then Inr (signed_zero (b < 0))
      else
        let f = round_double (of_int a / of_int b)
        in if is_inf f
           then Inl (OverflowError ''integer division result too large for a float'')
           else Inr f)"

fun bind :: "pyerror + 'a \<Rightarrow> ('a \<Rightarrow> pyerror + 'b) \<Rightarrow> pyerror + 'b" where
  "bind (Inl e) f = Inl e"
| "bind (Inr x) f = f x"

fun to_float :: "pynum \<Rightarrow> pyerror + pyfloat" where
  "to_float (PyInt i) = float_of_int i"
| "to_float (PyFloat f) = Inr f"

fun py_sub :: "pynum \<Rightarrow> pynum \<Rightarrow> pyerror + pynum" where
  "py_sub (PyInt a) (PyInt b) = Inr (PyInt (a - b))"
| "py_sub x y =
     bind (to_float x) (\<lambda>a. bind (to_float y) (\<lambda>b. Inr (PyFloat (float_sub a b))))"

fun py_abs :: "pynum \<Rightarrow> pynum" where
  "py_abs (PyInt i) = PyInt \<bar>i\<bar>"
| "py_abs (PyFloat f) = PyFloat (float_abs f)"

fun py_truediv :: "pynum \<Rightarrow> pynum \<Rightarrow> pyerror + pynum" where
  "py_truediv (PyInt a) (PyInt b) = bind (int_true_div a b) (\<lambda>f. Inr (PyFloat f))"
| "py_truediv x y =
     bind (to_float x) (\<lambda>a. bind (to_float y) (\<lambda>b.
       bind (float_div a b) (\<lambda>f. Inr (PyFloat f))))"

text \<open>
  Comparison is by exact value, also between an int and a float; a NaN is neither
  less nor greater than anything.
\<close>

fun exact :: "pynum \<Rightarrow> pyfloat" where
  "exact (PyInt i) = Finite (of_int i)"
| "exact (PyFloat f) = f"

fun float_lt :: "pyfloat \<Rightarrow> pyfloat \<Rightarrow> bool" where
  "float_lt NaN y = False"
| "float_lt x NaN = False"
| "float_lt PosInf y = False"
| "float_lt x NegInf = False"
| "float_lt x PosInf = True"
| "float_lt NegInf y = True"
| "float_lt x y = (float_val x < float_val y)"

definition py_lt :: "pynum \<Rightarrow> pynum \<Rightarrow> bool" where
  "py_lt x y = float_lt (exact x) (exact y)"

definition py_gt :: "pynum \<Rightarrow> pynum \<Rightarrow> bool" where
  "py_gt x y = float_lt (exact y) (exact x)"

subsection \<open>The format specifications \<open>.2f\<close> and \<open>.6f\<close>\<close>

definition digit_char :: "int \<Rightarrow> char" where
  "digit_char d =
     (if d = 0 then CHR ''0'' else if d = 1 then CHR ''1'' else if d = 2 then CHR ''2''
      else if d = 3 then CHR ''3'' else if d = 4 then CHR ''4'' else if d = 5 then CHR ''5''
      else if d = 6 then CHR ''6'' else if d = 7 then CHR ''7'' else if d = 8 then CHR ''8''
      else CHR ''9'')"

text \<open>The decimal digits of a non-negative integer.\<close>

function digits :: "int \<Rightarrow> string" where
  "digits n = (if n < 10 then [digit_char n] else digits (n div 10) @ [digit_char (n mod 10)])"
  by pat_completeness auto
termination
  by (relation "measure nat") auto

declare digits.simps [simp del]

definition zfill :: "nat \<Rightarrow> string \<Rightarrow> string" where
  "zfill w s = replicate (w - length s) (CHR ''0'') @ s"

text \<open>Fixed notation with \<open>p\<close> decimals of a finite value, correctly rounded, the sign
  kept also where the digits round to zero.\<close>

definition fixed :: "nat \<Rightarrow> bool \<Rightarrow> rat \<Rightarrow> string" where
  "fixed p neg q =
     (let n = round_half_even (\<bar>q\<bar> * 10 ^ p)
      in (if neg then ''-'' else '''') @ digits (n div 10 ^ p) @
         (if p = 0 then '''' else ''.'' @ zfill p (digits (n mod 10 ^ p))))"

fun float_format :: "nat \<Rightarrow> pyfloat \<Rightarrow> string" where
  "float_format p (Finite q) = fixed p (q < 0) q"
| "float_format p NegZero = fixed p True 0"
| "float_format p PosInf = ''inf''"
| "float_format p NegInf = ''-inf''"
| "float_format p NaN = ''nan''"

fun format_f :: "nat \<Rightarrow> pynum \<Rightarrow> pyerror + string" where
  "format_f p (PyInt i) = bind (float_of_int i) (\<lambda>f. Inr (float_format p f))"
| "format_f p (PyFloat f) = Inr (float_format p f)"

section \<open>The message formatters\<close>

text \<open>
  The text of the templates outside ASCII (Cyrillic labels and emoji), as the UTF-8
  bytes of the source file.
\<close>

definition nl :: string where
  "nl = [CHR 0x0A]"

definition green_circle :: string where
  "green_circle = utf8
    [0xF0, 0x9F, 0x9F, 0xA2]"

definition red_circle :: string where
  "red_circle = utf8
    [0xF0, 0x9F, 0x94, 0xB4]"

definition txt_entry_title :: string where
  "txt_entry_title = utf8
    [0xD0, 0x92, 0xD0, 0xA5, 0xD0, 0x9E, 0xD0, 0x94, 0x20, 0xD0, 0x92, 0x20, 0xD0, 0x9F,
      0xD0, 0x9E, 0xD0, 0x97, 0xD0, 0x98, 0xD0, 0xA6, 0xD0, 0x98, 0xD0, 0xAE]"

definition txt_symbol :: string where
  "txt_symbol = utf8
    [0xD0, 0xA1, 0xD0, 0xB8, 0xD0, 0xBC, 0xD0, 0xB2, 0xD0, 0xBE, 0xD0, 0xBB]"

definition txt_timeframe :: string where
  "txt_timeframe = utf8
    [0xD0, 0xA2, 0xD0, 0xB0, 0xD0, 0xB9, 0xD0, 0xBC, 0xD1, 0x84, 0xD1, 0x80, 0xD0, 0xB5,
      0xD0, 0xB9, 0xD0, 0xBC]"

definition txt_price :: string where
  "txt_price = utf8
    [0xD0, 0xA6, 0xD0, 0xB5, 0xD0, 0xBD, 0xD0, 0xB0]"

definition chart_emoji :: string where
  "chart_emoji = utf8
    [0xF0, 0x9F, 0x93, 0x8A]"

definition txt_indicators :: string where
  "txt_indicators = utf8
    [0xD0, 0x98, 0xD0, 0xBD, 0xD0, 0xB4, 0xD0, 0xB8, 0xD0, 0xBA, 0xD0, 0xB0, 0xD1, 0x82,
      0xD0, 0xBE, 0xD1, 0x80, 0xD1, 0x8B]"

definition bullet :: string where
  "bullet = utf8
    [0xE2, 0x80, 0xA2]"

definition txt_below :: string where
  "txt_below = utf8
    [0x28, 0xD0, 0xBD, 0xD0, 0xB8, 0xD0, 0xB6, 0xD0, 0xB5, 0x20, 0x2D, 0x35, 0x2E, 0x31,
      0x29]"

definition txt_above :: string where
  "txt_above = utf8
    [0x28, 0xD0, 0xB2, 0xD1, 0x8B, 0xD1, 0x88, 0xD0, 0xB5, 0x20, 0x2B, 0x35, 0x2E, 0x31,
      0x29]"

definition clock_emoji :: string where
  "clock_emoji = utf8
    [0xE2, 0x8F, 0xB0]"

definition txt_time :: string where
  "txt_time = utf8
    [0xD0, 0x92, 0xD1, 0x80, 0xD0, 0xB5, 0xD0, 0xBC, 0xD1, 0x8F]"

definition txt_entry_footer :: string where
  "txt_entry_footer = utf8
    [0xD0, 0x9D, 0xD0, 0xB0, 0xD1, 0x87, 0xD0, 0xB0, 0xD1, 0x82, 0x20, 0xD0, 0xBD, 0xD0,
      0xB0, 0xD0, 0xB1, 0xD0, 0xBE, 0xD1, 0x80, 0x20, 0xD0, 0xBF, 0xD0, 0xBE, 0xD0, 0xB7,
      0xD0, 0xB8, 0xD1, 0x86, 0xD0, 0xB8, 0xD0, 0xB8, 0x2E, 0x20, 0xD0, 0x9E, 0xD0, 0xB6,
      0xD0, 0xB8, 0xD0, 0xB4, 0xD0, 0xB0, 0xD0, 0xB9, 0xD1, 0x82, 0xD0, 0xB5, 0x20, 0xD1,
      0x83, 0xD0, 0xB2, 0xD0, 0xB5, 0xD0, 0xB4, 0xD0, 0xBE, 0xD0, 0xBC, 0xD0, 0xBB, 0xD0,
      0xB5, 0xD0, 0xBD, 0xD0, 0xB8, 0xD0, 0xB5, 0x20, 0xD1, 0x81, 0x20, 0x54, 0x50, 0x2F,
      0x53, 0x4C, 0x2E, 0x2E, 0x2E]"

definition txt_exit_title :: string where
  "txt_exit_title = utf8
    [0xD0, 0x9F, 0xD0, 0x90, 0xD0, 0xA0, 0xD0, 0x90, 0xD0, 0x9C, 0xD0, 0x95, 0xD0, 0xA2,
      0xD0, 0xA0, 0xD0, 0xAB, 0x20, 0xD0, 0x9F, 0xD0, 0x9E, 0xD0, 0x97, 0xD0, 0x98, 0xD0,
      0xA6, 0xD0, 0x98, 0xD0, 0x98]"

definition txt_direction :: string where
  "txt_direction = utf8
    [0xD0, 0x9D, 0xD0, 0xB0, 0xD0, 0xBF, 0xD1, 0x80, 0xD0, 0xB0, 0xD0, 0xB2, 0xD0, 0xBB,
      0xD0, 0xB5, 0xD0, 0xBD, 0xD0, 0xB8, 0xD0, 0xB5]"

definition txt_status :: string where
  "txt_status = utf8
    [0xD0, 0xA1, 0xD1, 0x82, 0xD0, 0xB0, 0xD1, 0x82, 0xD1, 0x83, 0xD1, 0x81]"

definition txt_accumulated :: string where
  "txt_accumulated = utf8
    [0xD0, 0x9D, 0xD0, 0xB0, 0xD0, 0xB1, 0xD0, 0xBE, 0xD1, 0x80, 0x20, 0xD0, 0xBF, 0xD0,
      0xBE, 0xD0, 0xB7, 0xD0, 0xB8, 0xD1, 0x86, 0xD0, 0xB8, 0xD0, 0xB8, 0x20, 0xD0, 0xB7,
      0xD0, 0xB0, 0xD0, 0xB2, 0xD0, 0xB5, 0xD1, 0x80, 0xD1, 0x88, 0xD1, 0x91, 0xD0, 0xBD]"

definition target_emoji :: string where
  "target_emoji = utf8
    [0xF0, 0x9F, 0x8E, 0xAF]"

definition shield_emoji :: string where
  "shield_emoji = utf8
    [0xF0, 0x9F, 0x9B, 0xA1]"

definition txt_analysis :: string where
  "txt_analysis = utf8
    [0xD0, 0x90, 0xD0, 0xBD, 0xD0, 0xB0, 0xD0, 0xBB, 0xD0, 0xB8, 0xD0, 0xB7]"

definition txt_left_zone :: string where
  "txt_left_zone = utf8
    [0x28, 0xD0, 0xB2, 0xD1, 0x8B, 0xD1, 0x88, 0xD0, 0xB5, 0xD0, 0xBB, 0x20, 0xD0, 0xB8,
      0xD0, 0xB7, 0x20, 0xD0, 0xB7, 0xD0, 0xBE, 0xD0, 0xBD, 0xD1, 0x8B, 0x29]"

definition txt_leverage :: string where
  "txt_leverage = utf8
    [0xD0, 0x9F, 0xD0, 0xBB, 0xD0, 0xB5, 0xD1, 0x87, 0xD0, 0xBE]"

definition info_emoji :: string where
  "info_emoji = utf8
    [0xE2, 0x84, 0xB9, 0xEF, 0xB8, 0x8F]"

definition warning_emoji :: string where
  "warning_emoji = utf8
    [0xE2, 0x9A, 0xA0, 0xEF, 0xB8, 0x8F]"

definition success_emoji :: string where
  "success_emoji = utf8
    [0xE2, 0x9C, 0x85]"

definition error_emoji :: string where
  "error_emoji = utf8
    [0xE2, 0x9D, 0x8C]"

definition txt_update_title :: string where
  "txt_update_title = utf8
    [0xD0, 0x9E, 0xD0, 0x91, 0xD0, 0x9D, 0xD0, 0x9E, 0xD0, 0x92, 0xD0, 0x9B, 0xD0, 0x95,
      0xD0, 0x9D, 0xD0, 0x98, 0xD0, 0x95, 0x20, 0xD0, 0x9F, 0xD0, 0x9E, 0xD0, 0x97, 0xD0,
      0x98, 0xD0, 0xA6, 0xD0, 0x98, 0xD0, 0x98]"

text \<open>
  The webhook payload. The source reads it as a dictionary with \<open>get\<close> and a
  default; the fields carry the types of the signal record: text or number, each of
  them optional. \<open>get\<close> is \<open>dict.get\<close> with its default.
\<close>

record payload =
  signal_type :: "string option"
  symbol :: "string option"
  timeframe :: "string option"
  price :: "pynum option"
  momentum :: "pynum option"
  vwap :: "pynum option"
  timestamp :: "string option"
  direction :: "string option"
  entry_price :: "pynum option"
  tp_price :: "pynum option"
  sl_price :: "pynum option"
  update_type :: "string option"
  message :: "string option"

fun get :: "'a option \<Rightarrow> 'a \<Rightarrow> 'a" where
  "get None d = d"
| "get (Some v) d = v"

text \<open>The float literal \<open>-5.1\<close> of the source: the binary64 value nearest to it.\<close>

definition threshold :: pynum where
  "threshold = PyFloat (round_double (- 51 / 10))"

definition momentum_label :: "pynum \<Rightarrow> string" where
  "momentum_label m = (if py_lt m threshold then txt_below else txt_above)"

text \<open>
  \<open>format_entry_signal\<close>. The argument \<open>now\<close> is the reading of
  \<open>datetime.utcnow().isoformat()\<close>. The f-string formats its fields from left to
  right, and the first one that raises ends the call.
\<close>

definition format_entry_signal :: "string \<Rightarrow> payload \<Rightarrow> pyerror + string" where
  "format_entry_signal now data =
     (let signal_type' = get (signal_type data) ''unknown'';
          direction' = (if contains ''long'' (lower signal_type')
                        then green_circle @ '' LONG'' else red_circle @ '' SHORT'');
          symbol' = get (symbol data) ''UNKNOWN'';
          timeframe' = get (timeframe data) ''7m'';
          price' = get (price data) (PyInt 0);
          momentum' = get (momentum data) (PyInt 0);
          vwap' = get (vwap data) (PyInt 0);
          timestamp' = get (timestamp data) now
      in bind (format_f 6 price') (\<lambda>price_s.
         bind (format_f 2 momentum') (\<lambda>momentum_s.
         bind (format_f 6 vwap') (\<lambda>vwap_s.
           Inr (strip (concat
             [nl, direction', '' '', txt_entry_title, nl,
              nl, ''<b>'', txt_symbol, '':</b> '', symbol', nl,
              ''<b>'', txt_timeframe, '':</b> '', timeframe', nl,
              ''<b>'', txt_price, '':</b> $'', price_s, nl,
              nl, chart_emoji, '' <b>'', txt_indicators, '':</b>'', nl,
              bullet, '' Momentum: '', momentum_s, '' '', momentum_label momentum', nl,
              bullet, '' VWAP: $'', vwap_s, nl,
              nl, clock_emoji, '' <b>'', txt_time, '':</b> '', timestamp', nl,
              nl, ''<i>'', txt_entry_footer, ''</i>'', nl]))))))"

text \<open>The risk and the reward of \<open>format_exit_signal\<close> (its lines 119 to 125).\<close>

definition risk_reward ::
  "string \<Rightarrow> pynum \<Rightarrow> pynum \<Rightarrow> pynum \<Rightarrow> pyerror + pynum \<times> pynum" where
  "risk_reward direction' entry_price' tp_price' sl_price' =
     (if upper direction' = ''LONG'' then
        bind (py_sub entry_price' sl_price') (\<lambda>d. let risk = py_abs d in
        bind (py_sub tp_price' entry_price') (\<lambda>d. let reward = py_abs d in
          Inr (risk, reward)))
      else
        bind (py_sub sl_price' entry_price') (\<lambda>d. let risk = py_abs d in
        bind (py_sub entry_price' tp_price') (\<lambda>d. let reward = py_abs d in
          Inr (risk, reward))))"

text \<open>Its line 127: \<open>rr_ratio = reward / risk if risk > 0 else 0\<close>.\<close>

definition rr_ratio :: "pynum \<Rightarrow> pynum \<Rightarrow> pyerror + pynum" where
  "rr_ratio risk reward =
     (if py_gt risk (PyInt 0) then py_truediv reward risk else Inr (PyInt 0))"

definition format_exit_signal :: "string \<Rightarrow> payload \<Rightarrow> pyerror + string" where
  "format_exit_signal now data =
     (let symbol' = get (symbol data) ''UNKNOWN'';
          direction' = get (direction data) ''LONG'';
          entry_price' = get (entry_price data) (PyInt 0);
          tp_price' = get (tp_price data) (PyInt 0);
          sl_price' = get (sl_price data) (PyInt 0);
          momentum' = get (momentum data) (PyInt 0);
          timestamp' = get (timestamp data) now
      in bind (risk_reward direction' entry_price' tp_price' sl_price') (\<lambda>(risk, reward).
         bind (rr_ratio risk reward) (\<lambda>ratio.
         let direction_emoji = (if upper direction' = ''LONG'' then green_circle else red_circle)
         in bind (format_f 6 tp_price') (\<lambda>tp_s.
            bind (format_f 6 sl_price') (\<lambda>sl_s.
            bind (format_f 2 momentum') (\<lambda>momentum_s.
            bind (format_f 2 ratio) (\<lambda>ratio_s.
              Inr (strip (concat
                [nl, direction_emoji, '' '', txt_exit_title, nl,
                 nl, ''<b>'', txt_symbol, '':</b> '', symbol', nl,
                 ''<b>'', txt_direction, '':</b> '', upper direction', nl,
                 ''<b>'', txt_status, '':</b> '', txt_accumulated, nl,
                 nl, target_emoji, '' <b>Take Profit:</b> $'', tp_s, '' (VWAP)'', nl,
                 shield_emoji, '' <b>Stop Loss:</b> $'', sl_s, '' (ATR)'', nl,
                 nl, chart_emoji, '' <b>'', txt_analysis, '':</b>'', nl,
                 bullet, '' Momentum: '', momentum_s, '' '', txt_left_zone, nl,
                 bullet, '' Risk/Reward: 1:'', ratio_s, nl,
                 bullet, '' '', txt_leverage, '': 5x'', nl,
                 nl, clock_emoji, '' <b>'', txt_time, '':</b> '', timestamp', nl])))))))))"

definition format_update_signal :: "string \<Rightarrow> payload \<Rightarrow> pyerror + string" where
  "format_update_signal now data =
     (let symbol' = get (symbol data) ''UNKNOWN'';
          update_type' = get (update_type data) ''info'';
          message_text = get (message data) '''';
          price' = get (price data) (PyInt 0);
          timestamp' = get (timestamp data) now;
          emoji = (if update_type' = ''warning'' then warning_emoji
                   else if update_type' = ''success'' then success_emoji
                   else if update_type' = ''error'' then error_emoji
                   else info_emoji)
      in bind (format_f 6 price') (\<lambda>price_s.
           Inr (strip (concat
             [nl, emoji, '' '', txt_update_title, nl,
              nl, ''<b>'', txt_symbol, '':</b> '', symbol', nl,
              ''<b>'', txt_price, '':</b> $'', price_s, nl,
              nl, message_text, nl,
              nl, clock_emoji, '' <b>'', txt_time, '':</b> '', timestamp', nl]))))"

section \<open>The webhook handler\<close>

text \<open>
  The value of \<open>position_states[symbol]\<close>: the dictionary the entry branch creates, with
  the keys \<open>status\<close>, \<open>entry_time\<close>, \<open>entry_price\<close> and \<open>direction\<close>, and
  the keys \<open>tp_price\<close> and \<open>sl_price\<close> that only the exit branch adds.
\<close>

record position =
  status :: string
  entry_time :: string
  held_entry_price :: pynum
  held_direction :: string
  held_tp_price :: "pynum option"
  held_sl_price :: "pynum option"

datatype response = JSONResponse nat string string | HTTPException nat string

text \<open>
  What one call does to the outside, in program order: a message handed to
  \<open>send_telegram_message\<close>, an assignment into \<open>position_states\<close> (with the value the
  symbol holds after it), the warning of the last branch, the error the handler logs.
\<close>

datatype event = Sent string | Stored string position | Warned string | Failed pyerror

record outcome =
  response :: response
  positions :: "string \<rightharpoonup> position"
  trace :: "event list"

fun str_of :: "pyerror \<Rightarrow> string" where
  "str_of (OverflowError m) = m"
| "str_of (ZeroDivisionError m) = m"

definition success :: response where
  "success = JSONResponse 200 ''success'' ''Webhook processed''"

text \<open>The \<open>except Exception\<close> clause: log, answer 500; nothing is undone.\<close>

definition failure :: "pyerror \<Rightarrow> (string \<rightharpoonup> position) \<Rightarrow> event list \<Rightarrow> outcome" where
  "failure e position_states done =
     \<lparr>response = HTTPException 500 (str_of e), positions = position_states,
      trace = done @ [Failed e]\<rparr>"

text \<open>The dictionary that the entry branch stores (lines 243 to 248).\<close>

definition entry_state :: "string \<Rightarrow> payload \<Rightarrow> position" where
  "entry_state now' payload =
     \<lparr>status = ''accumulating'',
      entry_time = now',
      held_entry_price = get (price payload) (PyInt 0),
      held_direction =
        (if contains ''long'' (lower (get (signal_type payload) '''')) then ''LONG''
         else ''SHORT''),
      held_tp_price = None,
      held_sl_price = None\<rparr>"

text \<open>The two assignments into the payload that the exit branch makes when the symbol
  has a state (lines 254 and 255).\<close>

definition merged :: "position \<Rightarrow> payload \<Rightarrow> payload" where
  "merged st payload =
     payload\<lparr>direction := Some (held_direction st),
             entry_price := Some (held_entry_price st)\<rparr>"

text \<open>
  \<open>webhook_handler\<close> from the parsed payload of an authorised request on, one request
  at a time. \<open>now\<close> is the clock reading the formatter takes, \<open>now'\<close> the later one
  stored as \<open>entry_time\<close>. The result of \<open>send_telegram_message\<close> is not looked at by
  the handler, so the hand-over is an event and nothing more.
\<close>

definition webhook_handler ::
  "string \<Rightarrow> string \<Rightarrow> payload \<Rightarrow> (string \<rightharpoonup> position) \<Rightarrow> outcome" where
  "webhook_handler now now' payload position_states =
     (let signal_type' = get (signal_type payload) '''';
          symbol' = get (symbol payload) ''''
      in
        if contains ''entry'' (lower signal_type') then
          (case format_entry_signal now payload of
             Inl e \<Rightarrow> failure e position_states []
           | Inr message' \<Rightarrow>
               let state = entry_state now' payload
               in \<lparr>response = success,
                   positions = position_states(symbol' \<mapsto> state),
                   trace = [Sent message', Stored symbol' state]\<rparr>)
        else if contains ''exit'' (lower signal_type') then
          (let payload' =
                 (case position_states symbol' of
                    None \<Rightarrow> payload
                  | Some st \<Rightarrow> merged st payload)
           in case format_exit_signal now payload' of
                Inl e \<Rightarrow> failure e position_states []
              | Inr message' \<Rightarrow>
                  (case position_states symbol' of
                     None \<Rightarrow>
                       \<lparr>response = success, positions = position_states,
                        trace = [Sent message']\<rparr>
                   | Some st \<Rightarrow>
                       let st1 = st\<lparr>status := ''active''\<rparr>;
                           st2 = st1\<lparr>held_tp_price := Some (get (tp_price payload') (PyInt 0))\<rparr>;
                           st3 = st2\<lparr>held_sl_price := Some (get (sl_price payload') (PyInt 0))\<rparr>
                       in \<lparr>response = success,
                           positions = position_states(symbol' \<mapsto> st3),
                           trace = [Sent message', Stored symbol' st1, Stored symbol' st2,
                                    Stored symbol' st3]\<rparr>))
        else if contains ''update'' (lower signal_type') then
          (case format_update_signal now payload of
             Inl e \<Rightarrow> failure e position_states []
           | Inr message' \<Rightarrow>
               \<lparr>response = success, positions = position_states, trace = [Sent message']\<rparr>)
        else
          \<lparr>response = success, positions = position_states, trace = [Warned signal_type']\<rparr>)"

text \<open>The classification of a signal type, as the conditions of the handler read it.\<close>

definition is_entry :: "payload \<Rightarrow> bool" where
  "is_entry p = contains ''entry'' (lower (get (signal_type p) ''''))"

definition is_exit :: "payload \<Rightarrow> bool" where
  "is_exit p = contains ''exit'' (lower (get (signal_type p) ''''))"

definition is_update :: "payload \<Rightarrow> bool" where
  "is_update p = contains ''update'' (lower (get (signal_type p) ''''))"

text \<open>The payloads that \<open>test_webhook.py\<close> posts; \<open>ts\<close> is the time of the test run.\<close>

definition blank :: payload where
  "blank =
     \<lparr>signal_type = None, symbol = None, timeframe = None, price = None, momentum = None,
      vwap = None, timestamp = None, direction = None, entry_price = None, tp_price = None,
      sl_price = None, update_type = None, message = None\<rparr>"

definition test_entry_long :: "string \<Rightarrow> payload" where
  "test_entry_long ts =
     blank\<lparr>signal_type := Some ''entry_long'', symbol := Some ''BTCUSDT'',
           timeframe := Some ''7m'', price := Some (PyFloat (Finite (90001 / 2))),
           momentum := Some (PyFloat (round_double (- 53 / 10))),
           vwap := Some (PyFloat (Finite 45100)), timestamp := Some ts\<rparr>"

definition test_exit_long :: "string \<Rightarrow> payload" where
  "test_exit_long ts =
     blank\<lparr>signal_type := Some ''exit_long'', symbol := Some ''BTCUSDT'',
           timeframe := Some ''7m'', price := Some (PyFloat (Finite 45050)),
           momentum := Some (PyFloat (round_double (- 48 / 10))),
           tp_price := Some (PyFloat (Finite 45100)),
           sl_price := Some (PyFloat (Finite 44000)), timestamp := Some ts\<rparr>"

definition test_entry_short :: "string \<Rightarrow> payload" where
  "test_entry_short ts =
     blank\<lparr>signal_type := Some ''entry_short'', symbol := Some ''ETHUSDT'',
           timeframe := Some ''7m'', price := Some (PyFloat (Finite 2500)),
           momentum := Some (PyFloat (round_double (54 / 10))),
           vwap := Some (PyFloat (Finite 2490)), timestamp := Some ts\<rparr>"

text \<open>Orderings of the events of one call.\<close>

fun is_sent :: "event \<Rightarrow> bool" where
  "is_sent (Sent m) = True"
| "is_sent e = False"

fun is_stored :: "event \<Rightarrow> bool" where
  "is_stored (Stored k v) = True"
| "is_stored e = False"

text \<open>Some write into the store comes before some hand-over to the sink.\<close>

fun write_before_send :: "event list \<Rightarrow> bool" where
  "write_before_send [] = False"
| "write_before_send (e # es) = ((is_stored e \<and> list_ex is_sent es) \<or> write_before_send es)"

text \<open>Some hand-over to the sink comes before some write into the store.\<close>

fun send_before_write :: "event list \<Rightarrow> bool" where
  "send_before_write [] = False"
| "send_before_write (e # es) = ((is_sent e \<and> list_ex is_stored es) \<or> send_before_write es)"

definition t0 :: string where
  "t0 = ''2024-05-01T10:00:00''"

definition t1 :: string where
  "t1 = ''2024-05-01T10:00:01''"

definition held_long :: position where
  "held_long =
     \<lparr>status = ''accumulating'', entry_time = t0,
      held_entry_price = PyFloat (Finite (90001 / 2)), held_direction = ''LONG'',
      held_tp_price = None, held_sl_price = None\<rparr>"

text \<open>An entry payload whose price is the integer \<open>2^1024\<close>.\<close>

definition entry_huge_price :: payload where
  "entry_huge_price =
     blank\<lparr>signal_type := Some ''entry_long'', symbol := Some ''BTCUSDT'',
           price := Some (PyInt (2 ^ 1024))\<rparr>"



section \<open>Facts about the numbers\<close>

text \<open>
  The exponent function brackets its argument between two neighbouring powers of two;
  with that, rounding leaves a value alone that 53 bits can hold, and sends everything
  from \<open>2^1024\<close> on to infinity, which is where \<open>float(i)\<close> raises.
\<close>

lemma pow2_powi: "pow2 e = 2 powi e"
  by (simp add: pow2_def power_int_def power_one_over)

lemma pow2_pos: "0 < pow2 e"
  by (simp add: pow2_powi)

lemma pow2_mono: "a \<le> b \<Longrightarrow> pow2 a \<le> pow2 b"
  by (simp add: pow2_powi power_int_increasing)

lemma pow2_strict_mono: "a < b \<Longrightarrow> pow2 a < pow2 b"
  by (simp add: pow2_powi power_int_strict_increasing)

lemma pow2_add: "pow2 (a + b) = pow2 a * pow2 b"
  by (simp add: pow2_powi power_int_add)

lemma pow2_nat: "pow2 (int n) = 2 ^ n"
  by (simp add: pow2_def)

lemma pow2_neg: "pow2 (- a) = 1 / pow2 a"
  by (simp add: pow2_powi power_int_minus inverse_eq_divide)

lemma bit_length_one: "bit_length 1 = 1"
proof -
  have "bit_length 1 = 1 + bit_length (1 div 2)"
    by (subst bit_length.simps) simp
  also have "bit_length (1 div 2) = 0"
    by (subst bit_length.simps) simp
  finally show ?thesis by simp
qed

lemma bit_length_step: "0 < n \<Longrightarrow> bit_length n = 1 + bit_length (n div 2)"
  by (subst bit_length.simps) simp

lemma bit_length_bounds:
  "0 < n \<Longrightarrow> 1 \<le> bit_length n \<and> 2 ^ nat (bit_length n - 1) \<le> n \<and> n < 2 ^ nat (bit_length n)"
proof (induction n rule: bit_length.induct)
  case (1 n)
  show ?case
  proof (cases "n = 1")
    case True
    then show ?thesis by (simp add: bit_length_one)
  next
    case False
    with "1.prems" have h: "0 < n div 2" by simp
    have n0: "\<not> n \<le> 0" using "1.prems" by simp
    define k where "k = bit_length (n div 2)"
    from "1.IH" [OF n0 h] have ih: "1 \<le> k" "2 ^ nat (k - 1) \<le> n div 2" "n div 2 < 2 ^ nat k"
      by (simp_all add: k_def)
    have b: "bit_length n = 1 + k"
      using "1.prems" by (simp add: bit_length_step k_def)
    have e1: "nat (1 + k - 1) = Suc (nat (k - 1))"
      using ih(1) by simp
    have e2: "nat (1 + k) = Suc (nat k)"
      using ih(1) by simp
    have d1: "2 * (n div 2) \<le> n" by simp
    have d2: "n < 2 * (n div 2) + 2" by presburger
    have A: "(2::int) ^ Suc (nat (k - 1)) \<le> n"
    proof -
      have "(2::int) ^ Suc (nat (k - 1)) = 2 * 2 ^ nat (k - 1)" by simp
      also have "\<dots> \<le> 2 * (n div 2)" using ih(2) by linarith
      finally show ?thesis using d1 by linarith
    qed
    have B: "n < (2::int) ^ Suc (nat k)"
    proof -
      have "n div 2 + 1 \<le> 2 ^ nat k" using ih(3) by linarith
      then have "2 * (n div 2) + 2 \<le> 2 * 2 ^ nat k" by linarith
      then show ?thesis using d2 by simp
    qed
    show ?thesis
      unfolding b e1 e2 using A B ih(1) by linarith
  qed
qed

lemma bit_length_nonpos: "n \<le> 0 \<Longrightarrow> bit_length n = 0"
  by (subst bit_length.simps) simp

lemma floor_log2_bounds:
  assumes "0 < q"
  shows "pow2 (floor_log2 q) \<le> q \<and> q < pow2 (floor_log2 q + 1)"
proof (cases "1 \<le> q")
  case True
  define n where "n = \<lfloor>q\<rfloor>"
  have n: "0 < n" "of_int n \<le> q" "q < of_int n + 1"
    using True by (simp_all add: n_def) linarith+
  from bit_length_bounds [OF n(1)]
  have b: "1 \<le> bit_length n" "2 ^ nat (bit_length n - 1) \<le> n" "n < 2 ^ nat (bit_length n)"
    by simp_all
  have f: "floor_log2 q = bit_length n - 1"
    using True by (simp add: floor_log2_def n_def)
  have p1: "pow2 (bit_length n - 1) = 2 ^ nat (bit_length n - 1)"
    using b(1) by (simp add: pow2_def)
  have p2: "pow2 (bit_length n - 1 + 1) = 2 ^ nat (bit_length n)"
    using b(1) by (simp add: pow2_def)
  have "(2::rat) ^ nat (bit_length n - 1) \<le> of_int n"
    using b(2) by (metis of_int_le_iff of_int_numeral of_int_power)
  moreover have "of_int n + 1 \<le> (2::rat) ^ nat (bit_length n)"
  proof -
    have "n + 1 \<le> 2 ^ nat (bit_length n)" using b(3) by simp
    then have "(of_int (n + 1) :: rat) \<le> of_int (2 ^ nat (bit_length n))"
      by (simp only: of_int_le_iff)
    then show ?thesis by simp
  qed
  ultimately show ?thesis
    using n unfolding f p1 p2 by linarith
next
  case False
  define m where "m = \<lceil>1 / q\<rceil>"
  have q1: "q < 1" using False by simp
  have iq: "1 < 1 / q" using assms q1 by simp
  have m: "1 < m" "1 / q \<le> of_int m" "of_int m - 1 < 1 / q"
    using iq by (simp_all add: m_def less_ceiling_iff) linarith+
  have m1: "0 < m - 1" using m(1) by simp
  define k where "k = bit_length (m - 1)"
  from bit_length_bounds [OF m1]
  have b: "1 \<le> k" "2 ^ nat (k - 1) \<le> m - 1" "m - 1 < 2 ^ nat k"
    by (simp_all add: k_def)
  have f: "floor_log2 q = - k"
    using False by (simp add: floor_log2_def m_def k_def)
  have up: "of_int m \<le> (2::rat) ^ nat k"
  proof -
    have "m \<le> 2 ^ nat k" using b(3) by simp
    then have "(of_int m :: rat) \<le> of_int (2 ^ nat k)" by (simp only: of_int_le_iff)
    then show ?thesis by simp
  qed
  have lo: "(2::rat) ^ nat (k - 1) \<le> of_int m - 1"
  proof -
    have "(of_int (2 ^ nat (k - 1)) :: rat) \<le> of_int (m - 1)"
      using b(2) by (simp only: of_int_le_iff)
    then show ?thesis by simp
  qed
  have pk: "pow2 k = 2 ^ nat k" using b(1) by (simp add: pow2_def)
  have pk1: "pow2 (k - 1) = 2 ^ nat (k - 1)" using b(1) by (simp add: pow2_def)
  have A: "1 / q \<le> pow2 k" using m(2) up pk by linarith
  have B: "pow2 (k - 1) < 1 / q" using m(3) lo pk1 by linarith
  have "pow2 (- k) \<le> q"
  proof -
    have "1 \<le> pow2 k * q" using A assms by (simp add: field_simps)
    then show ?thesis using pow2_pos [of k] by (simp add: pow2_neg field_simps)
  qed
  moreover have "q < pow2 (- k + 1)"
  proof -
    have "pow2 (k - 1) * q < 1" using B assms by (simp add: field_simps)
    then have "q < 1 / pow2 (k - 1)"
      using pow2_pos [of "k - 1"] by (simp add: pos_less_divide_eq mult.commute)
    moreover have "pow2 (- k + 1) = 1 / pow2 (k - 1)"
      using pow2_neg [of "k - 1"] by simp
    ultimately show ?thesis by simp
  qed
  ultimately show ?thesis unfolding f by simp
qed

lemma floor_log2_unique:
  assumes "pow2 e \<le> q" and "q < pow2 (e + 1)"
  shows "floor_log2 q = e"
proof -
  have q: "0 < q" using assms(1) pow2_pos [of e] by linarith
  from floor_log2_bounds [OF q]
  have b: "pow2 (floor_log2 q) \<le> q" "q < pow2 (floor_log2 q + 1)" by simp_all
  have "\<not> floor_log2 q < e"
  proof
    assume "floor_log2 q < e"
    then have "pow2 (floor_log2 q + 1) \<le> pow2 e" by (intro pow2_mono) simp
    with b(2) assms(1) show False by linarith
  qed
  moreover have "\<not> e < floor_log2 q"
  proof
    assume "e < floor_log2 q"
    then have "pow2 (e + 1) \<le> pow2 (floor_log2 q)" by (intro pow2_mono) simp
    with b(1) assms(2) show False by linarith
  qed
  ultimately show ?thesis by simp
qed

lemma round_half_even_int: "round_half_even (of_int n) = n"
  by (simp add: round_half_even_def)

lemma round_half_even_ge: "\<lfloor>q\<rfloor> \<le> round_half_even q"
  by (simp add: round_half_even_def Let_def)

lemma pow2_1024: "pow2 1024 = 2 ^ 1024"
  by (simp add: pow2_def)

lemma round_double_exact:
  assumes "q \<noteq> 0" and "pow2 e \<le> \<bar>q\<bar>" and "\<bar>q\<bar> < pow2 (e + 1)"
    and "- 1022 \<le> e" and "e < 1024" and "\<bar>q\<bar> / pow2 (e - 52) = of_int m"
  shows "round_double q = Finite q"
proof -
  have fl: "floor_log2 \<bar>q\<bar> = e"
    by (rule floor_log2_unique) fact+
  have mx: "max e (- 1022) = e"
    using assms(4) by simp
  have rh: "round_half_even (\<bar>q\<bar> / pow2 (e - 52)) = m"
    unfolding assms(6) by (rule round_half_even_int)
  have r: "of_int m * pow2 (e - 52) = \<bar>q\<bar>"
    using assms(6) pow2_pos [of "e - 52"] by (simp add: field_simps)
  have "pow2 (e + 1) \<le> pow2 1024"
    using assms(5) by (intro pow2_mono) simp
  then have lt: "\<not> 2 ^ 1024 \<le> \<bar>q\<bar>"
    using assms(3) unfolding pow2_1024 by linarith
  have nz: "\<bar>q\<bar> \<noteq> 0"
    using assms(1) by simp
  have "round_double q = Finite (if 0 < q then \<bar>q\<bar> else - \<bar>q\<bar>)"
    unfolding round_double_def Let_def fl mx rh r using assms(1) lt nz by simp
  then show ?thesis
    by (cases "0 < q") simp_all
qed

lemma round_double_overflow:
  assumes "2 ^ 1024 \<le> q"
  shows "round_double q = PosInf"
proof -
  have q: "0 < q"
  proof -
    have "(0::rat) < 2 ^ 1024" by simp
    with assms show ?thesis by linarith
  qed
  define e where "e = floor_log2 q"
  from floor_log2_bounds [OF q]
  have b: "pow2 e \<le> q" "q < pow2 (e + 1)" by (simp_all add: e_def)
  have e: "1024 \<le> e"
  proof (rule ccontr)
    assume "\<not> 1024 \<le> e"
    then have "pow2 (e + 1) \<le> pow2 1024" by (intro pow2_mono) simp
    with b(2) assms show False unfolding pow2_1024 by linarith
  qed
  define u where "u = pow2 (e - 52)"
  have u: "0 < u" by (simp add: u_def pow2_pos)
  have pe: "pow2 e = 2 ^ 52 * u"
  proof -
    have "pow2 e = pow2 (52 + (e - 52))" by simp
    also have "\<dots> = pow2 52 * pow2 (e - 52)" by (rule pow2_add)
    finally show ?thesis by (simp add: u_def pow2_def)
  qed
  have "(2::rat) ^ 52 \<le> q / u"
    using b(1) u unfolding pe by (simp add: field_simps)
  then have "of_int (2 ^ 52) \<le> q / u" by simp
  then have "2 ^ 52 \<le> \<lfloor>q / u\<rfloor>" by (simp only: le_floor_iff)
  then have n: "2 ^ 52 \<le> round_half_even (q / u)"
    using round_half_even_ge [of "q / u"] by linarith
  have "(2::rat) ^ 52 * u \<le> of_int (round_half_even (q / u)) * u"
  proof -
    have "(of_int (2 ^ 52) :: rat) \<le> of_int (round_half_even (q / u))"
      using n by (simp only: of_int_le_iff)
    then show ?thesis using u by simp
  qed
  then have "pow2 e \<le> of_int (round_half_even (q / u)) * u"
    unfolding pe .
  moreover have "pow2 1024 \<le> pow2 e" using e by (intro pow2_mono)
  ultimately have big: "2 ^ 1024 \<le> of_int (round_half_even (q / u)) * u"
    unfolding pow2_1024 by linarith
  have mx: "max e (- 1022) = e" using e by simp
  have aq: "\<bar>q\<bar> = q" using q by simp
  have q0: "q \<noteq> 0" using q by simp
  show ?thesis
    unfolding round_double_def Let_def aq e_def [symmetric] mx u_def [symmetric]
    using q q0 big by simp
qed

lemma float_of_int_overflow:
  "2 ^ 1024 \<le> i \<Longrightarrow> float_of_int i = Inl (OverflowError ''int too large to convert to float'')"
proof -
  assume "2 ^ 1024 \<le> i"
  then have "(of_int (2 ^ 1024) :: rat) \<le> of_int i" by (simp only: of_int_le_iff)
  then have "(2::rat) ^ 1024 \<le> of_int i" by simp
  then have "round_double (of_int i) = PosInf" by (rule round_double_overflow)
  then show ?thesis by (simp add: float_of_int_def is_inf_def)
qed

section \<open>Properties of the dispatch\<close>

lemma float_fields_format: "format_f n (PyFloat f) = Inr (float_format n f)"
  by simp

lemma entry_long_formats: "\<exists>m. format_entry_signal now (test_entry_long ts) = Inr m"
  by (simp add: format_entry_signal_def test_entry_long_def blank_def Let_def)

lemma entry_long_is_entry: "is_entry (test_entry_long ts)"
  by (simp add: is_entry_def test_entry_long_def blank_def) code_simp

lemma exit_long_is_exit: "\<not> is_entry (test_exit_long ts) \<and> is_exit (test_exit_long ts)"
  by (simp add: is_entry_def is_exit_def test_exit_long_def blank_def) code_simp

lemma exit_long_symbol: "get (symbol (test_exit_long ts)) '''' = ''BTCUSDT''"
  by (simp add: test_exit_long_def blank_def)

text \<open>
  C3. The conditions are tried in the order entry, exit, update: a signal type that
  contains both "entry" and "exit" takes the entry branch, whose whole outcome is the
  entry message handed over and the entry state stored (or the failure of the entry
  formatter).
\<close>

theorem entry_wins_over_exit:
  assumes "is_entry p" and "is_exit p"
  shows "webhook_handler now now' p ps =
    (case format_entry_signal now p of
       Inl e \<Rightarrow> \<lparr>response = HTTPException 500 (str_of e), positions = ps, trace = [Failed e]\<rparr>
     | Inr m \<Rightarrow>
         \<lparr>response = success,
          positions = ps(get (symbol p) '''' \<mapsto> entry_state now' p),
          trace = [Sent m, Stored (get (symbol p) '''') (entry_state now' p)]\<rparr>)"
  using assms(1)
  by (simp add: webhook_handler_def is_entry_def failure_def Let_def split: sum.splits)

theorem entry_wins_over_exit_witness:
  "is_entry (blank\<lparr>signal_type := Some ''EXIT_then_Entry_long''\<rparr>)
   \<and> is_exit (blank\<lparr>signal_type := Some ''EXIT_then_Entry_long''\<rparr>)
   \<and> webhook_handler t0 t1 (blank\<lparr>signal_type := Some ''EXIT_then_Entry_long''\<rparr>) Map.empty =
      (case format_entry_signal t0 (blank\<lparr>signal_type := Some ''EXIT_then_Entry_long''\<rparr>) of
         Inl e \<Rightarrow>
           \<lparr>response = HTTPException 500 (str_of e), positions = Map.empty, trace = [Failed e]\<rparr>
       | Inr m \<Rightarrow>
           \<lparr>response = success,
            positions = [get (symbol (blank\<lparr>signal_type := Some ''EXIT_then_Entry_long''\<rparr>)) ''''
              \<mapsto> entry_state t1 (blank\<lparr>signal_type := Some ''EXIT_then_Entry_long''\<rparr>)],
            trace = [Sent m,
              Stored (get (symbol (blank\<lparr>signal_type := Some ''EXIT_then_Entry_long''\<rparr>)) '''')
                (entry_state t1 (blank\<lparr>signal_type := Some ''EXIT_then_Entry_long''\<rparr>))]\<rparr>)"
proof -
  have h1: "is_entry (blank\<lparr>signal_type := Some ''EXIT_then_Entry_long''\<rparr>)"
    by (simp add: is_entry_def blank_def) code_simp
  have h2: "is_exit (blank\<lparr>signal_type := Some ''EXIT_then_Entry_long''\<rparr>)"
    by (simp add: is_exit_def blank_def) code_simp
  from entry_wins_over_exit [OF h1 h2, of t0 t1 Map.empty] h1 h2 show ?thesis
    by blast
qed

text \<open>
  C6. A signal type with none of "entry", "exit", "update" in it: the store is left as
  it was, nothing is handed to the sink, the only event is the warning, and the answer
  is the 200 success response.
\<close>

theorem unrecognized_is_noop:
  assumes "\<not> is_entry p" and "\<not> is_exit p" and "\<not> is_update p"
  shows "webhook_handler now now' p ps =
    \<lparr>response = JSONResponse 200 ''success'' ''Webhook processed'', positions = ps,
     trace = [Warned (get (signal_type p) '''')]\<rparr>"
  using assms
  by (simp add: webhook_handler_def is_entry_def is_exit_def is_update_def success_def Let_def)

theorem unrecognized_is_noop_witness:
  "\<not> is_entry (blank\<lparr>signal_type := Some ''ping''\<rparr>)
   \<and> \<not> is_exit (blank\<lparr>signal_type := Some ''ping''\<rparr>)
   \<and> \<not> is_update (blank\<lparr>signal_type := Some ''ping''\<rparr>)
   \<and> webhook_handler t0 t1 (blank\<lparr>signal_type := Some ''ping''\<rparr>) [''BTCUSDT'' \<mapsto> held_long] =
       \<lparr>response = JSONResponse 200 ''success'' ''Webhook processed'',
        positions = [''BTCUSDT'' \<mapsto> held_long],
        trace = [Warned (get (signal_type (blank\<lparr>signal_type := Some ''ping''\<rparr>)) '''')]\<rparr>"
proof -
  have h1: "\<not> is_entry (blank\<lparr>signal_type := Some ''ping''\<rparr>)"
    by (simp add: is_entry_def blank_def) code_simp
  have h2: "\<not> is_exit (blank\<lparr>signal_type := Some ''ping''\<rparr>)"
    by (simp add: is_exit_def blank_def) code_simp
  have h3: "\<not> is_update (blank\<lparr>signal_type := Some ''ping''\<rparr>)"
    by (simp add: is_update_def blank_def) code_simp
  from unrecognized_is_noop [OF h1 h2 h3, of t0 t1 "[''BTCUSDT'' \<mapsto> held_long]"] h1 h2 h3
  show ?thesis
    by blast
qed

text \<open>
  C8. On an update signal the outcome is the update message formatted from the payload
  (or the failure of that formatter); the store is returned as it was, and the response
  and the events are the same whatever the store holds.
\<close>

theorem update_ignores_store:
  assumes "\<not> is_entry p" and "\<not> is_exit p" and "is_update p"
  shows "webhook_handler now now' p ps =
           (case format_update_signal now p of
              Inl e \<Rightarrow>
                \<lparr>response = HTTPException 500 (str_of e), positions = ps, trace = [Failed e]\<rparr>
            | Inr m \<Rightarrow> \<lparr>response = success, positions = ps, trace = [Sent m]\<rparr>)
       \<and> response (webhook_handler now now' p ps) = response (webhook_handler now now' p ps')
       \<and> trace (webhook_handler now now' p ps) = trace (webhook_handler now now' p ps')"
  using assms
  by (simp add: webhook_handler_def is_entry_def is_exit_def is_update_def failure_def Let_def
      split: sum.splits)

theorem update_ignores_store_witness:
  "\<not> is_entry (blank\<lparr>signal_type := Some ''update'', symbol := Some ''BTCUSDT''\<rparr>)
   \<and> \<not> is_exit (blank\<lparr>signal_type := Some ''update'', symbol := Some ''BTCUSDT''\<rparr>)
   \<and> is_update (blank\<lparr>signal_type := Some ''update'', symbol := Some ''BTCUSDT''\<rparr>)
   \<and> positions (webhook_handler t0 t1
        (blank\<lparr>signal_type := Some ''update'', symbol := Some ''BTCUSDT''\<rparr>)
        [''BTCUSDT'' \<mapsto> held_long]) = [''BTCUSDT'' \<mapsto> held_long]"
proof -
  let ?p = "blank\<lparr>signal_type := Some ''update'', symbol := Some ''BTCUSDT''\<rparr>"
  have h1: "\<not> is_entry ?p"
    by (simp add: is_entry_def blank_def) code_simp
  have h2: "\<not> is_exit ?p"
    by (simp add: is_exit_def blank_def) code_simp
  have h3: "is_update ?p"
    by (simp add: is_update_def blank_def) code_simp
  have "positions (webhook_handler t0 t1 ?p [''BTCUSDT'' \<mapsto> held_long])
          = [''BTCUSDT'' \<mapsto> held_long]"
    using update_ignores_store [OF h1 h2 h3, of t0 t1 "[''BTCUSDT'' \<mapsto> held_long]"]
    by (simp split: sum.splits)
  with h1 h2 h3 show ?thesis
    by blast
qed

text \<open>
  C10. Whatever the signal, the state of every symbol other than the signal's own is
  the same after the call as before it.
\<close>

theorem other_symbols_unchanged:
  assumes "k \<noteq> get (symbol p) ''''"
  shows "positions (webhook_handler now now' p ps) k = ps k"
  using assms
  by (simp add: webhook_handler_def failure_def Let_def split: sum.splits option.splits)

theorem other_symbols_unchanged_witness:
  "''ETHUSDT'' \<noteq> get (symbol (test_entry_long t0)) ''''
   \<and> positions (webhook_handler t0 t1 (test_entry_long t0) [''ETHUSDT'' \<mapsto> held_long]) ''ETHUSDT''
       = [''ETHUSDT'' \<mapsto> held_long] ''ETHUSDT''"
proof -
  have h: "''ETHUSDT'' \<noteq> get (symbol (test_entry_long t0)) ''''"
    by (simp add: test_entry_long_def blank_def)
  from other_symbols_unchanged [OF h, of t0 t1 "[''ETHUSDT'' \<mapsto> held_long]"] h show ?thesis
    by blast
qed

text \<open>
  C5, as the code has it. Within one call no write into the store comes before a
  hand-over to the sink; whenever the call writes into the store at all, its first event
  is the hand-over of the message and everything after it is a write: the message goes
  to the sink first, the state is written afterwards.
\<close>

theorem sink_before_store:
  "\<not> write_before_send (trace (webhook_handler now now' p ps))
   \<and> (list_ex is_stored (trace (webhook_handler now now' p ps)) \<longrightarrow>
        (\<exists>m rest. trace (webhook_handler now now' p ps) = Sent m # rest
           \<and> list_all is_stored rest
           \<and> send_before_write (trace (webhook_handler now now' p ps))))"
  by (simp add: webhook_handler_def failure_def Let_def split: sum.splits option.splits)

lemma entry_long_trace:
  "\<exists>m. trace (webhook_handler t0 t1 (test_entry_long t0) Map.empty) =
     [Sent m, Stored ''BTCUSDT'' (entry_state t1 (test_entry_long t0))]"
proof -
  obtain m where m: "format_entry_signal t0 (test_entry_long t0) = Inr m"
    using entry_long_formats by blast
  have e: "contains ''entry'' (lower (get (signal_type (test_entry_long t0)) ''''))"
    using entry_long_is_entry by (simp add: is_entry_def)
  have s: "get (symbol (test_entry_long t0)) '''' = ''BTCUSDT''"
    by (simp add: test_entry_long_def blank_def)
  show ?thesis
    using m e s by (simp add: webhook_handler_def Let_def)
qed

theorem sink_before_store_witness:
  "list_ex is_stored (trace (webhook_handler t0 t1 (test_entry_long t0) Map.empty))
   \<and> (\<exists>m rest. trace (webhook_handler t0 t1 (test_entry_long t0) Map.empty) = Sent m # rest
         \<and> list_all is_stored rest
         \<and> send_before_write (trace (webhook_handler t0 t1 (test_entry_long t0) Map.empty)))"
proof -
  have h: "list_ex is_stored (trace (webhook_handler t0 t1 (test_entry_long t0) Map.empty))"
    using entry_long_trace by auto
  from sink_before_store [of t0 t1 "test_entry_long t0" Map.empty] h show ?thesis
    by blast
qed

text \<open>
  C5 as the claim words it (the write of the state comes before the hand-over to the
  sink) fails on the first payload of the test script: the message is handed over, then
  the state is stored, and no write comes before the hand-over.
\<close>

theorem store_before_sink_counterexample:
  "send_before_write (trace (webhook_handler t0 t1 (test_entry_long t0) Map.empty))
   \<and> \<not> write_before_send (trace (webhook_handler t0 t1 (test_entry_long t0) Map.empty))"
  using entry_long_trace by auto

text \<open>
  C2, as the code has it. The entry branch formats and hands over the message first and
  stores the state after that. When the entry message is formatted without an exception,
  the store afterwards is the old one with the signal's symbol bound to the new state
  (status accumulating, the payload's price or 0 as entry price, LONG or SHORT by
  "long" in the signal type), whatever the symbol held before.
\<close>

theorem entry_writes_state:
  assumes "is_entry p" and "format_entry_signal now p = Inr m"
  shows "positions (webhook_handler now now' p ps) =
           ps(get (symbol p) '''' \<mapsto>
             \<lparr>status = ''accumulating'', entry_time = now',
              held_entry_price = get (price p) (PyInt 0),
              held_direction =
                (if contains ''long'' (lower (get (signal_type p) '''')) then ''LONG''
                 else ''SHORT''),
              held_tp_price = None, held_sl_price = None\<rparr>)"
  using assms
  by (simp add: webhook_handler_def is_entry_def entry_state_def Let_def)

theorem entry_writes_state_witness:
  "\<exists>m. is_entry (test_entry_long t0) \<and> format_entry_signal t0 (test_entry_long t0) = Inr m
     \<and> positions (webhook_handler t0 t1 (test_entry_long t0) [''BTCUSDT'' \<mapsto> held_long]) =
         [''BTCUSDT'' \<mapsto> held_long](get (symbol (test_entry_long t0)) '''' \<mapsto>
           \<lparr>status = ''accumulating'', entry_time = t1,
            held_entry_price = get (price (test_entry_long t0)) (PyInt 0),
            held_direction =
              (if contains ''long'' (lower (get (signal_type (test_entry_long t0)) ''''))
               then ''LONG'' else ''SHORT''),
            held_tp_price = None, held_sl_price = None\<rparr>)"
proof -
  obtain m where h2: "format_entry_signal t0 (test_entry_long t0) = Inr m"
    using entry_long_formats by blast
  have h1: "is_entry (test_entry_long t0)"
    by (rule entry_long_is_entry)
  from entry_writes_state [OF h1 h2, of t1 "[''BTCUSDT'' \<mapsto> held_long]"] h1 h2
  show ?thesis
    by blast
qed

text \<open>
  C2 as the claim words it (every entry signal writes the state) fails where the
  formatter raises: with the integer \<open>2^1024\<close> as price, \<open>{price:.6f}\<close> raises
  OverflowError, the handler answers 500, and the symbol has no state afterwards.
\<close>

theorem entry_without_write_counterexample:
  "is_entry entry_huge_price
   \<and> response (webhook_handler t0 t1 entry_huge_price Map.empty) =
       HTTPException 500 ''int too large to convert to float''
   \<and> positions (webhook_handler t0 t1 entry_huge_price Map.empty) ''BTCUSDT'' = None"
proof -
  have e: "contains ''entry'' (lower ''entry_long'')"
    by code_simp
  have f: "format_entry_signal t0 entry_huge_price =
             Inl (OverflowError ''int too large to convert to float'')"
    by (simp add: format_entry_signal_def entry_huge_price_def blank_def Let_def
        float_of_int_overflow)
  show ?thesis
    using e f
    by (simp add: webhook_handler_def is_entry_def failure_def Let_def entry_huge_price_def
        blank_def)
qed

section \<open>Evaluating the rounding\<close>

lemma round_half_even_frac:
  assumes "0 < b"
  shows "round_half_even (of_int a / of_int b) =
    (let n = a div b; r = a mod b
     in if 2 * r < b then n else if b < 2 * r then n + 1 else if even n then n else n + 1)"
proof -
  have fl: "\<lfloor>(of_int a / of_int b :: rat)\<rfloor> = a div b"
    by (rule floor_divide_of_int_eq)
  have bq: "(0::rat) < of_int b" using assms by simp
  have fr: "(of_int a / of_int b :: rat) - of_int (a div b) = of_int (a mod b) / of_int b"
  proof -
    have "a = b * (a div b) + a mod b" by simp
    then have "(of_int a :: rat) = of_int b * of_int (a div b) + of_int (a mod b)"
      by (metis of_int_add of_int_mult)
    then show ?thesis using bq by (simp add: field_simps)
  qed
  have c1: "(of_int (a mod b) / of_int b < (1::rat) / 2) = (2 * (a mod b) < b)"
  proof -
    have "(of_int (a mod b) / of_int b < (1::rat) / 2) = ((of_int (2 * (a mod b)) :: rat) < of_int b)"
      using bq by (simp add: field_simps)
    then show ?thesis by (simp only: of_int_less_iff)
  qed
  have c2: "((1::rat) / 2 < of_int (a mod b) / of_int b) = (b < 2 * (a mod b))"
  proof -
    have "((1::rat) / 2 < of_int (a mod b) / of_int b) = ((of_int b :: rat) < of_int (2 * (a mod b)))"
      using bq by (simp add: field_simps)
    then show ?thesis by (simp only: of_int_less_iff)
  qed
  show ?thesis
    unfolding round_half_even_def Let_def fl fr c1 c2 ..
qed

lemma round_double_eval:
  assumes "q \<noteq> 0" and "pow2 e \<le> \<bar>q\<bar>" and "\<bar>q\<bar> < pow2 (e + 1)" and "- 1022 \<le> e"
    and "round_half_even (\<bar>q\<bar> / pow2 (e - 52)) = n" and "0 < n"
    and "of_int n * pow2 (e - 52) < 2 ^ 1024"
  shows "round_double q = Finite ((if 0 < q then 1 else - 1) * (of_int n * pow2 (e - 52)))"
proof -
  have fl: "floor_log2 \<bar>q\<bar> = e"
    by (rule floor_log2_unique) fact+
  have mx: "max e (- 1022) = e"
    using assms(4) by simp
  have lt: "\<not> 2 ^ 1024 \<le> of_int n * pow2 (e - 52)"
    using assms(7) by linarith
  have nz: "of_int n * pow2 (e - 52) \<noteq> (0::rat)"
    using assms(6) pow2_pos [of "e - 52"] by simp
  have "round_double q =
          Finite (if 0 < q then of_int n * pow2 (e - 52) else - (of_int n * pow2 (e - 52)))"
    unfolding round_double_def Let_def fl mx assms(5) using assms(1) lt nz by simp
  then show ?thesis
    by simp
qed

lemma threshold_value: "threshold = PyFloat (Finite (- 5742089524897382 / 2 ^ 50))"
proof -
  have a: "\<bar>- 51 / 10 :: rat\<bar> = 51 / 10" by simp
  have r: "round_half_even (\<bar>- 51 / 10\<bar> / pow2 (2 - 52)) = 5742089524897382"
  proof -
    have "(\<bar>- 51 / 10\<bar> / pow2 (2 - 52) :: rat) = of_int (51 * 2 ^ 50) / of_int 10"
      by (simp add: pow2_def)
    then show ?thesis
      by (simp only: round_half_even_frac [of 10 "51 * 2 ^ 50"]) (simp add: Let_def)
  qed
  have "round_double (- 51 / 10) =
          Finite ((if 0 < (- 51 / 10 :: rat) then 1 else - 1) *
                  (of_int 5742089524897382 * pow2 (2 - 52)))"
    by (rule round_double_eval [OF _ _ _ _ r]) (simp_all add: pow2_def)
  then show ?thesis
    by (simp add: threshold_def pow2_def)
qed

lemma minus_5_3: "round_double (- 53 / 10) = Finite (- 5967269506265907 / 2 ^ 50)"
proof -
  have r: "round_half_even (\<bar>- 53 / 10\<bar> / pow2 (2 - 52)) = 5967269506265907"
  proof -
    have "(\<bar>- 53 / 10\<bar> / pow2 (2 - 52) :: rat) = of_int (53 * 2 ^ 50) / of_int 10"
      by (simp add: pow2_def)
    then show ?thesis
      by (simp only: round_half_even_frac [of 10 "53 * 2 ^ 50"]) (simp add: Let_def)
  qed
  have "round_double (- 53 / 10) =
          Finite ((if 0 < (- 53 / 10 :: rat) then 1 else - 1) *
                  (of_int 5967269506265907 * pow2 (2 - 52)))"
    by (rule round_double_eval [OF _ _ _ _ r]) (simp_all add: pow2_def)
  then show ?thesis
    by (simp add: pow2_def)
qed

lemma plus_5_4: "round_double (54 / 10) = Finite (6079859496950170 / 2 ^ 50)"
proof -
  have r: "round_half_even (\<bar>54 / 10\<bar> / pow2 (2 - 52)) = 6079859496950170"
  proof -
    have "(\<bar>54 / 10\<bar> / pow2 (2 - 52) :: rat) = of_int (54 * 2 ^ 50) / of_int 10"
      by (simp add: pow2_def)
    then show ?thesis
      by (simp only: round_half_even_frac [of 10 "54 * 2 ^ 50"]) (simp add: Let_def)
  qed
  have "round_double (54 / 10) =
          Finite ((if 0 < (54 / 10 :: rat) then 1 else - 1) *
                  (of_int 6079859496950170 * pow2 (2 - 52)))"
    by (rule round_double_eval [OF _ _ _ _ r]) (simp_all add: pow2_def)
  then show ?thesis
    by (simp add: pow2_def)
qed

lemma labels_differ: "txt_below \<noteq> txt_above"
  by code_simp

lemma float_of_int_small:
  assumes "\<bar>n\<bar> < 2 ^ 53"
  shows "float_of_int n = Inr (Finite (of_int n))"
proof (cases "n = 0")
  case True
  then show ?thesis by (simp add: float_of_int_def round_double_def is_inf_def)
next
  case False
  define q :: rat where "q = of_int n"
  have aq: "\<bar>q\<bar> = of_int \<bar>n\<bar>" by (simp add: q_def)
  have q0: "q \<noteq> 0" using False by (simp add: q_def)
  have q1: "1 \<le> \<bar>q\<bar>"
  proof -
    have "1 \<le> \<bar>n\<bar>" using False by simp
    then have "(of_int 1 :: rat) \<le> of_int \<bar>n\<bar>" by (simp only: of_int_le_iff)
    then show ?thesis by (simp add: aq)
  qed
  have q2: "\<bar>q\<bar> < 2 ^ 53"
  proof -
    have "(of_int \<bar>n\<bar> :: rat) < of_int (2 ^ 53)" using assms by (simp only: of_int_less_iff)
    then show ?thesis by (simp add: aq)
  qed
  define e where "e = floor_log2 \<bar>q\<bar>"
  have qp: "0 < \<bar>q\<bar>" using q1 by linarith
  from floor_log2_bounds [OF qp]
  have b: "pow2 e \<le> \<bar>q\<bar>" "\<bar>q\<bar> < pow2 (e + 1)" by (simp_all add: e_def)
  have e0: "0 \<le> e"
  proof (rule ccontr)
    assume "\<not> 0 \<le> e"
    then have "pow2 (e + 1) \<le> pow2 0" by (intro pow2_mono) simp
    with b(2) q1 show False by (simp add: pow2_def)
  qed
  have e52: "e \<le> 52"
  proof (rule ccontr)
    assume "\<not> e \<le> 52"
    then have "pow2 53 \<le> pow2 e" by (intro pow2_mono) simp
    with b(1) q2 show False by (simp add: pow2_def)
  qed
  have "pow2 (e - 52) = 1 / pow2 (52 - e)"
    using pow2_neg [of "52 - e"] by simp
  also have "pow2 (52 - e) = 2 ^ nat (52 - e)"
    using e52 by (simp add: pow2_def)
  finally have u: "pow2 (e - 52) = 1 / 2 ^ nat (52 - e)" .
  have m: "\<bar>q\<bar> / pow2 (e - 52) = of_int (\<bar>n\<bar> * 2 ^ nat (52 - e))"
    unfolding u aq by simp
  have "round_double q = Finite q"
    by (rule round_double_exact [OF q0 b(1) b(2) _ _ m]) (use e0 e52 in simp_all)
  then show ?thesis
    by (simp add: float_of_int_def is_inf_def q_def)
qed

section \<open>The shape of the messages\<close>

text \<open>
  \<open>strip\<close> takes the leading newline of a template away and, at the end, nothing
  beyond the last \<open>>\<close> of the template; so each formatted message is the text of its
  template with the fields filled in.
\<close>

lemma bind_eq_Inr: "(bind x f = Inr y) = (\<exists>a. x = Inr a \<and> f a = Inr y)"
  by (cases x) simp_all

lemma startswith_length: "startswith s w \<Longrightarrow> length w \<le> length s"
  by (induction s w rule: startswith.induct) simp_all

lemma startswith_past:
  "d \<notin> set w \<Longrightarrow> startswith (R @ d # Y) w = startswith R w"
  by (induction R w rule: startswith.induct) auto

lemma find_same: "(\<And>x. x \<in> set xs \<Longrightarrow> P x = Q x) \<Longrightarrow> find P xs = find Q xs"
  by (induction xs) simp_all

lemma drop_ws_stop:
  assumes "\<forall>w\<in>set ws. d \<notin> set w"
  shows "drop_ws ws (R @ d # Y) = drop_ws ws R @ d # Y"
  using assms
proof (induction ws R rule: drop_ws.induct)
  case (1 ws s)
  have same: "find (\<lambda>w. w \<noteq> [] \<and> startswith (s @ d # Y) w) ws
                = find (\<lambda>w. w \<noteq> [] \<and> startswith s w) ws"
  proof (rule find_same)
    fix x
    assume "x \<in> set ws"
    with "1.prems" have "d \<notin> set x"
      by blast
    then show "(x \<noteq> [] \<and> startswith (s @ d # Y) x) = (x \<noteq> [] \<and> startswith s x)"
      by (simp add: startswith_past)
  qed
  show ?case
  proof (cases "find (\<lambda>w. w \<noteq> [] \<and> startswith s w) ws")
    case None
    then show ?thesis
      using same by (simp add: drop_ws.simps [of ws s] drop_ws.simps [of ws "s @ d # Y"])
  next
    case (Some w)
    then have "startswith s w"
      by (auto simp add: find_Some_iff)
    then have len: "length w \<le> length s"
      by (rule startswith_length)
    have "drop_ws ws (s @ d # Y) = drop_ws ws (drop (length w) (s @ d # Y))"
      using same Some by (simp add: drop_ws.simps [of ws "s @ d # Y"])
    also have "drop (length w) (s @ d # Y) = drop (length w) s @ d # Y"
      using len by simp
    also have "drop_ws ws (drop (length w) s @ d # Y) = drop_ws ws (drop (length w) s) @ d # Y"
      using "1.IH" [OF Some "1.prems"] .
    also have "drop_ws ws (drop (length w) s) = drop_ws ws s"
      using Some by (simp add: drop_ws.simps [of ws s])
    finally show ?thesis .
  qed
qed

lemma rstrip_keep:
  assumes "\<forall>w\<in>set whitespace. d \<notin> set w"
  shows "rstrip (X @ d # B) = X @ d # rstrip B"
proof -
  have "\<forall>w\<in>set (map rev whitespace). d \<notin> set w"
    using assms by simp
  then have "drop_ws (map rev whitespace) (rev B @ d # rev X)
               = drop_ws (map rev whitespace) (rev B) @ d # rev X"
    by (rule drop_ws_stop)
  then show ?thesis
    by (simp add: rstrip_def)
qed

lemma lstrip_newline: "lstrip (CHR 0x0A # CHR 0xF0 # rest) = CHR 0xF0 # rest"
proof -
  have "drop_ws whitespace (CHR 0x0A # CHR 0xF0 # rest) = drop_ws whitespace (CHR 0xF0 # rest)"
    by (subst drop_ws.simps) (simp add: whitespace_def)
  also have "\<dots> = CHR 0xF0 # rest"
    by (subst drop_ws.simps) (simp add: whitespace_def)
  finally show ?thesis
    by (simp add: lstrip_def)
qed

lemma rstrip_newline: "rstrip [CHR 0x0A] = []"
proof -
  have "drop_ws (map rev whitespace) [CHR 0x0A] = drop_ws (map rev whitespace) []"
    by (subst drop_ws.simps) (simp add: whitespace_def)
  also have "\<dots> = []"
    by (subst drop_ws.simps) (simp add: whitespace_def)
  finally show ?thesis
    by (simp add: rstrip_def)
qed

lemma no_gt_in_whitespace: "\<forall>w\<in>set whitespace. CHR ''>'' \<notin> set w"
  by (simp add: whitespace_def)

lemma strip_kept:
  "strip (CHR 0x0A # CHR 0xF0 # A @ CHR ''>'' # B) = CHR 0xF0 # A @ CHR ''>'' # rstrip B"
proof -
  have "strip (CHR 0x0A # CHR 0xF0 # A @ CHR ''>'' # B) = rstrip ((CHR 0xF0 # A) @ CHR ''>'' # B)"
    by (simp add: strip_def lstrip_newline)
  also have "\<dots> = (CHR 0xF0 # A) @ CHR ''>'' # rstrip B"
    using no_gt_in_whitespace by (rule rstrip_keep)
  finally show ?thesis
    by simp
qed

lemma byte_F0: "char_of (0xF0 :: nat) = CHR 0xF0"
  by code_simp

lemma entry_message_text:
  assumes "format_entry_signal now data = Inr msg"
  shows "\<exists>ps ms vs.
           format_f 6 (get (price data) (PyInt 0)) = Inr ps
           \<and> format_f 2 (get (momentum data) (PyInt 0)) = Inr ms
           \<and> format_f 6 (get (vwap data) (PyInt 0)) = Inr vs
           \<and> msg =
               (if contains ''long'' (lower (get (signal_type data) ''unknown''))
                then green_circle @ '' LONG'' else red_circle @ '' SHORT'') @
               '' '' @ txt_entry_title @ nl @
               nl @ ''<b>'' @ txt_symbol @ '':</b> '' @ get (symbol data) ''UNKNOWN'' @ nl @
               ''<b>'' @ txt_timeframe @ '':</b> '' @ get (timeframe data) ''7m'' @ nl @
               ''<b>'' @ txt_price @ '':</b> $'' @ ps @ nl @
               nl @ chart_emoji @ '' <b>'' @ txt_indicators @ '':</b>'' @ nl @
               bullet @ '' Momentum: '' @ ms @ '' '' @
                 momentum_label (get (momentum data) (PyInt 0)) @ nl @
               bullet @ '' VWAP: $'' @ vs @ nl @
               nl @ clock_emoji @ '' <b>'' @ txt_time @ '':</b> '' @ get (timestamp data) now @ nl @
               nl @ ''<i>'' @ txt_entry_footer @ ''</i>''"
proof -
  define D where "D = (if contains ''long'' (lower (get (signal_type data) ''unknown''))
                        then green_circle @ '' LONG'' else red_circle @ '' SHORT'')"
  from assms obtain ps ms vs where
    p: "format_f 6 (get (price data) (PyInt 0)) = Inr ps" and
    m: "format_f 2 (get (momentum data) (PyInt 0)) = Inr ms" and
    v: "format_f 6 (get (vwap data) (PyInt 0)) = Inr vs" and
    msg: "msg = strip (concat
             [nl, D, '' '', txt_entry_title, nl,
              nl, ''<b>'', txt_symbol, '':</b> '', get (symbol data) ''UNKNOWN'', nl,
              ''<b>'', txt_timeframe, '':</b> '', get (timeframe data) ''7m'', nl,
              ''<b>'', txt_price, '':</b> $'', ps, nl,
              nl, chart_emoji, '' <b>'', txt_indicators, '':</b>'', nl,
              bullet, '' Momentum: '', ms, '' '',
                momentum_label (get (momentum data) (PyInt 0)), nl,
              bullet, '' VWAP: $'', vs, nl,
              nl, clock_emoji, '' <b>'', txt_time, '':</b> '', get (timestamp data) now, nl,
              nl, ''<i>'', txt_entry_footer, ''</i>'', nl])"
    by (auto simp add: format_entry_signal_def Let_def bind_eq_Inr D_def)
  have "\<exists>D'. D = CHR 0xF0 # D'"
    by (cases "contains ''long'' (lower (get (signal_type data) ''unknown''))")
       (simp_all add: D_def green_circle_def red_circle_def utf8_def byte_F0)
  then obtain D' where D: "D = CHR 0xF0 # D'"
    by blast
  define A where "A = D' @ '' '' @ txt_entry_title @ nl @
              nl @ ''<b>'' @ txt_symbol @ '':</b> '' @ get (symbol data) ''UNKNOWN'' @ nl @
              ''<b>'' @ txt_timeframe @ '':</b> '' @ get (timeframe data) ''7m'' @ nl @
              ''<b>'' @ txt_price @ '':</b> $'' @ ps @ nl @
              nl @ chart_emoji @ '' <b>'' @ txt_indicators @ '':</b>'' @ nl @
              bullet @ '' Momentum: '' @ ms @ '' '' @
                momentum_label (get (momentum data) (PyInt 0)) @ nl @
              bullet @ '' VWAP: $'' @ vs @ nl @
              nl @ clock_emoji @ '' <b>'' @ txt_time @ '':</b> '' @ get (timestamp data) now @ nl @
              nl @ ''<i>'' @ txt_entry_footer @ ''</i''"
  have "msg = strip (CHR 0x0A # CHR 0xF0 # A @ CHR ''>'' # [CHR 0x0A])"
    unfolding msg by (simp add: nl_def D A_def)
  also have "\<dots> = CHR 0xF0 # A @ CHR ''>'' # rstrip [CHR 0x0A]"
    by (rule strip_kept)
  finally have "msg = D @ '' '' @ txt_entry_title @ nl @
              nl @ ''<b>'' @ txt_symbol @ '':</b> '' @ get (symbol data) ''UNKNOWN'' @ nl @
              ''<b>'' @ txt_timeframe @ '':</b> '' @ get (timeframe data) ''7m'' @ nl @
              ''<b>'' @ txt_price @ '':</b> $'' @ ps @ nl @
              nl @ chart_emoji @ '' <b>'' @ txt_indicators @ '':</b>'' @ nl @
              bullet @ '' Momentum: '' @ ms @ '' '' @
                momentum_label (get (momentum data) (PyInt 0)) @ nl @
              bullet @ '' VWAP: $'' @ vs @ nl @
              nl @ clock_emoji @ '' <b>'' @ txt_time @ '':</b> '' @ get (timestamp data) now @ nl @
              nl @ ''<i>'' @ txt_entry_footer @ ''</i>''"
    by (simp add: rstrip_newline D A_def)
  with p m v show ?thesis
    unfolding D_def by blast
qed

lemma entry_message_shape:
  assumes "format_entry_signal now data = Inr msg"
  shows "\<exists>pre post ms. format_f 2 (get (momentum data) (PyInt 0)) = Inr ms
           \<and> msg = pre @ '' Momentum: '' @ ms @ '' '' @
                   momentum_label (get (momentum data) (PyInt 0)) @ nl @ post"
proof -
  from entry_message_text [OF assms] obtain ps ms vs where
    m: "format_f 2 (get (momentum data) (PyInt 0)) = Inr ms" and
    msg: "msg =
               (if contains ''long'' (lower (get (signal_type data) ''unknown''))
                then green_circle @ '' LONG'' else red_circle @ '' SHORT'') @
               '' '' @ txt_entry_title @ nl @
               nl @ ''<b>'' @ txt_symbol @ '':</b> '' @ get (symbol data) ''UNKNOWN'' @ nl @
               ''<b>'' @ txt_timeframe @ '':</b> '' @ get (timeframe data) ''7m'' @ nl @
               ''<b>'' @ txt_price @ '':</b> $'' @ ps @ nl @
               nl @ chart_emoji @ '' <b>'' @ txt_indicators @ '':</b>'' @ nl @
               bullet @ '' Momentum: '' @ ms @ '' '' @
                 momentum_label (get (momentum data) (PyInt 0)) @ nl @
               bullet @ '' VWAP: $'' @ vs @ nl @
               nl @ clock_emoji @ '' <b>'' @ txt_time @ '':</b> '' @ get (timestamp data) now @ nl @
               nl @ ''<i>'' @ txt_entry_footer @ ''</i>''"
    by blast
  define pre where "pre =
               (if contains ''long'' (lower (get (signal_type data) ''unknown''))
                then green_circle @ '' LONG'' else red_circle @ '' SHORT'') @
               '' '' @ txt_entry_title @ nl @
               nl @ ''<b>'' @ txt_symbol @ '':</b> '' @ get (symbol data) ''UNKNOWN'' @ nl @
               ''<b>'' @ txt_timeframe @ '':</b> '' @ get (timeframe data) ''7m'' @ nl @
               ''<b>'' @ txt_price @ '':</b> $'' @ ps @ nl @
               nl @ chart_emoji @ '' <b>'' @ txt_indicators @ '':</b>'' @ nl @ bullet"
  define post where "post =
               bullet @ '' VWAP: $'' @ vs @ nl @
               nl @ clock_emoji @ '' <b>'' @ txt_time @ '':</b> '' @ get (timestamp data) now @ nl @
               nl @ ''<i>'' @ txt_entry_footer @ ''</i>''"
  have "msg = pre @ '' Momentum: '' @ ms @ '' '' @
                   momentum_label (get (momentum data) (PyInt 0)) @ nl @ post"
    unfolding msg pre_def post_def by simp
  with m show ?thesis
    by blast
qed

lemma risk_reward_steps:
  assumes "risk_reward dir entry tp sl = Inr (risk, reward)"
  shows "\<exists>d1 d2.
           (if upper dir = ''LONG''
            then py_sub entry sl = Inr d1 \<and> py_sub tp entry = Inr d2
            else py_sub sl entry = Inr d1 \<and> py_sub entry tp = Inr d2)
           \<and> risk = py_abs d1 \<and> reward = py_abs d2"
  using assms
  by (cases "upper dir = ''LONG''") (auto simp add: risk_reward_def bind_eq_Inr Let_def)

lemma exit_message_text:
  assumes "format_exit_signal now data = Inr msg"
  shows "\<exists>d1 d2 ratio tps sls ms rs.
           (if upper (get (direction data) ''LONG'') = ''LONG''
            then py_sub (get (entry_price data) (PyInt 0)) (get (sl_price data) (PyInt 0)) = Inr d1
               \<and> py_sub (get (tp_price data) (PyInt 0)) (get (entry_price data) (PyInt 0)) = Inr d2
            else py_sub (get (sl_price data) (PyInt 0)) (get (entry_price data) (PyInt 0)) = Inr d1
               \<and> py_sub (get (entry_price data) (PyInt 0)) (get (tp_price data) (PyInt 0)) = Inr d2)
           \<and> (if py_gt (py_abs d1) (PyInt 0) then py_truediv (py_abs d2) (py_abs d1)
                else Inr (PyInt 0)) = Inr ratio
           \<and> format_f 6 (get (tp_price data) (PyInt 0)) = Inr tps
           \<and> format_f 6 (get (sl_price data) (PyInt 0)) = Inr sls
           \<and> format_f 2 (get (momentum data) (PyInt 0)) = Inr ms
           \<and> format_f 2 ratio = Inr rs
           \<and> msg =
               (if upper (get (direction data) ''LONG'') = ''LONG''
                then green_circle else red_circle) @ '' '' @ txt_exit_title @ nl @
               nl @ ''<b>'' @ txt_symbol @ '':</b> '' @ get (symbol data) ''UNKNOWN'' @ nl @
               ''<b>'' @ txt_direction @ '':</b> '' @ upper (get (direction data) ''LONG'') @ nl @
               ''<b>'' @ txt_status @ '':</b> '' @ txt_accumulated @ nl @
               nl @ target_emoji @ '' <b>Take Profit:</b> $'' @ tps @ '' (VWAP)'' @ nl @
               shield_emoji @ '' <b>Stop Loss:</b> $'' @ sls @ '' (ATR)'' @ nl @
               nl @ chart_emoji @ '' <b>'' @ txt_analysis @ '':</b>'' @ nl @
               bullet @ '' Momentum: '' @ ms @ '' '' @ txt_left_zone @ nl @
               bullet @ '' Risk/Reward: 1:'' @ rs @ nl @
               bullet @ '' '' @ txt_leverage @ '': 5x'' @ nl @
               nl @ clock_emoji @ '' <b>'' @ txt_time @ '':</b>'' @
               rstrip ('' '' @ get (timestamp data) now @ nl)"
proof -
  define E where "E = (if upper (get (direction data) ''LONG'') = ''LONG''
                        then green_circle else red_circle)"
  from assms obtain risk reward ratio tps sls ms rs where
    rr: "risk_reward (get (direction data) ''LONG'') (get (entry_price data) (PyInt 0))
           (get (tp_price data) (PyInt 0)) (get (sl_price data) (PyInt 0)) = Inr (risk, reward)" and
    ra: "rr_ratio risk reward = Inr ratio" and
    tp: "format_f 6 (get (tp_price data) (PyInt 0)) = Inr tps" and
    sl: "format_f 6 (get (sl_price data) (PyInt 0)) = Inr sls" and
    mo: "format_f 2 (get (momentum data) (PyInt 0)) = Inr ms" and
    rs: "format_f 2 ratio = Inr rs" and
    msg: "msg = strip (concat
                [nl, E, '' '', txt_exit_title, nl,
                 nl, ''<b>'', txt_symbol, '':</b> '', get (symbol data) ''UNKNOWN'', nl,
                 ''<b>'', txt_direction, '':</b> '', upper (get (direction data) ''LONG''), nl,
                 ''<b>'', txt_status, '':</b> '', txt_accumulated, nl,
                 nl, target_emoji, '' <b>Take Profit:</b> $'', tps, '' (VWAP)'', nl,
                 shield_emoji, '' <b>Stop Loss:</b> $'', sls, '' (ATR)'', nl,
                 nl, chart_emoji, '' <b>'', txt_analysis, '':</b>'', nl,
                 bullet, '' Momentum: '', ms, '' '', txt_left_zone, nl,
                 bullet, '' Risk/Reward: 1:'', rs, nl,
                 bullet, '' '', txt_leverage, '': 5x'', nl,
                 nl, clock_emoji, '' <b>'', txt_time, '':</b> '', get (timestamp data) now, nl])"
    by (auto simp add: format_exit_signal_def Let_def bind_eq_Inr E_def)
  from risk_reward_steps [OF rr] obtain d1 d2 where
    st: "if upper (get (direction data) ''LONG'') = ''LONG''
         then py_sub (get (entry_price data) (PyInt 0)) (get (sl_price data) (PyInt 0)) = Inr d1
            \<and> py_sub (get (tp_price data) (PyInt 0)) (get (entry_price data) (PyInt 0)) = Inr d2
         else py_sub (get (sl_price data) (PyInt 0)) (get (entry_price data) (PyInt 0)) = Inr d1
            \<and> py_sub (get (entry_price data) (PyInt 0)) (get (tp_price data) (PyInt 0)) = Inr d2" and
    r1: "risk = py_abs d1" and r2: "reward = py_abs d2"
    by blast
  have ra': "(if py_gt (py_abs d1) (PyInt 0) then py_truediv (py_abs d2) (py_abs d1)
              else Inr (PyInt 0)) = Inr ratio"
    using ra by (simp add: rr_ratio_def r1 r2)
  have "\<exists>E'. E = CHR 0xF0 # E'"
    by (cases "upper (get (direction data) ''LONG'') = ''LONG''")
       (simp_all add: E_def green_circle_def red_circle_def utf8_def byte_F0)
  then obtain E' where E: "E = CHR 0xF0 # E'"
    by blast
  define A where "A = E' @ '' '' @ txt_exit_title @ nl @
                 nl @ ''<b>'' @ txt_symbol @ '':</b> '' @ get (symbol data) ''UNKNOWN'' @ nl @
                 ''<b>'' @ txt_direction @ '':</b> '' @ upper (get (direction data) ''LONG'') @ nl @
                 ''<b>'' @ txt_status @ '':</b> '' @ txt_accumulated @ nl @
                 nl @ target_emoji @ '' <b>Take Profit:</b> $'' @ tps @ '' (VWAP)'' @ nl @
                 shield_emoji @ '' <b>Stop Loss:</b> $'' @ sls @ '' (ATR)'' @ nl @
                 nl @ chart_emoji @ '' <b>'' @ txt_analysis @ '':</b>'' @ nl @
                 bullet @ '' Momentum: '' @ ms @ '' '' @ txt_left_zone @ nl @
                 bullet @ '' Risk/Reward: 1:'' @ rs @ nl @
                 bullet @ '' '' @ txt_leverage @ '': 5x'' @ nl @
                 nl @ clock_emoji @ '' <b>'' @ txt_time @ '':</b''"
  have "msg = strip (CHR 0x0A # CHR 0xF0 # A @ CHR ''>'' #
                       ('' '' @ get (timestamp data) now @ [CHR 0x0A]))"
    unfolding msg by (simp add: nl_def E A_def)
  also have "\<dots> = CHR 0xF0 # A @ CHR ''>'' # rstrip ('' '' @ get (timestamp data) now @ [CHR 0x0A])"
    by (rule strip_kept)
  finally have "msg = E @ '' '' @ txt_exit_title @ nl @
               nl @ ''<b>'' @ txt_symbol @ '':</b> '' @ get (symbol data) ''UNKNOWN'' @ nl @
               ''<b>'' @ txt_direction @ '':</b> '' @ upper (get (direction data) ''LONG'') @ nl @
               ''<b>'' @ txt_status @ '':</b> '' @ txt_accumulated @ nl @
               nl @ target_emoji @ '' <b>Take Profit:</b> $'' @ tps @ '' (VWAP)'' @ nl @
               shield_emoji @ '' <b>Stop Loss:</b> $'' @ sls @ '' (ATR)'' @ nl @
               nl @ chart_emoji @ '' <b>'' @ txt_analysis @ '':</b>'' @ nl @
               bullet @ '' Momentum: '' @ ms @ '' '' @ txt_left_zone @ nl @
               bullet @ '' Risk/Reward: 1:'' @ rs @ nl @
               bullet @ '' '' @ txt_leverage @ '': 5x'' @ nl @
               nl @ clock_emoji @ '' <b>'' @ txt_time @ '':</b>'' @
               rstrip ('' '' @ get (timestamp data) now @ nl)"
    by (simp add: E A_def nl_def)
  with st ra' tp sl mo rs show ?thesis
    unfolding E_def by blast
qed

section \<open>The momentum qualifier\<close>

lemma int_below_threshold: "py_lt (PyInt i) threshold = (i \<le> - 6)"
proof (cases "i \<le> - 6")
  case True
  then have "(of_int i :: rat) \<le> of_int (- 6)" by (simp only: of_int_le_iff)
  then have "(of_int i :: rat) < - 5742089524897382 / 2 ^ 50" by simp
  with True show ?thesis by (simp add: py_lt_def threshold_value)
next
  case False
  then have "- 5 \<le> i" by simp
  then have "(of_int (- 5) :: rat) \<le> of_int i" by (simp only: of_int_le_iff)
  then have "\<not> (of_int i :: rat) < - 5742089524897382 / 2 ^ 50" by simp
  with False show ?thesis by (simp add: py_lt_def threshold_value)
qed

lemma threshold_not_below: "\<not> py_lt threshold threshold"
  by (simp add: py_lt_def threshold_value)

lemma minus_5_3_below: "py_lt (PyFloat (round_double (- 53 / 10))) threshold"
  unfolding py_lt_def minus_5_3 threshold_value by simp

lemma plus_5_4_above: "\<not> py_lt (PyFloat (round_double (54 / 10))) threshold"
  unfolding py_lt_def plus_5_4 threshold_value by simp

text \<open>
  C9. The entry message holds, right after the formatted momentum, the label chosen by
  the comparison of the momentum with the float \<open>-5.1\<close>: the "below" label exactly
  when the momentum is strictly less, the "above" label otherwise (also for the
  threshold itself). For an integer momentum that is the case from -6 downwards. The
  momentum -5.3 of the test script gets the "below" label, 5.4 the "above" label.
\<close>

theorem momentum_qualifier:
  "(\<forall>now data msg. format_entry_signal now data = Inr msg \<longrightarrow>
      (\<exists>pre post ms. format_f 2 (get (momentum data) (PyInt 0)) = Inr ms
         \<and> msg = pre @ '' Momentum: '' @ ms @ '' '' @
                 momentum_label (get (momentum data) (PyInt 0)) @ nl @ post))
   \<and> (momentum_label m = txt_below) = py_lt m threshold
   \<and> (momentum_label m = txt_above) = (\<not> py_lt m threshold)
   \<and> py_lt (PyInt i) threshold = (i \<le> - 6)
   \<and> momentum_label threshold = txt_above
   \<and> momentum_label (PyFloat (round_double (- 53 / 10))) = txt_below
   \<and> momentum_label (PyFloat (round_double (54 / 10))) = txt_above"
  using entry_message_shape labels_differ int_below_threshold threshold_not_below
    minus_5_3_below plus_5_4_above
  by (simp add: momentum_label_def)

theorem momentum_qualifier_witness:
  "\<exists>msg. format_entry_signal t0 (test_entry_long t0) = Inr msg
     \<and> (\<exists>pre post ms.
           format_f 2 (get (momentum (test_entry_long t0)) (PyInt 0)) = Inr ms
           \<and> msg = pre @ '' Momentum: '' @ ms @ '' '' @
                   momentum_label (get (momentum (test_entry_long t0)) (PyInt 0)) @ nl @ post)"
proof -
  obtain msg where h: "format_entry_signal t0 (test_entry_long t0) = Inr msg"
    using entry_long_formats by blast
  from momentum_qualifier h show ?thesis
    by blast
qed

section \<open>The risk/reward ratio and the exit message\<close>






lemma positive_float_nonzero: "float_lt (Finite 0) f \<Longrightarrow> \<not> float_is_zero f"
  by (cases f) simp_all













lemma format_small_int: "\<bar>i\<bar> < 2 ^ 53 \<Longrightarrow> \<exists>s. format_f n (PyInt i) = Inr s"
  by (simp add: float_of_int_small)






lemma float_div_Inr: "\<not> float_is_zero y \<Longrightarrow> \<exists>f. float_div x y = Inr f"
  by (simp add: float_div_def)

lemma rr_ratio_floats: "\<exists>r rs. rr_ratio (PyFloat a) (PyFloat b) = Inr r \<and> format_f 2 r = Inr rs"
proof (cases "py_gt (PyFloat a) (PyInt 0)")
  case True
  then have "\<not> float_is_zero a"
    by (simp add: py_gt_def positive_float_nonzero)
  then obtain f where "float_div b a = Inr f"
    using float_div_Inr by blast
  with True show ?thesis
    by (simp add: rr_ratio_def)
next
  case False
  then show ?thesis
    by (simp add: rr_ratio_def float_of_int_small)
qed

lemma py_sub_float_right: "to_float x = Inr a \<Longrightarrow> py_sub x (PyFloat s) = Inr (PyFloat (float_sub a s))"
  by (cases x) simp_all

lemma py_sub_float_left: "to_float y = Inr b \<Longrightarrow> py_sub (PyFloat t) y = Inr (PyFloat (float_sub t b))"
  by (cases y) simp_all

lemma exit_formats:
  assumes "to_float (get (entry_price data) (PyInt 0)) = Inr e"
    and "tp_price data = Some (PyFloat t)" and "sl_price data = Some (PyFloat s)"
    and "momentum data = Some (PyFloat m)"
  shows "\<exists>msg. format_exit_signal now data = Inr msg"
proof -
  have subs:
    "py_sub (get (entry_price data) (PyInt 0)) (PyFloat s) = Inr (PyFloat (float_sub e s))"
    "py_sub (PyFloat t) (get (entry_price data) (PyInt 0)) = Inr (PyFloat (float_sub t e))"
    "py_sub (PyFloat s) (get (entry_price data) (PyInt 0)) = Inr (PyFloat (float_sub s e))"
    "py_sub (get (entry_price data) (PyInt 0)) (PyFloat t) = Inr (PyFloat (float_sub e t))"
    using assms(1) by (simp_all add: py_sub_float_right py_sub_float_left)
  show ?thesis
  proof (cases "upper (get (direction data) ''LONG'') = ''LONG''")
    case True
    obtain r rs where "rr_ratio (PyFloat (float_abs (float_sub e s)))
                         (PyFloat (float_abs (float_sub t e))) = Inr r"
        and "format_f 2 r = Inr rs"
      using rr_ratio_floats by blast
    with True show ?thesis
      using assms(2-4) subs by (simp add: format_exit_signal_def risk_reward_def Let_def)
  next
    case False
    obtain r rs where "rr_ratio (PyFloat (float_abs (float_sub s e)))
                         (PyFloat (float_abs (float_sub e t))) = Inr r"
        and "format_f 2 r = Inr rs"
      using rr_ratio_floats by blast
    with False show ?thesis
      using assms(2-4) subs by (simp add: format_exit_signal_def risk_reward_def Let_def)
  qed
qed

lemma exit_long_stored_formats:
  "\<exists>msg. format_exit_signal now (merged held_long (test_exit_long ts)) = Inr msg"
  by (rule exit_formats [where e = "Finite (90001 / 2)" and t = "Finite 45100"
        and s = "Finite 44000" and m = "round_double (- 48 / 10)"])
     (simp_all add: merged_def held_long_def test_exit_long_def blank_def)

lemma exit_long_bare_formats: "\<exists>msg. format_exit_signal now (test_exit_long ts) = Inr msg"
  by (rule exit_formats [where e = "Finite 0" and t = "Finite 45100"
        and s = "Finite 44000" and m = "round_double (- 48 / 10)"])
     (simp_all add: test_exit_long_def blank_def float_of_int_small)

lemma exit_sent:
  assumes "\<not> is_entry p" and "is_exit p"
    and "Sent msg \<in> set (trace (webhook_handler now now' p ps))"
  shows "format_exit_signal now
           (case ps (get (symbol p) []) of None \<Rightarrow> p | Some st \<Rightarrow> merged st p) = Inr msg"
  using assms
  by (auto simp add: webhook_handler_def is_entry_def is_exit_def failure_def Let_def
      split: sum.splits option.splits)

lemma exit_sends:
  assumes "\<not> is_entry p" and "is_exit p"
    and "format_exit_signal now
           (case ps (get (symbol p) []) of None \<Rightarrow> p | Some st \<Rightarrow> merged st p) = Inr msg"
  shows "Sent msg \<in> set (trace (webhook_handler now now' p ps))"
  using assms
  by (auto simp add: webhook_handler_def is_entry_def is_exit_def failure_def Let_def
      split: sum.splits option.splits)

lemma exit_message_shape:
  assumes "format_exit_signal now data = Inr msg"
  shows "\<exists>d1 d2 ratio rs mid post.
           (if upper (get (direction data) ''LONG'') = ''LONG''
            then py_sub (get (entry_price data) (PyInt 0)) (get (sl_price data) (PyInt 0)) = Inr d1
               \<and> py_sub (get (tp_price data) (PyInt 0)) (get (entry_price data) (PyInt 0)) = Inr d2
            else py_sub (get (sl_price data) (PyInt 0)) (get (entry_price data) (PyInt 0)) = Inr d1
               \<and> py_sub (get (entry_price data) (PyInt 0)) (get (tp_price data) (PyInt 0)) = Inr d2)
           \<and> (if py_gt (py_abs d1) (PyInt 0) then py_truediv (py_abs d2) (py_abs d1)
                else Inr (PyInt 0)) = Inr ratio
           \<and> format_f 2 ratio = Inr rs
           \<and> msg =
               (if upper (get (direction data) ''LONG'') = ''LONG''
                then green_circle else red_circle) @ '' '' @ txt_exit_title @ nl @
               nl @ ''<b>'' @ txt_symbol @ '':</b> '' @ get (symbol data) ''UNKNOWN'' @ nl @
               ''<b>'' @ txt_direction @ '':</b> '' @ upper (get (direction data) ''LONG'') @ nl @
               mid @ bullet @ '' Risk/Reward: 1:'' @ rs @ nl @ post"
proof -
  from exit_message_text [OF assms] obtain d1 d2 ratio tps sls ms rs where
    st: "if upper (get (direction data) ''LONG'') = ''LONG''
         then py_sub (get (entry_price data) (PyInt 0)) (get (sl_price data) (PyInt 0)) = Inr d1
            \<and> py_sub (get (tp_price data) (PyInt 0)) (get (entry_price data) (PyInt 0)) = Inr d2
         else py_sub (get (sl_price data) (PyInt 0)) (get (entry_price data) (PyInt 0)) = Inr d1
            \<and> py_sub (get (entry_price data) (PyInt 0)) (get (tp_price data) (PyInt 0)) = Inr d2" and
    ra: "(if py_gt (py_abs d1) (PyInt 0) then py_truediv (py_abs d2) (py_abs d1)
          else Inr (PyInt 0)) = Inr ratio" and
    rs: "format_f 2 ratio = Inr rs" and
    msg: "msg =
               (if upper (get (direction data) ''LONG'') = ''LONG''
                then green_circle else red_circle) @ '' '' @ txt_exit_title @ nl @
               nl @ ''<b>'' @ txt_symbol @ '':</b> '' @ get (symbol data) ''UNKNOWN'' @ nl @
               ''<b>'' @ txt_direction @ '':</b> '' @ upper (get (direction data) ''LONG'') @ nl @
               ''<b>'' @ txt_status @ '':</b> '' @ txt_accumulated @ nl @
               nl @ target_emoji @ '' <b>Take Profit:</b> $'' @ tps @ '' (VWAP)'' @ nl @
               shield_emoji @ '' <b>Stop Loss:</b> $'' @ sls @ '' (ATR)'' @ nl @
               nl @ chart_emoji @ '' <b>'' @ txt_analysis @ '':</b>'' @ nl @
               bullet @ '' Momentum: '' @ ms @ '' '' @ txt_left_zone @ nl @
               bullet @ '' Risk/Reward: 1:'' @ rs @ nl @
               bullet @ '' '' @ txt_leverage @ '': 5x'' @ nl @
               nl @ clock_emoji @ '' <b>'' @ txt_time @ '':</b>'' @
               rstrip ('' '' @ get (timestamp data) now @ nl)"
    by blast
  define mid where "mid =
               ''<b>'' @ txt_status @ '':</b> '' @ txt_accumulated @ nl @
               nl @ target_emoji @ '' <b>Take Profit:</b> $'' @ tps @ '' (VWAP)'' @ nl @
               shield_emoji @ '' <b>Stop Loss:</b> $'' @ sls @ '' (ATR)'' @ nl @
               nl @ chart_emoji @ '' <b>'' @ txt_analysis @ '':</b>'' @ nl @
               bullet @ '' Momentum: '' @ ms @ '' '' @ txt_left_zone @ nl"
  define post where "post =
               bullet @ '' '' @ txt_leverage @ '': 5x'' @ nl @
               nl @ clock_emoji @ '' <b>'' @ txt_time @ '':</b>'' @
               rstrip ('' '' @ get (timestamp data) now @ nl)"
  have "msg =
               (if upper (get (direction data) ''LONG'') = ''LONG''
                then green_circle else red_circle) @ '' '' @ txt_exit_title @ nl @
               nl @ ''<b>'' @ txt_symbol @ '':</b> '' @ get (symbol data) ''UNKNOWN'' @ nl @
               ''<b>'' @ txt_direction @ '':</b> '' @ upper (get (direction data) ''LONG'') @ nl @
               mid @ bullet @ '' Risk/Reward: 1:'' @ rs @ nl @ post"
    unfolding msg mid_def post_def by simp
  with st ra rs show ?thesis
    by blast
qed

lemma exit_message_shape_at:
  assumes "format_exit_signal now data = Inr msg"
    and "get (direction data) ''LONG'' = dir" and "get (entry_price data) (PyInt 0) = ent"
    and "get (tp_price data) (PyInt 0) = tp" and "get (sl_price data) (PyInt 0) = sl"
    and "get (symbol data) ''UNKNOWN'' = smb"
  shows "\<exists>d1 d2 ratio rs mid post.
           (if upper dir = ''LONG''
            then py_sub ent sl = Inr d1 \<and> py_sub tp ent = Inr d2
            else py_sub sl ent = Inr d1 \<and> py_sub ent tp = Inr d2)
           \<and> (if py_gt (py_abs d1) (PyInt 0) then py_truediv (py_abs d2) (py_abs d1)
                else Inr (PyInt 0)) = Inr ratio
           \<and> format_f 2 ratio = Inr rs
           \<and> msg =
               (if upper dir = ''LONG'' then green_circle else red_circle) @
               '' '' @ txt_exit_title @ nl @
               nl @ ''<b>'' @ txt_symbol @ '':</b> '' @ smb @ nl @
               ''<b>'' @ txt_direction @ '':</b> '' @ upper dir @ nl @
               mid @ bullet @ '' Risk/Reward: 1:'' @ rs @ nl @ post"
  using exit_message_shape [OF assms(1)]
  unfolding assms(2) assms(3) assms(4) assms(5) assms(6) .


section \<open>Properties of the exit branch\<close>

text \<open>
  C1. On an exit signal whose symbol has a stored state, the direction and the entry
  price of the payload have no influence on the outcome: the handler formats the payload
  with the stored direction and entry price put in their place. Every message it hands
  over opens with the emoji of the stored direction, shows the stored direction (in upper
  case) on its direction line, and shows on its risk/reward line the ratio computed from
  the stored entry price: the differences to the stop loss and the take profit taken in
  the order the stored direction asks for, their absolute values as risk and reward,
  reward over risk when the risk is positive and 0 otherwise, formatted with two decimals.
\<close>

theorem exit_uses_stored_state:
  assumes "\<not> is_entry p" and "is_exit p" and "ps (get (symbol p) '''') = Some st"
  shows "webhook_handler now now' (p\<lparr>direction := d, entry_price := e\<rparr>) ps
           = webhook_handler now now' p ps
       \<and> (\<exists>rest. trace (webhook_handler now now' p ps) =
            (case format_exit_signal now
                    (p\<lparr>direction := Some (held_direction st),
                       entry_price := Some (held_entry_price st)\<rparr>) of
               Inl err \<Rightarrow> Failed err | Inr m \<Rightarrow> Sent m) # rest)
       \<and> (\<forall>msg. Sent msg \<in> set (trace (webhook_handler now now' p ps)) \<longrightarrow>
            (\<exists>d1 d2 ratio rs mid post.
               (if upper (held_direction st) = ''LONG''
                then py_sub (held_entry_price st) (get (sl_price p) (PyInt 0)) = Inr d1
                   \<and> py_sub (get (tp_price p) (PyInt 0)) (held_entry_price st) = Inr d2
                else py_sub (get (sl_price p) (PyInt 0)) (held_entry_price st) = Inr d1
                   \<and> py_sub (held_entry_price st) (get (tp_price p) (PyInt 0)) = Inr d2)
               \<and> (if py_gt (py_abs d1) (PyInt 0) then py_truediv (py_abs d2) (py_abs d1)
                    else Inr (PyInt 0)) = Inr ratio
               \<and> format_f 2 ratio = Inr rs
               \<and> msg =
                   (if upper (held_direction st) = ''LONG'' then green_circle else red_circle) @
                   '' '' @ txt_exit_title @ nl @
                   nl @ ''<b>'' @ txt_symbol @ '':</b> '' @ get (symbol p) ''UNKNOWN'' @ nl @
                   ''<b>'' @ txt_direction @ '':</b> '' @ upper (held_direction st) @ nl @
                   mid @ bullet @ '' Risk/Reward: 1:'' @ rs @ nl @ post))"
proof (intro conjI allI impI)
  show "webhook_handler now now' (p\<lparr>direction := d, entry_price := e\<rparr>) ps
          = webhook_handler now now' p ps"
    using assms
    by (simp add: webhook_handler_def is_entry_def is_exit_def failure_def merged_def Let_def
        split: sum.splits)
next
  show "\<exists>rest. trace (webhook_handler now now' p ps) =
            (case format_exit_signal now
                    (p\<lparr>direction := Some (held_direction st),
                       entry_price := Some (held_entry_price st)\<rparr>) of
               Inl err \<Rightarrow> Failed err | Inr m \<Rightarrow> Sent m) # rest"
    using assms
    by (simp add: webhook_handler_def is_entry_def is_exit_def failure_def merged_def Let_def
        split: sum.splits)
next
  fix msg
  assume "Sent msg \<in> set (trace (webhook_handler now now' p ps))"
  from exit_sent [OF assms(1) assms(2) this]
  have "format_exit_signal now
          (p\<lparr>direction := Some (held_direction st),
             entry_price := Some (held_entry_price st)\<rparr>) = Inr msg"
    using assms(3) by (simp add: merged_def)
  then show "\<exists>d1 d2 ratio rs mid post.
               (if upper (held_direction st) = ''LONG''
                then py_sub (held_entry_price st) (get (sl_price p) (PyInt 0)) = Inr d1
                   \<and> py_sub (get (tp_price p) (PyInt 0)) (held_entry_price st) = Inr d2
                else py_sub (get (sl_price p) (PyInt 0)) (held_entry_price st) = Inr d1
                   \<and> py_sub (held_entry_price st) (get (tp_price p) (PyInt 0)) = Inr d2)
               \<and> (if py_gt (py_abs d1) (PyInt 0) then py_truediv (py_abs d2) (py_abs d1)
                    else Inr (PyInt 0)) = Inr ratio
               \<and> format_f 2 ratio = Inr rs
               \<and> msg =
                   (if upper (held_direction st) = ''LONG'' then green_circle else red_circle) @
                   '' '' @ txt_exit_title @ nl @
                   nl @ ''<b>'' @ txt_symbol @ '':</b> '' @ get (symbol p) ''UNKNOWN'' @ nl @
                   ''<b>'' @ txt_direction @ '':</b> '' @ upper (held_direction st) @ nl @
                   mid @ bullet @ '' Risk/Reward: 1:'' @ rs @ nl @ post"
    by (rule exit_message_shape_at) simp_all
qed

theorem exit_uses_stored_state_witness:
  "\<exists>msg. \<not> is_entry (test_exit_long t0) \<and> is_exit (test_exit_long t0)
     \<and> [''BTCUSDT'' \<mapsto> held_long] (get (symbol (test_exit_long t0)) '''') = Some held_long
     \<and> Sent msg \<in> set (trace (webhook_handler t0 t1 (test_exit_long t0)
                               [''BTCUSDT'' \<mapsto> held_long]))
     \<and> webhook_handler t0 t1
          ((test_exit_long t0)\<lparr>direction := Some ''SHORT'', entry_price := Some (PyInt 1)\<rparr>)
          [''BTCUSDT'' \<mapsto> held_long]
         = webhook_handler t0 t1 (test_exit_long t0) [''BTCUSDT'' \<mapsto> held_long]
     \<and> (\<exists>d1 d2 ratio rs mid post.
           (if upper (held_direction held_long) = ''LONG''
            then py_sub (held_entry_price held_long)
                   (get (sl_price (test_exit_long t0)) (PyInt 0)) = Inr d1
               \<and> py_sub (get (tp_price (test_exit_long t0)) (PyInt 0))
                   (held_entry_price held_long) = Inr d2
            else py_sub (get (sl_price (test_exit_long t0)) (PyInt 0))
                   (held_entry_price held_long) = Inr d1
               \<and> py_sub (held_entry_price held_long)
                   (get (tp_price (test_exit_long t0)) (PyInt 0)) = Inr d2)
           \<and> (if py_gt (py_abs d1) (PyInt 0) then py_truediv (py_abs d2) (py_abs d1)
                else Inr (PyInt 0)) = Inr ratio
           \<and> format_f 2 ratio = Inr rs
           \<and> msg =
               (if upper (held_direction held_long) = ''LONG''
                then green_circle else red_circle) @
               '' '' @ txt_exit_title @ nl @
               nl @ ''<b>'' @ txt_symbol @ '':</b> '' @
                 get (symbol (test_exit_long t0)) ''UNKNOWN'' @ nl @
               ''<b>'' @ txt_direction @ '':</b> '' @ upper (held_direction held_long) @ nl @
               mid @ bullet @ '' Risk/Reward: 1:'' @ rs @ nl @ post)"
proof -
  have h1: "\<not> is_entry (test_exit_long t0)" and h2: "is_exit (test_exit_long t0)"
    using exit_long_is_exit by blast+
  have h3: "[''BTCUSDT'' \<mapsto> held_long] (get (symbol (test_exit_long t0)) '''') = Some held_long"
    by (simp add: exit_long_symbol)
  obtain msg where "format_exit_signal t0 (merged held_long (test_exit_long t0)) = Inr msg"
    using exit_long_stored_formats by blast
  then have h4: "Sent msg \<in> set (trace (webhook_handler t0 t1 (test_exit_long t0)
                                    [''BTCUSDT'' \<mapsto> held_long]))"
    using exit_sends [OF h1 h2, of t0 "[''BTCUSDT'' \<mapsto> held_long]" msg t1] h3 by simp
  from exit_uses_stored_state
         [where p = "test_exit_long t0" and ps = "[''BTCUSDT'' \<mapsto> held_long]"
            and st = held_long and now = t0 and now' = t1
            and d = "Some ''SHORT''" and e = "Some (PyInt 1)", OF h1 h2 h3]
       h1 h2 h3 h4
  show ?thesis
    by blast
qed

text \<open>
  C7. On an exit signal whose symbol has no stored state, the payload is formatted as it
  is, an absent direction counting as "LONG" and an absent entry price as 0: every
  message handed over opens with the emoji of that direction, shows it (in upper case)
  on its direction line, and shows on its risk/reward line the ratio computed from that
  entry price. Nothing is written to the store, and the symbol still has no state
  afterwards.
\<close>

theorem exit_without_state:
  assumes "\<not> is_entry p" and "is_exit p" and "ps (get (symbol p) '''') = None"
  shows "webhook_handler now now' p ps =
           (case format_exit_signal now p of
              Inl e \<Rightarrow>
                \<lparr>response = HTTPException 500 (str_of e), positions = ps, trace = [Failed e]\<rparr>
            | Inr m \<Rightarrow> \<lparr>response = success, positions = ps, trace = [Sent m]\<rparr>)
       \<and> format_exit_signal now p =
           format_exit_signal now
             (p\<lparr>direction := Some (get (direction p) ''LONG''),
                entry_price := Some (get (entry_price p) (PyInt 0))\<rparr>)
       \<and> positions (webhook_handler now now' p ps) (get (symbol p) '''') = None
       \<and> (\<forall>msg. Sent msg \<in> set (trace (webhook_handler now now' p ps)) \<longrightarrow>
            (\<exists>d1 d2 ratio rs mid post.
               (if upper (get (direction p) ''LONG'') = ''LONG''
                then py_sub (get (entry_price p) (PyInt 0)) (get (sl_price p) (PyInt 0)) = Inr d1
                   \<and> py_sub (get (tp_price p) (PyInt 0)) (get (entry_price p) (PyInt 0)) = Inr d2
                else py_sub (get (sl_price p) (PyInt 0)) (get (entry_price p) (PyInt 0)) = Inr d1
                   \<and> py_sub (get (entry_price p) (PyInt 0)) (get (tp_price p) (PyInt 0)) = Inr d2)
               \<and> (if py_gt (py_abs d1) (PyInt 0) then py_truediv (py_abs d2) (py_abs d1)
                    else Inr (PyInt 0)) = Inr ratio
               \<and> format_f 2 ratio = Inr rs
               \<and> msg =
                   (if upper (get (direction p) ''LONG'') = ''LONG''
                    then green_circle else red_circle) @
                   '' '' @ txt_exit_title @ nl @
                   nl @ ''<b>'' @ txt_symbol @ '':</b> '' @ get (symbol p) ''UNKNOWN'' @ nl @
                   ''<b>'' @ txt_direction @ '':</b> '' @ upper (get (direction p) ''LONG'') @ nl @
                   mid @ bullet @ '' Risk/Reward: 1:'' @ rs @ nl @ post))"
proof (intro conjI allI impI)
  show "webhook_handler now now' p ps =
           (case format_exit_signal now p of
              Inl e \<Rightarrow>
                \<lparr>response = HTTPException 500 (str_of e), positions = ps, trace = [Failed e]\<rparr>
            | Inr m \<Rightarrow> \<lparr>response = success, positions = ps, trace = [Sent m]\<rparr>)"
    using assms
    by (simp add: webhook_handler_def is_entry_def is_exit_def failure_def Let_def
        split: sum.splits)
next
  show "format_exit_signal now p =
           format_exit_signal now
             (p\<lparr>direction := Some (get (direction p) ''LONG''),
                entry_price := Some (get (entry_price p) (PyInt 0))\<rparr>)"
    by (simp add: format_exit_signal_def)
next
  show "positions (webhook_handler now now' p ps) (get (symbol p) '''') = None"
    using assms
    by (simp add: webhook_handler_def is_entry_def is_exit_def failure_def Let_def
        split: sum.splits)
next
  fix msg
  assume "Sent msg \<in> set (trace (webhook_handler now now' p ps))"
  from exit_sent [OF assms(1) assms(2) this]
  have "format_exit_signal now p = Inr msg"
    using assms(3) by simp
  from exit_message_shape [OF this]
  show "\<exists>d1 d2 ratio rs mid post.
               (if upper (get (direction p) ''LONG'') = ''LONG''
                then py_sub (get (entry_price p) (PyInt 0)) (get (sl_price p) (PyInt 0)) = Inr d1
                   \<and> py_sub (get (tp_price p) (PyInt 0)) (get (entry_price p) (PyInt 0)) = Inr d2
                else py_sub (get (sl_price p) (PyInt 0)) (get (entry_price p) (PyInt 0)) = Inr d1
                   \<and> py_sub (get (entry_price p) (PyInt 0)) (get (tp_price p) (PyInt 0)) = Inr d2)
               \<and> (if py_gt (py_abs d1) (PyInt 0) then py_truediv (py_abs d2) (py_abs d1)
                    else Inr (PyInt 0)) = Inr ratio
               \<and> format_f 2 ratio = Inr rs
               \<and> msg =
                   (if upper (get (direction p) ''LONG'') = ''LONG''
                    then green_circle else red_circle) @
                   '' '' @ txt_exit_title @ nl @
                   nl @ ''<b>'' @ txt_symbol @ '':</b> '' @ get (symbol p) ''UNKNOWN'' @ nl @
                   ''<b>'' @ txt_direction @ '':</b> '' @ upper (get (direction p) ''LONG'') @ nl @
                   mid @ bullet @ '' Risk/Reward: 1:'' @ rs @ nl @ post"
    .
qed

theorem exit_without_state_witness:
  "\<exists>msg. \<not> is_entry (test_exit_long t0) \<and> is_exit (test_exit_long t0)
     \<and> Map.empty (get (symbol (test_exit_long t0)) '''') = (None :: position option)
     \<and> Sent msg \<in> set (trace (webhook_handler t0 t1 (test_exit_long t0) Map.empty))
     \<and> positions (webhook_handler t0 t1 (test_exit_long t0) Map.empty)
          (get (symbol (test_exit_long t0)) '''') = None
     \<and> (\<exists>d1 d2 ratio rs mid post.
           (if upper (get (direction (test_exit_long t0)) ''LONG'') = ''LONG''
            then py_sub (get (entry_price (test_exit_long t0)) (PyInt 0))
                   (get (sl_price (test_exit_long t0)) (PyInt 0)) = Inr d1
               \<and> py_sub (get (tp_price (test_exit_long t0)) (PyInt 0))
                   (get (entry_price (test_exit_long t0)) (PyInt 0)) = Inr d2
            else py_sub (get (sl_price (test_exit_long t0)) (PyInt 0))
                   (get (entry_price (test_exit_long t0)) (PyInt 0)) = Inr d1
               \<and> py_sub (get (entry_price (test_exit_long t0)) (PyInt 0))
                   (get (tp_price (test_exit_long t0)) (PyInt 0)) = Inr d2)
           \<and> (if py_gt (py_abs d1) (PyInt 0) then py_truediv (py_abs d2) (py_abs d1)
                else Inr (PyInt 0)) = Inr ratio
           \<and> format_f 2 ratio = Inr rs
           \<and> msg =
               (if upper (get (direction (test_exit_long t0)) ''LONG'') = ''LONG''
                then green_circle else red_circle) @
               '' '' @ txt_exit_title @ nl @
               nl @ ''<b>'' @ txt_symbol @ '':</b> '' @
                 get (symbol (test_exit_long t0)) ''UNKNOWN'' @ nl @
               ''<b>'' @ txt_direction @ '':</b> '' @
                 upper (get (direction (test_exit_long t0)) ''LONG'') @ nl @
               mid @ bullet @ '' Risk/Reward: 1:'' @ rs @ nl @ post)"
proof -
  have h1: "\<not> is_entry (test_exit_long t0)" and h2: "is_exit (test_exit_long t0)"
    using exit_long_is_exit by blast+
  have h3: "Map.empty (get (symbol (test_exit_long t0)) '''') = (None :: position option)"
    by simp
  obtain msg where "format_exit_signal t0 (test_exit_long t0) = Inr msg"
    using exit_long_bare_formats by blast
  then have h4: "Sent msg \<in> set (trace (webhook_handler t0 t1 (test_exit_long t0) Map.empty))"
    using exit_sends [OF h1 h2, of t0 Map.empty msg t1] by simp
  from exit_without_state
         [where p = "test_exit_long t0" and ps = Map.empty and now = t0 and now' = t1,
          OF h1 h2 h3]
       h1 h2 h3 h4
  show ?thesis
    by blast
qed



end
